theory Spec2Isabelle
  imports Complex_Main
begin

section \<open>Tensors\<close>

text \<open>
  A tensor is its shape together with its entries in row-major order, as a contiguous
  \<^verbatim>\<open>torch.Tensor\<close> is. Floating-point entries are modelled by real numbers, index
  entries (\<^verbatim>\<open>torch.long\<close>) by integers. \<^verbatim>\<open>t.size()\<close> is \<open>shape t\<close> and
  \<^verbatim>\<open>t.dim()\<close> is \<open>dim t\<close>.
\<close>

datatype 'a tensor = Tensor (shape: "nat list") (data: "'a list")

definition dim :: "'a tensor \<Rightarrow> nat" where
  "dim t = length (shape t)"

definition wf_tensor :: "'a tensor \<Rightarrow> bool" where
  "wf_tensor t \<longleftrightarrow> length (data t) = prod_list (shape t)"

section \<open>Checkpoint restore: \<^verbatim>\<open>util/pytorch_misc.py\<close>\<close>

subsection \<open>Python's \<^verbatim>\<open>str.replace\<close>\<close>

text \<open>
  \<^verbatim>\<open>s.replace(old, new)\<close> replaces the non-overlapping occurrences of \<open>old\<close> from left to
  right; with an empty \<open>old\<close> it puts \<open>new\<close> before every character and at the end.
\<close>

function replace_scan :: "string \<Rightarrow> string \<Rightarrow> string \<Rightarrow> string" where
  "replace_scan old new [] = []"
| "replace_scan old new (c # cs) =
     (if old \<noteq> [] \<and> take (length old) (c # cs) = old
      then new @ replace_scan old new (drop (length old) (c # cs))
      else c # replace_scan old new cs)"
  by pat_completeness auto
termination
  by (relation "measure (\<lambda>(old, new, s). length s)") (auto simp: neq_Nil_conv)

definition py_replace :: "string \<Rightarrow> string \<Rightarrow> string \<Rightarrow> string" where
  "py_replace s old new =
     (if old = [] then new @ concat (map (\<lambda>c. c # new) s) else replace_scan old new s)"

subsection \<open>\<^verbatim>\<open>optimistic_restore\<close>\<close>

text \<open>
  A tensor is an object with storage, and \<^verbatim>\<open>copy_\<close> writes that storage in place. The
  memory gives the tensor stored at each address. The ordered dictionaries
  \<^verbatim>\<open>network.state_dict()\<close> and \<^verbatim>\<open>state_dict\<close> are association lists, in iteration order,
  from names to the addresses of their tensors: two names can hold one tensor (\<^verbatim>\<open>gat\<close>
  sets \<^verbatim>\<open>self.lin_r = self.lin_l\<close>, so \<^verbatim>\<open>lin_l.weight\<close> and \<^verbatim>\<open>lin_r.weight\<close> are one
  tensor of its state dict), and a tensor of \<^verbatim>\<open>state_dict\<close> can be one of the network's. A
  tensor is shared as a whole or not at all: views onto a part of another tensor's storage
  are outside the model. \<^verbatim>\<open>names_map\<close> is an association list too. Every \<^verbatim>\<open>print\<close> appends
  one message to the output.
\<close>

type_synonym address = nat
type_synonym 'a memory = "address \<Rightarrow> 'a tensor"
type_synonym state_dict = "(string \<times> address) list"

datatype message =
    CouldNotRestore
  | UnexpectedKey string "nat list"
  | SizeMismatch string "nat list" "nat list"
  | DetectorRestored bool nat
  | CouldntFind "string set"

record 'a restore_state =
  mismatch :: bool
  only_detector :: bool
  own_state :: state_dict
  state_dict_keys_new :: "string set"
  printed :: "message list"
  memory :: "'a memory"

text \<open>The inner loop over \<^verbatim>\<open>names_map.items()\<close>; \<^verbatim>\<open>names_map=None\<close> is \<open>None\<close>.\<close>

definition rename :: "(string \<times> string) list option \<Rightarrow> string \<Rightarrow> string" where
  "rename names_map name =
     (case names_map of
        None \<Rightarrow> name
      | Some items \<Rightarrow> foldl (\<lambda>n (name_old, name_new). py_replace n name_old name_new) name items)"

definition has_key :: "state_dict \<Rightarrow> string \<Rightarrow> bool" where
  "has_key d k \<longleftrightarrow> k \<in> fst ` set d"

text \<open>
  \<^verbatim>\<open>dst.copy_(src)\<close> for tensors of equal size: the tensor at the address of \<open>dst\<close> keeps its
  shape and takes the entries of \<open>src\<close>. Every name that holds the tensor at that address
  sees the new entries.
\<close>

definition tensor_copy :: "'a tensor \<Rightarrow> 'a tensor \<Rightarrow> 'a tensor" where
  "tensor_copy dst src = Tensor (shape dst) (data src)"

definition copy_into :: "'a memory \<Rightarrow> address \<Rightarrow> address \<Rightarrow> 'a memory" where
  "copy_into m dst src = m(dst := tensor_copy (m dst) (m src))"

text \<open>
  The test \<^verbatim>\<open>name2 in own_state and name_ not in own_state\<close>, with
  \<^verbatim>\<open>name2 = 'detector.' + name_\<close>.
\<close>

definition redirects :: "state_dict \<Rightarrow> string \<Rightarrow> bool" where
  "redirects own name' \<longleftrightarrow> has_key own (''detector.'' @ name') \<and> \<not> has_key own name'"

text \<open>The first \<^verbatim>\<open>if\<close> of the loop body: it chooses \<^verbatim>\<open>name\<close> and sets the flags.\<close>

definition choose_name :: "'a restore_state \<Rightarrow> string \<Rightarrow> string \<times> 'a restore_state" where
  "choose_name st name' =
     (if redirects (own_state st) name'
      then (''detector.'' @ name', st\<lparr>only_detector := True\<rparr>)
      else (name',
            (if only_detector st
             then st\<lparr>printed := printed st @ [CouldNotRestore], mismatch := True\<rparr>
             else st)\<lparr>only_detector := False\<rparr>))"

text \<open>
  The second \<^verbatim>\<open>if\<close> of the loop body: unexpected key, copy, or size mismatch. \<open>param\<close> is the
  address of the tensor of the entry.
\<close>

definition restore_param :: "'a restore_state \<Rightarrow> string \<Rightarrow> address \<Rightarrow> 'a restore_state" where
  "restore_param st name param =
     (case map_of (own_state st) name of
        None \<Rightarrow>
          st\<lparr>printed := printed st @ [UnexpectedKey name (shape (memory st param))],
             mismatch := True\<rparr>
      | Some own \<Rightarrow>
          if shape (memory st param) = shape (memory st own)
          then st\<lparr>memory := copy_into (memory st) own param\<rparr>
          else st\<lparr>printed := printed st
                     @ [SizeMismatch name (shape (memory st own)) (shape (memory st param))],
                  mismatch := True\<rparr>)"

text \<open>One iteration of the loop over \<^verbatim>\<open>state_dict.items()\<close>.\<close>

definition restore_step ::
  "(string \<times> string) list option \<Rightarrow> 'a restore_state \<Rightarrow> string \<times> address \<Rightarrow> 'a restore_state"
where
  "restore_step names_map st item =
     (let name' = rename names_map (fst item);
          st1 = st\<lparr>state_dict_keys_new := insert name' (state_dict_keys_new st)\<rparr>;
          chosen = choose_name st1 name'
      in restore_param (snd chosen) (fst chosen) (snd item))"

text \<open>The locals before the loop; \<open>network\<close> is \<^verbatim>\<open>network.state_dict()\<close>.\<close>

definition restore_init :: "'a memory \<Rightarrow> state_dict \<Rightarrow> 'a restore_state" where
  "restore_init m network =
     \<lparr>mismatch = False, only_detector = False, own_state = network,
      state_dict_keys_new = {}, printed = [], memory = m\<rparr>"

definition restore_finish :: "nat \<Rightarrow> 'a restore_state \<Rightarrow> 'a restore_state" where
  "restore_finish n st =
     (if only_detector st
      then st\<lparr>printed := printed st @ [DetectorRestored (mismatch st) n]\<rparr>
      else (let missing = fst ` set (own_state st) - state_dict_keys_new st
            in if missing \<noteq> {}
               then st\<lparr>printed := printed st @ [CouldntFind missing], mismatch := True\<rparr>
               else st))"

text \<open>The loop over \<^verbatim>\<open>state_dict.items()\<close>, from the initial values of the locals.\<close>

definition restore_loop ::
  "'a memory \<Rightarrow> state_dict \<Rightarrow> (string \<times> string) list option \<Rightarrow> state_dict \<Rightarrow> 'a restore_state"
where
  "restore_loop m network names_map state_dict =
     foldl (restore_step names_map) (restore_init m network) state_dict"

text \<open>
  The call in the memory \<open>m\<close>. The result is the returned flag, the memory after the call
  and what was printed; the two dictionaries are not changed, only the tensors they hold.
\<close>

definition optimistic_restore ::
  "'a memory \<Rightarrow> state_dict \<Rightarrow> state_dict \<Rightarrow> (string \<times> string) list option
     \<Rightarrow> bool \<times> 'a memory \<times> message list"
where
  "optimistic_restore m network state_dict names_map =
     (let st = restore_finish (length state_dict) (restore_loop m network names_map state_dict)
      in (\<not> mismatch st, memory st, printed st))"

subsection \<open>Vocabulary for the behaviour of \<^verbatim>\<open>optimistic_restore\<close>\<close>

text \<open>
  The keys of the network and the shapes of the tensors never change during the loop, so
  each entry of \<^verbatim>\<open>state_dict\<close> can be classified against the network and the memory as
  they were at the call: whether its renamed key is redirected to the \<^verbatim>\<open>detector.\<close>
  prefix, which network name it is aimed at, and whether it fits (the name exists, with a
  tensor of equal size). \<open>stored m d k\<close> is the tensor \<^verbatim>\<open>d[k]\<close>.
\<close>

definition stored :: "'a memory \<Rightarrow> state_dict \<Rightarrow> string \<Rightarrow> 'a tensor option" where
  "stored m d k = map_option m (map_of d k)"

definition redirected :: "state_dict \<Rightarrow> (string \<times> string) list option \<Rightarrow> string \<Rightarrow> bool" where
  "redirected network names_map key \<longleftrightarrow> redirects network (rename names_map key)"

definition target :: "state_dict \<Rightarrow> (string \<times> string) list option \<Rightarrow> string \<Rightarrow> string" where
  "target network names_map key =
     (if redirected network names_map key then ''detector.'' @ rename names_map key
      else rename names_map key)"

definition fits ::
  "'a memory \<Rightarrow> state_dict \<Rightarrow> (string \<times> string) list option \<Rightarrow> string \<times> address \<Rightarrow> bool"
where
  "fits m network names_map item \<longleftrightarrow>
     (case map_of network (target network names_map (fst item)) of
        None \<Rightarrow> False
      | Some own \<Rightarrow> shape (m (snd item)) = shape (m own))"

text \<open>
  The entries that are copied into the tensor at the address \<open>a\<close>, in iteration order:
  those aimed at a network name that holds this tensor, and that fit.
\<close>

definition copies ::
  "'a memory \<Rightarrow> state_dict \<Rightarrow> (string \<times> string) list option \<Rightarrow> state_dict \<Rightarrow> address
     \<Rightarrow> state_dict"
where
  "copies m network names_map state_dict a =
     filter (\<lambda>item. map_of network (target network names_map (fst item)) = Some a
                     \<and> fits m network names_map item)
       state_dict"

text \<open>A redirected entry directly followed by one that is not: \<^verbatim>\<open>'could not restore'\<close>.\<close>

definition broken_run ::
  "state_dict \<Rightarrow> (string \<times> string) list option \<Rightarrow> state_dict \<Rightarrow> bool" where
  "broken_run network names_map state_dict \<longleftrightarrow>
     (\<exists>i. Suc i < length state_dict
          \<and> redirected network names_map (fst (state_dict ! i))
          \<and> \<not> redirected network names_map (fst (state_dict ! Suc i)))"

text \<open>\<^verbatim>\<open>set(own_state.keys()) - state_dict_keys_new\<close>, and the final \<^verbatim>\<open>only_detector\<close>.\<close>

definition missing_keys ::
  "state_dict \<Rightarrow> (string \<times> string) list option \<Rightarrow> state_dict \<Rightarrow> string set" where
  "missing_keys network names_map state_dict =
     fst ` set network - rename names_map ` fst ` set state_dict"

definition ends_redirected ::
  "state_dict \<Rightarrow> (string \<times> string) list option \<Rightarrow> state_dict \<Rightarrow> bool" where
  "ends_redirected network names_map state_dict \<longleftrightarrow>
     state_dict \<noteq> [] \<and> redirected network names_map (fst (last state_dict))"

text \<open>Two memories whose tensors have the same shapes.\<close>

definition same_shapes :: "'a memory \<Rightarrow> 'a memory \<Rightarrow> bool" where
  "same_shapes m m' \<longleftrightarrow> (\<forall>a. shape (m a) = shape (m' a))"

text \<open>The memory that holds the tensors of a list at the addresses 0, 1, 2, ...\<close>

definition memory_of :: "'a tensor list \<Rightarrow> 'a memory" where
  "memory_of ts a = (if a < length ts then ts ! a else Tensor [0] [])"
section \<open>The attention operator: class \<^verbatim>\<open>gat\<close> of \<^verbatim>\<open>gat_skip.py\<close>\<close>

text \<open>
  The operator is built on library code (\<^verbatim>\<open>torch\<close>, \<^verbatim>\<open>torch_geometric\<close>). The library
  operations it calls are modelled by what they compute on exact numbers, with their
  failures as values of the type \<open>error\<close>. Tensors that cross the interface of the operator
  are \<open>tensor\<close> values, so that their rank can be tested as the code tests it; inside, a
  tensor of shape \<open>[M, H, C]\<close> is kept as \<open>M\<close> lists of \<open>H\<close> lists of \<open>C\<close> numbers.
\<close>

datatype error = AssertionError | RuntimeError | IndexError | ValueError

subsection \<open>Library operations\<close>

text \<open>The \<open>n\<close> consecutive rows of length \<open>k\<close> of a row-major list.\<close>

definition rows_of :: "nat \<Rightarrow> nat \<Rightarrow> 'a list \<Rightarrow> 'a list list" where
  "rows_of n k xs = map (\<lambda>i. take k (drop (i * k) xs)) [0..<n]"

text \<open>The rows along the last dimension of a tensor of rank at least one.\<close>

definition rows :: "'a tensor \<Rightarrow> 'a list list" where
  "rows t = rows_of (prod_list (butlast (shape t))) (last (shape t)) (data t)"

definition dot :: "real list \<Rightarrow> real list \<Rightarrow> real" where
  "dot a b = sum_list (map2 (*) a b)"

text \<open>
  \<^verbatim>\<open>torch.nn.Linear(in_features, out_features, bias=False)\<close>: the weight has one row per
  output feature. It applies to the last dimension and fails when that dimension is not
  \<^verbatim>\<open>in_features\<close>.
\<close>

record linear_layer =
  in_features :: nat
  out_features :: nat
  weight :: "real list list"

definition linear :: "linear_layer \<Rightarrow> real tensor \<Rightarrow> error + real tensor" where
  "linear lin t =
     (if dim t = 0 \<or> last (shape t) \<noteq> in_features lin then Inl RuntimeError
      else Inr (Tensor (butlast (shape t) @ [out_features lin])
                  (concat (map (\<lambda>row. map (\<lambda>w. dot w row) (weight lin)) (rows t)))))"

text \<open>
  \<^verbatim>\<open>t.view(-1, H, C)\<close>: fails when the number of entries is not a multiple of \<open>H * C\<close>, and
  when \<open>H * C = 0\<close> (the dimension \<open>-1\<close> cannot be inferred).
\<close>

definition view_heads :: "nat \<Rightarrow> nat \<Rightarrow> real tensor \<Rightarrow> error + real list list list" where
  "view_heads H C t =
     (let total = prod_list (shape t)
      in if H * C = 0 \<or> total mod (H * C) \<noteq> 0 then Inl RuntimeError
         else Inr (map (rows_of H C) (rows_of (total div (H * C)) (H * C) (data t))))"

text \<open>\<^verbatim>\<open>(x * att).sum(dim=-1)\<close> for \<open>x\<close> of shape \<open>[M, H, C]\<close> and \<open>att\<close> of shape \<open>[1, H, C]\<close>.\<close>

definition att_sum :: "real list list list \<Rightarrow> real list list \<Rightarrow> real list list" where
  "att_sum x att = map (\<lambda>x_n. map2 dot x_n att) x"

text \<open>\<^verbatim>\<open>t.index_select(0, index)\<close>: every index must be in range; negative ones are not.\<close>

definition index_select :: "'a list \<Rightarrow> int list \<Rightarrow> error + 'a list" where
  "index_select xs index =
     (if \<forall>i\<in>set index. 0 \<le> i \<and> i < int (length xs)
      then Inr (map (\<lambda>i. xs ! nat i) index)
      else Inl IndexError)"

definition leaky_relu :: "real \<Rightarrow> real \<Rightarrow> real" where
  "leaky_relu negative_slope a = (if 0 \<le> a then a else negative_slope * a)"

text \<open>
  \<^verbatim>\<open>torch_geometric.utils.softmax(src, index, ptr, num_nodes)\<close> with \<^verbatim>\<open>ptr=None\<close>: the
  entries of \<open>src\<close> are grouped by their \<open>index\<close>, and each column of each group is
  normalised by the sum of the exponentials of the group. (The library shifts a group by
  its maximum, which cancels, and adds \<^verbatim>\<open>1e-16\<close> to a denominator that is at least 1;
  that guard is below the rounding unit of the sum and is left out.) The scatter
  operations inside fail on an index outside \<open>[0, num_nodes)\<close>; without \<open>num_nodes\<close>
  the library takes the largest index plus one.
\<close>

definition group :: "int list \<Rightarrow> int \<Rightarrow> nat list" where
  "group index j = filter (\<lambda>e. index ! e = j) [0..<length index]"

definition maybe_num_nodes :: "int list \<Rightarrow> nat option \<Rightarrow> nat" where
  "maybe_num_nodes index num_nodes =
     (case num_nodes of
        Some n \<Rightarrow> n
      | None \<Rightarrow> if index = [] then 0 else nat (Max (set index) + 1))"

definition softmax_rows :: "real list list \<Rightarrow> int list \<Rightarrow> real list list" where
  "softmax_rows src index =
     map (\<lambda>e. map (\<lambda>h. exp (src ! e ! h) / (\<Sum>e'\<leftarrow>group index (index ! e). exp (src ! e' ! h)))
                  [0..<length (src ! e)])
       [0..<length src]"

definition softmax :: "real list list \<Rightarrow> int list \<Rightarrow> nat option \<Rightarrow> error + real list list" where
  "softmax src index num_nodes =
     (if \<exists>i\<in>set index. i < 0 \<or> int (maybe_num_nodes index num_nodes) \<le> i
      then Inl RuntimeError
      else Inr (softmax_rows src index))"

text \<open>
  \<^verbatim>\<open>F.dropout(a, p, training)\<close> on one entry. The random draw of the entry is the
  argument \<open>keep\<close>; a kept entry is scaled by \<open>1 / (1 - p)\<close>. With \<open>p = 0\<close> every entry is
  kept and with \<open>p = 1\<close> none is.
\<close>

definition dropout_entry :: "real \<Rightarrow> bool \<Rightarrow> bool \<Rightarrow> real \<Rightarrow> real" where
  "dropout_entry p train keep a =
     (if \<not> train then a
      else if p = 1 then 0
      else if p = 0 \<or> keep then a / (1 - p)
      else 0)"

definition dropout_rows ::
  "real list list \<Rightarrow> real \<Rightarrow> bool \<Rightarrow> (nat \<Rightarrow> nat \<Rightarrow> bool) \<Rightarrow> real list list" where
  "dropout_rows a p train keep =
     map (\<lambda>e. map (\<lambda>h. dropout_entry p train (keep e h) (a ! e ! h)) [0..<length (a ! e)])
       [0..<length a]"

definition F_dropout ::
  "real list list \<Rightarrow> real \<Rightarrow> bool \<Rightarrow> (nat \<Rightarrow> nat \<Rightarrow> bool) \<Rightarrow> error + real list list" where
  "F_dropout a p train keep =
     (if p < 0 \<or> 1 < p then Inl ValueError else Inr (dropout_rows a p train keep))"

text \<open>
  \<^verbatim>\<open>scatter(inputs, index, dim=0, dim_size=dim_size, reduce='add')\<close> for \<open>inputs\<close> of shape
  \<open>[E, H, C]\<close>: entry \<open>n\<close> of the result is the sum of the inputs whose index is \<open>n\<close>.
\<close>

definition scatter_sum ::
  "nat \<Rightarrow> nat \<Rightarrow> nat \<Rightarrow> int list \<Rightarrow> real list list list \<Rightarrow> real list list list" where
  "scatter_sum dim_size H C index inputs =
     map (\<lambda>n. map (\<lambda>h. map (\<lambda>c. \<Sum>e\<leftarrow>group index (int n). inputs ! e ! h ! c) [0..<C]) [0..<H])
       [0..<dim_size]"

definition scatter_add ::
  "nat option \<Rightarrow> nat \<Rightarrow> nat \<Rightarrow> int list \<Rightarrow> real list list list
     \<Rightarrow> error + real list list list" where
  "scatter_add dim_size H C index inputs =
     (if \<exists>i\<in>set index. i < 0 \<or> int (maybe_num_nodes index dim_size) \<le> i
      then Inl RuntimeError
      else Inr (scatter_sum (maybe_num_nodes index dim_size) H C index inputs))"

subsection \<open>The module\<close>

text \<open>
  The fields that \<^verbatim>\<open>gat.__init__\<close> sets. \<^verbatim>\<open>in_channels\<close> is an int or a pair of ints;
  \<^verbatim>\<open>concat\<close> is the field \<open>concat_heads\<close>; \<^verbatim>\<open>_alpha\<close> is the field \<open>alpha_cache\<close>;
  \<^verbatim>\<open>training\<close> is the flag of \<^verbatim>\<open>torch.nn.Module\<close>. The three attention vectors have shape
  \<open>[1, heads, out_channels]\<close> and are kept as \<open>heads\<close> rows.
\<close>

record gat =
  in_channels :: "nat + nat \<times> nat"
  out_channels :: nat
  heads :: nat
  concat_heads :: bool
  negative_slope :: real
  dropout :: real
  add_self_loops :: bool
  lin_l :: linear_layer
  lin_r :: linear_layer
  lin_e :: linear_layer
  att_l :: "real list list"
  att_r :: "real list list"
  att_e :: "real list list"
  bias :: "real list option"
  alpha_cache :: "real tensor option"
  training :: bool

text \<open>
  \<^verbatim>\<open>reset_parameters\<close> fills the weights with random numbers (\<^verbatim>\<open>glorot\<close>); the argument
  \<open>draw\<close> gives, for a parameter name, the numbers drawn. The bias is filled with zeros.
\<close>

definition Linear :: "nat \<Rightarrow> nat \<Rightarrow> (nat \<Rightarrow> real) \<Rightarrow> linear_layer" where
  "Linear n_in n_out draw =
     \<lparr>in_features = n_in, out_features = n_out,
      weight = map (\<lambda>out. map (\<lambda>i. draw (out * n_in + i)) [0..<n_in]) [0..<n_out]\<rparr>"

definition Parameter :: "nat \<Rightarrow> nat \<Rightarrow> (nat \<Rightarrow> real) \<Rightarrow> real list list" where
  "Parameter H C draw = map (\<lambda>h. map (\<lambda>c. draw (h * C + c)) [0..<C]) [0..<H]"

definition gat_init ::
  "nat + nat \<times> nat \<Rightarrow> nat \<Rightarrow> nat \<Rightarrow> nat \<Rightarrow> bool \<Rightarrow> real \<Rightarrow> real \<Rightarrow> bool \<Rightarrow> bool
     \<Rightarrow> (string \<Rightarrow> nat \<Rightarrow> real) \<Rightarrow> gat"
where
  "gat_init in_channels' out_channels' edge_in_channels heads' concat' negative_slope'
       dropout' add_self_loops' bias' draw =
     (let l = (case in_channels' of
                 Inl n \<Rightarrow> Linear n (heads' * out_channels') (draw ''lin_l'')
               | Inr (n0, n1) \<Rightarrow> Linear n0 (heads' * out_channels') (draw ''lin_l''));
          r = (case in_channels' of
                 Inl n \<Rightarrow> l
               | Inr (n0, n1) \<Rightarrow> Linear n1 (heads' * out_channels') (draw ''lin_r''))
      in \<lparr>in_channels = in_channels', out_channels = out_channels', heads = heads',
          concat_heads = concat', negative_slope = negative_slope', dropout = dropout',
          add_self_loops = add_self_loops',
          lin_l = l, lin_r = r,
          lin_e = Linear edge_in_channels (heads' * out_channels') (draw ''lin_e''),
          att_l = Parameter heads' out_channels' (draw ''att_l''),
          att_r = Parameter heads' out_channels' (draw ''att_r''),
          att_e = Parameter heads' out_channels' (draw ''att_e''),
          bias = (if bias' \<and> concat' then Some (replicate (heads' * out_channels') 0)
                  else if bias' \<and> \<not> concat' then Some (replicate out_channels' 0)
                  else None),
          alpha_cache = None,
          training = True\<rparr>)"

subsection \<open>\<^verbatim>\<open>gat.message\<close>\<close>

text \<open>
  \<^verbatim>\<open>alpha += alpha_e\<close> adds in place, so \<open>alpha_e\<close> must have as many rows as \<open>alpha\<close> or a
  single row, which is then added to every row.
\<close>

definition add_edge_scores :: "real list list \<Rightarrow> real list list \<Rightarrow> error + real list list" where
  "add_edge_scores alpha alpha_e =
     (if length alpha_e = length alpha then Inr (map2 (map2 (+)) alpha alpha_e)
      else if length alpha_e = 1 then Inr (map (\<lambda>a. map2 (+) a (hd alpha_e)) alpha)
      else Inl RuntimeError)"

text \<open>\<^verbatim>\<open>x_j * alpha.unsqueeze(-1)\<close> for \<open>x_j\<close> of shape \<open>[E, H, C]\<close> and \<open>alpha\<close> of shape \<open>[E, H]\<close>.\<close>

definition weigh :: "real list list list \<Rightarrow> real list list \<Rightarrow> real list list list" where
  "weigh x_j alpha = map2 (\<lambda>x_e a_e. map2 (\<lambda>x_h a. map (\<lambda>v. v * a) x_h) x_e a_e) x_j alpha"

text \<open>
  \<^verbatim>\<open>ptr\<close> is \<^verbatim>\<open>None\<close> for an edge list given as a tensor and is left out.
  The result is the module (its \<^verbatim>\<open>_alpha\<close> is set once the softmax has returned) and the
  messages, of shape \<open>[E, H, C]\<close>, or the error raised.
\<close>

definition message ::
  "gat \<Rightarrow> real list list list \<Rightarrow> real list list \<Rightarrow> real list list option \<Rightarrow> real list list
     \<Rightarrow> int list \<Rightarrow> nat option \<Rightarrow> (nat \<Rightarrow> nat \<Rightarrow> bool)
     \<Rightarrow> gat \<times> (error + real list list list)"
where
  "message self x_j alpha_j alpha_i alpha_e index size_i keep =
     (let alpha = (case alpha_i of None \<Rightarrow> alpha_j | Some a_i \<Rightarrow> map2 (map2 (+)) alpha_j a_i)
      in case add_edge_scores alpha alpha_e of
           Inl err \<Rightarrow> (self, Inl err)
         | Inr alpha \<Rightarrow>
             (let alpha = map (map (leaky_relu (negative_slope self))) alpha
              in case softmax alpha index size_i of
                   Inl err \<Rightarrow> (self, Inl err)
                 | Inr alpha \<Rightarrow>
                     (let self = self\<lparr>alpha_cache :=
                                   Some (Tensor [length alpha, heads self] (concat alpha))\<rparr>
                      in case F_dropout alpha (dropout self) (training self) keep of
                           Inl err \<Rightarrow> (self, Inl err)
                         | Inr alpha \<Rightarrow>
                             (self, Inr (weigh x_j alpha)))))"

subsection \<open>\<^verbatim>\<open>MessagePassing.propagate\<close>\<close>

text \<open>
  The base class is constructed with \<^verbatim>\<open>node_dim=0\<close>, the default flow
  \<^verbatim>\<open>source_to_target\<close> and \<^verbatim>\<open>aggr='add'\<close> (the default that \<^verbatim>\<open>__init__\<close> sets; the
  stack below passes no other). \<^verbatim>\<open>propagate\<close> checks the edge list, collects the arguments
  of \<^verbatim>\<open>message\<close>, calls it and aggregates the messages by target node.

  \<^verbatim>\<open>__set_size__\<close> records the number of nodes on side \<open>d\<close> (0 the sources, 1 the targets)
  and fails when a recorded number differs.
\<close>

type_synonym sizes = "nat option \<times> nat option"

definition set_size :: "sizes \<Rightarrow> nat \<Rightarrow> nat \<Rightarrow> error + sizes" where
  "set_size sizes d n =
     (case (if d = 0 then fst sizes else snd sizes) of
        None \<Rightarrow> Inr (if d = 0 then (Some n, snd sizes) else (fst sizes, Some n))
      | Some the_size \<Rightarrow> if the_size \<noteq> n then Inl ValueError else Inr sizes)"

text \<open>
  \<^verbatim>\<open>__collect__\<close> for an argument \<^verbatim>\<open>a_j\<close>: the data is a pair, the size of its target
  part is recorded when it is there, and the source part is indexed by the sources of the
  edges.
\<close>

definition collect_j ::
  "'a list \<times> 'a list option \<Rightarrow> sizes \<Rightarrow> int list \<Rightarrow> error + sizes \<times> 'a list" where
  "collect_j dat sizes edge_index_j =
     (case (case snd dat of None \<Rightarrow> Inr sizes | Some d1 \<Rightarrow> set_size sizes 1 (length d1)) of
        Inl err \<Rightarrow> Inl err
      | Inr sizes \<Rightarrow>
          (case set_size sizes 0 (length (fst dat)) of
             Inl err \<Rightarrow> Inl err
           | Inr sizes \<Rightarrow>
               (case index_select (fst dat) edge_index_j of
                  Inl err \<Rightarrow> Inl err
                | Inr lifted \<Rightarrow> Inr (sizes, lifted))))"

text \<open>
  \<^verbatim>\<open>__collect__\<close> for an argument \<^verbatim>\<open>a_i\<close>: the size of the source part is recorded, and
  the target part, when it is there, is indexed by the targets of the edges.
\<close>

definition collect_i ::
  "'a list \<times> 'a list option \<Rightarrow> sizes \<Rightarrow> int list \<Rightarrow> error + sizes \<times> 'a list option" where
  "collect_i dat sizes edge_index_i =
     (case set_size sizes 0 (length (fst dat)) of
        Inl err \<Rightarrow> Inl err
      | Inr sizes \<Rightarrow>
          (case snd dat of
             None \<Rightarrow> Inr (sizes, None)
           | Some d1 \<Rightarrow>
               (case set_size sizes 1 (length d1) of
                  Inl err \<Rightarrow> Inl err
                | Inr sizes \<Rightarrow>
                    (case index_select d1 edge_index_i of
                       Inl err \<Rightarrow> Inl err
                     | Inr lifted \<Rightarrow> Inr (sizes, Some lifted)))))"

text \<open>Python's \<^verbatim>\<open>a or b\<close> on optional ints: \<open>None\<close> and \<open>0\<close> are false.\<close>

definition py_or :: "nat option \<Rightarrow> nat option \<Rightarrow> nat option" where
  "py_or a b = (case a of None \<Rightarrow> b | Some n \<Rightarrow> if n \<noteq> 0 then Some n else b)"

definition propagate ::
  "gat \<Rightarrow> int tensor \<Rightarrow> real list list list \<times> real list list list option
     \<Rightarrow> real list list \<times> real list list option \<Rightarrow> real list list \<Rightarrow> (nat \<times> nat) option
     \<Rightarrow> (nat \<Rightarrow> nat \<Rightarrow> bool) \<Rightarrow> gat \<times> (error + real list list list)"
where
  "propagate self edge_index x alpha alpha_e size' keep =
     (if dim edge_index \<noteq> 2 \<or> shape edge_index ! 0 \<noteq> 2 then (self, Inl AssertionError)
      else
        (let edge_index_j = rows edge_index ! 0;
             edge_index_i = rows edge_index ! 1;
             sizes = (map_option fst size', map_option snd size')
         in case collect_j x sizes edge_index_j of
              Inl err \<Rightarrow> (self, Inl err)
            | Inr (sizes, x_j) \<Rightarrow>
           (case collect_j alpha sizes edge_index_j of
              Inl err \<Rightarrow> (self, Inl err)
            | Inr (sizes, alpha_j) \<Rightarrow>
           (case collect_i alpha sizes edge_index_i of
              Inl err \<Rightarrow> (self, Inl err)
            | Inr (sizes, alpha_i) \<Rightarrow>
           (let index = edge_index_i;
                size_i = py_or (snd sizes) (fst sizes)
            in case message self x_j alpha_j alpha_i alpha_e index size_i keep of
                 (self, Inl err) \<Rightarrow> (self, Inl err)
               | (self, Inr inputs) \<Rightarrow>
                   (self, scatter_add size_i (heads self) (out_channels self) index inputs))))))"

subsection \<open>\<^verbatim>\<open>gat.forward\<close>\<close>

text \<open>
  The node input is a tensor or a pair of a tensor and an optional tensor. The argument
  \<^verbatim>\<open>return_attention_weights\<close> is \<^verbatim>\<open>None\<close> or a bool, as the type comments of
  \<^verbatim>\<open>forward\<close> say. The edge list is an index tensor (the sparse adjacency form of the
  library is outside this model).
\<close>

datatype node_input = XTensor "real tensor" | XPair "real tensor" "real tensor option"

text \<open>\<^verbatim>\<open>lin(t).view(-1, H, C)\<close> together with \<^verbatim>\<open>(... * att).sum(dim=-1)\<close>.\<close>

definition project ::
  "linear_layer \<Rightarrow> real list list \<Rightarrow> nat \<Rightarrow> nat \<Rightarrow> real tensor
     \<Rightarrow> error + real list list list \<times> real list list" where
  "project lin att H C t =
     (case linear lin t of
        Inl err \<Rightarrow> Inl err
      | Inr y \<Rightarrow>
          (case view_heads H C y of
             Inl err \<Rightarrow> Inl err
           | Inr v \<Rightarrow> Inr (v, att_sum v att)))"

text \<open>The first part of \<^verbatim>\<open>forward\<close>: \<open>x_l\<close>, \<open>x_r\<close>, \<open>alpha_l\<close> and \<open>alpha_r\<close>.\<close>

definition project_nodes ::
  "gat \<Rightarrow> node_input
     \<Rightarrow> error + (real list list list \<times> real list list list option)
               \<times> (real list list \<times> real list list option)" where
  "project_nodes self x =
     (let H = heads self; C = out_channels self
      in case x of
           XTensor t \<Rightarrow>
             if dim t \<noteq> 2 then Inl AssertionError
             else (case project (lin_l self) (att_l self) H C t of
                     Inl err \<Rightarrow> Inl err
                   | Inr (x_l, alpha_l) \<Rightarrow>
                       Inr ((x_l, Some x_l), (alpha_l, Some (att_sum x_l (att_r self)))))
         | XPair t0 t1 \<Rightarrow>
             if dim t0 \<noteq> 2 then Inl AssertionError
             else (case project (lin_l self) (att_l self) H C t0 of
                     Inl err \<Rightarrow> Inl err
                   | Inr (x_l, alpha_l) \<Rightarrow>
                       (case t1 of
                          None \<Rightarrow> Inr ((x_l, None), (alpha_l, None))
                        | Some t \<Rightarrow>
                            (case project (lin_r self) (att_r self) H C t of
                               Inl err \<Rightarrow> Inl err
                             | Inr (x_r, alpha_r) \<Rightarrow>
                                 Inr ((x_l, Some x_r), (alpha_l, Some alpha_r))))))"

text \<open>\<^verbatim>\<open>out.view(-1, heads * out_channels)\<close> and \<^verbatim>\<open>out.mean(dim=1)\<close> on \<open>[N, H, C]\<close>.\<close>

definition view_concat :: "nat \<Rightarrow> nat \<Rightarrow> real list list list \<Rightarrow> real tensor" where
  "view_concat H C out = Tensor [length out, H * C] (concat (map concat out))"

definition mean_heads :: "nat \<Rightarrow> nat \<Rightarrow> real list list list \<Rightarrow> real tensor" where
  "mean_heads H C out =
     Tensor [length out, C]
       (concat (map (\<lambda>node. map (\<lambda>c. (\<Sum>h\<leftarrow>[0..<H]. node ! h ! c) / real H) [0..<C]) out))"

text \<open>
  \<^verbatim>\<open>out += self.bias\<close> for \<open>out\<close> of rank 2: in place, so the bias must have the width of
  \<open>out\<close> or a single entry.
\<close>

definition add_bias :: "real tensor \<Rightarrow> real list \<Rightarrow> error + real tensor" where
  "add_bias out b =
     (if length b = last (shape out)
      then Inr (Tensor (shape out) (concat (map (\<lambda>row. map2 (+) row b) (rows out))))
      else if length b = 1
      then Inr (Tensor (shape out) (map (\<lambda>v. v + hd b) (data out)))
      else Inl RuntimeError)"

text \<open>
  The two statements after \<^verbatim>\<open>propagate\<close>: \<^verbatim>\<open>if self.concat: ... else: ...\<close> and
  \<^verbatim>\<open>if self.bias is not None: out += self.bias\<close>.
\<close>

definition combine_heads :: "gat \<Rightarrow> real list list list \<Rightarrow> real tensor" where
  "combine_heads self out =
     (if concat_heads self then view_concat (heads self) (out_channels self) out
      else mean_heads (heads self) (out_channels self) out)"

definition with_bias :: "gat \<Rightarrow> real tensor \<Rightarrow> error + real tensor" where
  "with_bias self out = (case bias self of None \<Rightarrow> Inr out | Some b \<Rightarrow> add_bias out b)"

text \<open>
  The result of \<^verbatim>\<open>forward\<close> is the module after the call and either the error raised or
  the value returned: the output, with \<^verbatim>\<open>(edge_index, alpha)\<close> beside it when the
  attention weights are returned.
\<close>

type_synonym forward_result = "real tensor \<times> (int tensor \<times> real tensor) option"

definition forward ::
  "gat \<Rightarrow> node_input \<Rightarrow> int tensor \<Rightarrow> real tensor \<Rightarrow> (nat \<times> nat) option \<Rightarrow> bool option
     \<Rightarrow> (nat \<Rightarrow> nat \<Rightarrow> bool) \<Rightarrow> gat \<times> (error + forward_result)"
where
  "forward self x edge_index edge_attr size' return_attention_weights keep =
     (let H = heads self; C = out_channels self
      in case project_nodes self x of
           Inl err \<Rightarrow> (self, Inl err)
         | Inr (xs, alphas) \<Rightarrow>
        (case project (lin_e self) (att_e self) H C edge_attr of
           Inl err \<Rightarrow> (self, Inl err)
         | Inr (e, alpha_e) \<Rightarrow>
        (case propagate self edge_index xs alphas alpha_e size' keep of
           (self, Inl err) \<Rightarrow> (self, Inl err)
         | (self, Inr out) \<Rightarrow>
        (let alpha = alpha_cache self;
             self = self\<lparr>alpha_cache := None\<rparr>;
             out = combine_heads self out
         in case with_bias self out of
              Inl err \<Rightarrow> (self, Inl err)
            | Inr out \<Rightarrow>
                (case return_attention_weights of
                   Some b \<Rightarrow>
                     (case alpha of
                        None \<Rightarrow> (self, Inl AssertionError)
                      | Some a \<Rightarrow> (self, Inr (out, Some (edge_index, a))))
                 | None \<Rightarrow> (self, Inr (out, None)))))))"

section \<open>Vocabulary for the behaviour of the attention operator\<close>

text \<open>
  Well-formed modules and inputs, and the values that \<^verbatim>\<open>forward\<close> computes on them,
  written as closed expressions: the projected features, the logits, the attention
  weights, the messages, their sums per target node and the output. The theorems below
  show that \<^verbatim>\<open>forward\<close> returns exactly these.
\<close>

definition wf_linear :: "linear_layer \<Rightarrow> bool" where
  "wf_linear lin \<longleftrightarrow>
     length (weight lin) = out_features lin \<and> (\<forall>w\<in>set (weight lin). length w = in_features lin)"

definition projection :: "linear_layer \<Rightarrow> nat \<Rightarrow> nat \<Rightarrow> real tensor \<Rightarrow> real list list list" where
  "projection lin H C t = map (\<lambda>row. rows_of H C (map (\<lambda>w. dot w row) (weight lin))) (rows t)"

definition wf_gat :: "gat \<Rightarrow> bool" where
  "wf_gat self \<longleftrightarrow>
     wf_linear (lin_l self) \<and> wf_linear (lin_r self) \<and> wf_linear (lin_e self)
     \<and> out_features (lin_l self) = heads self * out_channels self
     \<and> out_features (lin_r self) = heads self * out_channels self
     \<and> out_features (lin_e self) = heads self * out_channels self
     \<and> length (att_l self) = heads self \<and> (\<forall>a\<in>set (att_l self). length a = out_channels self)
     \<and> length (att_r self) = heads self \<and> (\<forall>a\<in>set (att_r self). length a = out_channels self)
     \<and> length (att_e self) = heads self \<and> (\<forall>a\<in>set (att_e self). length a = out_channels self)
     \<and> (case bias self of
          None \<Rightarrow> True
        | Some b \<Rightarrow> length b = (if concat_heads self then heads self * out_channels self
                                else out_channels self))"

definition edge_sources :: "int tensor \<Rightarrow> int list" where
  "edge_sources edge_index = rows edge_index ! 0"

definition edge_targets :: "int tensor \<Rightarrow> int list" where
  "edge_targets edge_index = rows edge_index ! 1"

definition num_edges :: "int tensor \<Rightarrow> nat" where
  "num_edges edge_index = shape edge_index ! 1"

definition valid_edge_index :: "int tensor \<Rightarrow> nat \<Rightarrow> nat \<Rightarrow> bool" where
  "valid_edge_index edge_index n_src n_tgt \<longleftrightarrow>
     wf_tensor edge_index \<and> dim edge_index = 2 \<and> shape edge_index ! 0 = 2
     \<and> (\<forall>i\<in>set (edge_sources edge_index). 0 \<le> i \<and> i < int n_src)
     \<and> (\<forall>i\<in>set (edge_targets edge_index). 0 \<le> i \<and> i < int n_tgt)"

definition edge_scores ::
  "real \<Rightarrow> real list list \<Rightarrow> real list list \<Rightarrow> real list list \<Rightarrow> real list list" where
  "edge_scores slope alpha_j alpha_i alpha_e =
     map (map (leaky_relu slope)) (map2 (map2 (+)) (map2 (map2 (+)) alpha_j alpha_i) alpha_e)"

definition out_size :: "nat \<Rightarrow> nat \<Rightarrow> nat" where
  "out_size n_src n_tgt = (if n_tgt \<noteq> 0 then n_tgt else n_src)"

definition source_features :: "gat \<Rightarrow> node_input \<Rightarrow> real list list list" where
  "source_features self x =
     (case x of
        XTensor t \<Rightarrow> projection (lin_l self) (heads self) (out_channels self) t
      | XPair t0 t1 \<Rightarrow> projection (lin_l self) (heads self) (out_channels self) t0)"

definition target_features :: "gat \<Rightarrow> node_input \<Rightarrow> real list list list" where
  "target_features self x =
     (case x of
        XTensor t \<Rightarrow> projection (lin_l self) (heads self) (out_channels self) t
      | XPair t0 t1 \<Rightarrow>
          (case t1 of
             None \<Rightarrow> []
           | Some t \<Rightarrow> projection (lin_r self) (heads self) (out_channels self) t))"

definition edge_features :: "gat \<Rightarrow> real tensor \<Rightarrow> real list list list" where
  "edge_features self edge_attr =
     projection (lin_e self) (heads self) (out_channels self) edge_attr"

definition logit :: "gat \<Rightarrow> node_input \<Rightarrow> int tensor \<Rightarrow> real tensor \<Rightarrow> nat \<Rightarrow> nat \<Rightarrow> real" where
  "logit self x edge_index edge_attr e h =
       dot (att_l self ! h) (source_features self x ! nat (edge_sources edge_index ! e) ! h)
     + dot (att_r self ! h) (target_features self x ! nat (edge_targets edge_index ! e) ! h)
     + dot (att_e self ! h) (edge_features self edge_attr ! e ! h)"

definition scores :: "gat \<Rightarrow> node_input \<Rightarrow> int tensor \<Rightarrow> real tensor \<Rightarrow> real list list" where
  "scores self x edge_index edge_attr =
     map (\<lambda>e. map (\<lambda>h. leaky_relu (negative_slope self) (logit self x edge_index edge_attr e h))
                  [0..<heads self])
       [0..<num_edges edge_index]"

definition attention :: "gat \<Rightarrow> node_input \<Rightarrow> int tensor \<Rightarrow> real tensor \<Rightarrow> real list list" where
  "attention self x edge_index edge_attr =
     softmax_rows (scores self x edge_index edge_attr) (edge_targets edge_index)"

definition messages ::
  "gat \<Rightarrow> node_input \<Rightarrow> int tensor \<Rightarrow> real tensor \<Rightarrow> (nat \<Rightarrow> nat \<Rightarrow> bool) \<Rightarrow> real list list list" where
  "messages self x edge_index edge_attr keep =
     weigh (map (\<lambda>i. source_features self x ! nat i) (edge_sources edge_index))
       (dropout_rows (attention self x edge_index edge_attr) (dropout self) (training self) keep)"

definition num_out :: "node_input \<Rightarrow> nat" where
  "num_out x =
     (case x of
        XTensor t \<Rightarrow> shape t ! 0
      | XPair t0 t1 \<Rightarrow>
          (case t1 of None \<Rightarrow> shape t0 ! 0 | Some t \<Rightarrow> out_size (shape t0 ! 0) (shape t ! 0)))"

definition aggregated ::
  "gat \<Rightarrow> node_input \<Rightarrow> int tensor \<Rightarrow> real tensor \<Rightarrow> (nat \<Rightarrow> nat \<Rightarrow> bool) \<Rightarrow> real list list list" where
  "aggregated self x edge_index edge_attr keep =
     scatter_sum (num_out x) (heads self) (out_channels self) (edge_targets edge_index)
       (messages self x edge_index edge_attr keep)"

definition forward_output ::
  "gat \<Rightarrow> node_input \<Rightarrow> int tensor \<Rightarrow> real tensor \<Rightarrow> (nat \<Rightarrow> nat \<Rightarrow> bool) \<Rightarrow> real tensor" where
  "forward_output self x edge_index edge_attr keep =
     (let out = combine_heads self (aggregated self x edge_index edge_attr keep)
      in case bias self of
           None \<Rightarrow> out
         | Some b \<Rightarrow> Tensor (shape out) (concat (map (\<lambda>row. map2 (+) row b) (rows out))))"

definition valid_features :: "linear_layer \<Rightarrow> real tensor \<Rightarrow> bool" where
  "valid_features lin t \<longleftrightarrow> wf_tensor t \<and> dim t = 2 \<and> shape t ! 1 = in_features lin"

definition valid_config :: "gat \<Rightarrow> bool" where
  "valid_config self \<longleftrightarrow>
     0 < heads self \<and> 0 < out_channels self \<and> 0 \<le> dropout self \<and> dropout self \<le> 1"

definition valid_input ::
  "gat \<Rightarrow> node_input \<Rightarrow> int tensor \<Rightarrow> real tensor \<Rightarrow> (nat \<times> nat) option \<Rightarrow> bool" where
  "valid_input self x edge_index edge_attr size' \<longleftrightarrow>
     (case x of
        XTensor t \<Rightarrow>
          valid_features (lin_l self) t
          \<and> valid_edge_index edge_index (shape t ! 0) (shape t ! 0)
          \<and> (size' = None \<or> size' = Some (shape t ! 0, shape t ! 0))
      | XPair t0 t1 \<Rightarrow>
          (case t1 of
             None \<Rightarrow> False
           | Some t \<Rightarrow>
               valid_features (lin_l self) t0 \<and> valid_features (lin_r self) t
               \<and> valid_edge_index edge_index (shape t0 ! 0) (shape t ! 0)
               \<and> (size' = None \<or> size' = Some (shape t0 ! 0, shape t ! 0))))
     \<and> valid_features (lin_e self) edge_attr \<and> shape edge_attr ! 0 = num_edges edge_index"

text \<open>The rows of the output before the bias: the heads side by side, or their mean.\<close>

definition head_rows :: "gat \<Rightarrow> real list list list \<Rightarrow> real list list" where
  "head_rows self agg =
     (if concat_heads self then map concat agg
      else map (\<lambda>node. map (\<lambda>c. (\<Sum>h\<leftarrow>[0..<heads self]. node ! h ! c) / real (heads self))
                          [0..<out_channels self]) agg)"

section \<open>The layer stack: class \<^verbatim>\<open>gat_seq\<close> of \<^verbatim>\<open>gat_skip.py\<close>\<close>

subsection \<open>Library operations on tensors\<close>

text \<open>\<^verbatim>\<open>t[0]\<close>: the first block along dimension 0.\<close>

definition select_first :: "'a tensor \<Rightarrow> error + 'a tensor" where
  "select_first t =
     (if dim t = 0 \<or> hd (shape t) = 0 then Inl IndexError
      else Inr (Tensor (tl (shape t)) (take (prod_list (tl (shape t))) (data t))))"

text \<open>
  \<^verbatim>\<open>t[index]\<close> for an index tensor: every index selects a block of \<open>t\<close> along dimension 0;
  a negative index counts from the end, and an index out of range fails.
\<close>

definition index_tensor :: "'a tensor \<Rightarrow> int tensor \<Rightarrow> error + 'a tensor" where
  "index_tensor t index =
     (if dim t = 0 then Inl IndexError
      else (let n = hd (shape t); k = prod_list (tl (shape t))
            in if \<forall>i\<in>set (data index). - int n \<le> i \<and> i < int n
               then Inr (Tensor (shape index @ tl (shape t))
                           (concat (map (\<lambda>i. rows_of n k (data t) ! nat (i mod int n))
                                        (data index))))
               else Inl IndexError))"

text \<open>
  \<^verbatim>\<open>torch.cat((a, b), dim=-1)\<close>: the two tensors must agree in every dimension but the
  last; a tensor of shape \<open>[0]\<close> is skipped; a tensor of rank 0 cannot be concatenated.
\<close>

definition cat_last :: "'a tensor \<Rightarrow> 'a tensor \<Rightarrow> error + 'a tensor" where
  "cat_last a b =
     (if dim a = 0 \<or> dim b = 0 then Inl RuntimeError
      else if shape a = [0] then Inr b
      else if shape b = [0] then Inr a
      else if butlast (shape a) \<noteq> butlast (shape b) then Inl RuntimeError
      else Inr (Tensor (butlast (shape a) @ [last (shape a) + last (shape b)])
                  (concat (map2 (@) (rows a) (rows b)))))"

text \<open>
  \<^verbatim>\<open>a + b\<close> with broadcasting: the shapes are aligned at the last dimension, and two
  sizes are compatible when they are equal or one of them is 1.
\<close>

fun broadcast_shapes :: "nat list \<Rightarrow> nat list \<Rightarrow> nat list option" where
  "broadcast_shapes [] [] = Some []"
| "broadcast_shapes (a # as) (b # bs) =
     (if a = b \<or> b = 1 \<or> a = 1
      then map_option ((#) (if a = 1 then b else a)) (broadcast_shapes as bs)
      else None)"
| "broadcast_shapes _ _ = None"

text \<open>The entries of a tensor of shape \<open>from\<close> repeated to the shape \<open>to\<close>.\<close>

fun expand :: "nat list \<Rightarrow> nat list \<Rightarrow> 'a list \<Rightarrow> 'a list" where
  "expand (d # ds) (e # es) xs =
     (if d = e then concat (map (expand ds es) (rows_of d (prod_list ds) xs))
      else concat (replicate e (expand ds es xs)))"
| "expand _ _ xs = xs"

definition tensor_add :: "real tensor \<Rightarrow> real tensor \<Rightarrow> error + real tensor" where
  "tensor_add a b =
     (let r = max (dim a) (dim b);
          sa = replicate (r - dim a) 1 @ shape a;
          sb = replicate (r - dim b) 1 @ shape b
      in case broadcast_shapes sa sb of
           None \<Rightarrow> Inl RuntimeError
         | Some s \<Rightarrow> Inr (Tensor s (map2 (+) (expand sa s (data a)) (expand sb s (data b)))))"

definition relu :: "real tensor \<Rightarrow> real tensor" where
  "relu t = Tensor (shape t) (map (max 0) (data t))"

text \<open>\<^verbatim>\<open>F.dropout\<close> on a tensor of rank 2; \<open>keep\<close> is the draw for a row and a column.\<close>

definition tensor_dropout ::
  "real tensor \<Rightarrow> real \<Rightarrow> bool \<Rightarrow> (nat \<Rightarrow> nat \<Rightarrow> bool) \<Rightarrow> error + real tensor" where
  "tensor_dropout t p train keep =
     (case F_dropout (rows t) p train keep of
        Inl err \<Rightarrow> Inl err
      | Inr rs \<Rightarrow> Inr (Tensor (shape t) (concat rs)))"

subsection \<open>The module\<close>

text \<open>
  \<^verbatim>\<open>torch.nn.BatchNorm1d\<close> is a library module whose arithmetic no statement here depends
  on: the forward function of each of the \<^verbatim>\<open>bns\<close>, applied to the training flag and the
  input, is a parameter. \<^verbatim>\<open>dropout\<close> and \<^verbatim>\<open>training\<close> of the stack are the fields
  \<open>seq_dropout\<close> and \<open>seq_training\<close>.
\<close>

type_synonym batch_norm = "bool \<Rightarrow> real tensor \<Rightarrow> error + real tensor"

record gat_seq =
  convs :: "gat list"
  bns :: "batch_norm list"
  seq_dropout :: real
  seq_training :: bool

definition gat_seq_init ::
  "nat \<Rightarrow> nat \<Rightarrow> nat \<Rightarrow> nat \<Rightarrow> nat \<Rightarrow> real \<Rightarrow> nat \<Rightarrow> real \<Rightarrow> bool
     \<Rightarrow> (nat \<Rightarrow> string \<Rightarrow> nat \<Rightarrow> real) \<Rightarrow> (nat \<Rightarrow> batch_norm) \<Rightarrow> gat_seq"
where
  "gat_seq_init in_channels' out_channels' edge_attr_dim ins_dim num_ins dropout'
       gat_heads gat_negative_slope gat_bias draw BatchNorm1d =
     \<lparr>convs = map (\<lambda>i. gat_init (Inl (in_channels' + ins_dim)) out_channels'
                          (edge_attr_dim + ins_dim) gat_heads False gat_negative_slope
                          dropout' True gat_bias (draw i))
                [0..<num_ins],
      bns = map (\<lambda>i. BatchNorm1d out_channels') [0..<num_ins - 1],
      seq_dropout = dropout',
      seq_training = True\<rparr>"

subsection \<open>\<^verbatim>\<open>gat_seq.forward\<close>\<close>

text \<open>
  The first half of the loop body: from \<^verbatim>\<open>edge_batch = batch[edge_index[0]]\<close> to
  \<^verbatim>\<open>x_cat\<close>. The result is \<open>(x_cat, edge_cat)\<close>. The tensor of zeros that the code builds
  and overwrites only matters through the two shape lookups that can fail.
\<close>

definition layer_inputs ::
  "real tensor \<Rightarrow> int tensor \<Rightarrow> real tensor \<Rightarrow> real tensor \<Rightarrow> int tensor
     \<Rightarrow> error + real tensor \<times> real tensor"
where
  "layer_inputs h edge_index edge_attr ins batch =
     (case select_first edge_index of
        Inl err \<Rightarrow> Inl err
      | Inr sources \<Rightarrow>
     (case index_tensor batch sources of
        Inl err \<Rightarrow> Inl err
      | Inr edge_batch \<Rightarrow>
     (if dim edge_index < 2 \<or> dim ins = 0 then Inl IndexError
      else
     (case index_tensor ins edge_batch of
        Inl err \<Rightarrow> Inl err
      | Inr repeated_ins_edge \<Rightarrow>
     (case cat_last edge_attr repeated_ins_edge of
        Inl err \<Rightarrow> Inl err
      | Inr edge_cat \<Rightarrow>
     (case index_tensor ins batch of
        Inl err \<Rightarrow> Inl err
      | Inr repeated_ins_node \<Rightarrow>
     (case cat_last h repeated_ins_node of
        Inl err \<Rightarrow> Inl err
      | Inr x_cat \<Rightarrow> Inr (x_cat, edge_cat))))))))"

text \<open>
  What follows the skip connection when the layer is not the last one: batch
  normalisation, then \<^verbatim>\<open>F.relu\<close>, then \<^verbatim>\<open>F.dropout\<close>.
\<close>

definition between_layers ::
  "gat_seq \<Rightarrow> nat \<Rightarrow> (nat \<Rightarrow> nat \<Rightarrow> bool) \<Rightarrow> real tensor \<Rightarrow> error + real tensor" where
  "between_layers self i keep h =
     (case (bns self ! i) (seq_training self) h of
        Inl err \<Rightarrow> Inl err
      | Inr h \<Rightarrow> tensor_dropout (relu h) (seq_dropout self) (seq_training self) keep)"

text \<open>
  The second half of the loop body, from the value of the call \<^verbatim>\<open>self.convs[i](...)\<close>
  on: the skip connection \<^verbatim>\<open>h = conv_res + h\<close> and, when the layer is not the last one,
  what lies between two layers. The module \<^verbatim>\<open>convs[i]\<close> is stored back as the call left it.
\<close>

definition skip_connection ::
  "gat_seq \<Rightarrow> nat \<Rightarrow> (nat \<Rightarrow> nat \<Rightarrow> bool) \<Rightarrow> real tensor
     \<Rightarrow> gat \<times> (error + forward_result) \<Rightarrow> gat_seq \<times> (error + real tensor)"
where
  "skip_connection self i keep h called =
     (let num_conv_layers = length (convs self);
          self = self\<lparr>convs := (convs self)[i := fst called]\<rparr>
      in case snd called of
           Inl err \<Rightarrow> (self, Inl err)
         | Inr (conv_res, returned_weights) \<Rightarrow>
             (case tensor_add conv_res h of
                Inl err \<Rightarrow> (self, Inl err)
              | Inr h \<Rightarrow>
                  if i \<noteq> num_conv_layers - 1
                  then (self, between_layers self i keep h)
                  else (self, Inr h)))"

text \<open>
  One iteration of the loop, for layer \<open>i\<close>. \<open>keep_alpha\<close> and \<open>keep_h\<close> are the dropout
  draws of the layer, for the attention weights and for the hidden state.
\<close>

definition layer ::
  "gat_seq \<Rightarrow> int tensor \<Rightarrow> real tensor \<Rightarrow> real tensor list \<Rightarrow> int tensor
     \<Rightarrow> (nat \<Rightarrow> nat \<Rightarrow> nat \<Rightarrow> bool) \<Rightarrow> (nat \<Rightarrow> nat \<Rightarrow> nat \<Rightarrow> bool)
     \<Rightarrow> nat \<Rightarrow> real tensor \<Rightarrow> gat_seq \<times> (error + real tensor)"
where
  "layer self edge_index edge_attr instr_vectors batch keep_alpha keep_h i h =
     (if length instr_vectors \<le> i then (self, Inl IndexError)
      else
        (case layer_inputs h edge_index edge_attr (instr_vectors ! i) batch of
           Inl err \<Rightarrow> (self, Inl err)
         | Inr (x_cat, edge_cat) \<Rightarrow>
             skip_connection self i (keep_h i) h
               (forward (convs self ! i) (XTensor x_cat) edge_index edge_cat None None
                  (keep_alpha i))))"

text \<open>The loop \<^verbatim>\<open>for i in range(num_conv_layers)\<close> over the remaining layers.\<close>

fun layers ::
  "gat_seq \<Rightarrow> int tensor \<Rightarrow> real tensor \<Rightarrow> real tensor list \<Rightarrow> int tensor
     \<Rightarrow> (nat \<Rightarrow> nat \<Rightarrow> nat \<Rightarrow> bool) \<Rightarrow> (nat \<Rightarrow> nat \<Rightarrow> nat \<Rightarrow> bool)
     \<Rightarrow> nat list \<Rightarrow> real tensor \<Rightarrow> gat_seq \<times> (error + real tensor)"
where
  "layers self edge_index edge_attr instr_vectors batch keep_alpha keep_h [] h = (self, Inr h)"
| "layers self edge_index edge_attr instr_vectors batch keep_alpha keep_h (i # rest) h =
     (case layer self edge_index edge_attr instr_vectors batch keep_alpha keep_h i h of
        (self, Inl err) \<Rightarrow> (self, Inl err)
      | (self, Inr h) \<Rightarrow>
          layers self edge_index edge_attr instr_vectors batch keep_alpha keep_h rest h)"

definition seq_forward ::
  "gat_seq \<Rightarrow> real tensor \<Rightarrow> int tensor \<Rightarrow> real tensor \<Rightarrow> real tensor list \<Rightarrow> int tensor
     \<Rightarrow> (nat \<Rightarrow> nat \<Rightarrow> nat \<Rightarrow> bool) \<Rightarrow> (nat \<Rightarrow> nat \<Rightarrow> nat \<Rightarrow> bool)
     \<Rightarrow> gat_seq \<times> (error + real tensor)"
where
  "seq_forward self x edge_index edge_attr instr_vectors batch keep_alpha keep_h =
     layers self edge_index edge_attr instr_vectors batch keep_alpha keep_h
       [0..<length (convs self)] x"

subsection \<open>Vocabulary for the behaviour of the stack\<close>

text \<open>
  The inputs of one layer at the ranks of the data model: the hidden state \<open>[N, F]\<close>, the
  edge list \<open>[2, E]\<close> with sources among the nodes, the edge features \<open>[E, F_edge]\<close>, the
  instruction vectors of the layer \<open>[B, F_ins]\<close> and the batch assignment \<open>[N]\<close> with
  values among the \<open>B\<close> graph instances. \<open>node_rows\<close> and \<open>edge_rows\<close> are the rows of the
  two concatenated inputs of the operator.
\<close>

definition valid_stack_input ::
  "real tensor \<Rightarrow> int tensor \<Rightarrow> real tensor \<Rightarrow> real tensor \<Rightarrow> int tensor \<Rightarrow> bool" where
  "valid_stack_input h edge_index edge_attr ins batch \<longleftrightarrow>
     wf_tensor h \<and> dim h = 2
     \<and> valid_edge_index edge_index (shape h ! 0) (shape h ! 0)
     \<and> wf_tensor edge_attr \<and> dim edge_attr = 2 \<and> shape edge_attr ! 0 = num_edges edge_index
     \<and> wf_tensor ins \<and> dim ins = 2
     \<and> wf_tensor batch \<and> shape batch = [shape h ! 0]
     \<and> (\<forall>g\<in>set (data batch). 0 \<le> g \<and> g < int (shape ins ! 0))"

definition node_rows :: "real tensor \<Rightarrow> real tensor \<Rightarrow> int tensor \<Rightarrow> real list list" where
  "node_rows h ins batch = map2 (@) (rows h) (map (\<lambda>g. rows ins ! nat g) (data batch))"

definition edge_rows :: "int tensor \<Rightarrow> real tensor \<Rightarrow> real tensor \<Rightarrow> int tensor \<Rightarrow> real list list" where
  "edge_rows edge_index edge_attr ins batch =
     map2 (@) (rows edge_attr)
       (map (\<lambda>i. rows ins ! nat (data batch ! nat i)) (edge_sources edge_index))"


text \<open>
  The conditions under which a pass over the stack goes through. \<open>valid_conv\<close>: a layer
  as the constructor builds it (heads averaged, \<open>F\<close> output channels, so that the skip
  connection adds tensors of one shape) for concatenated inputs of widths \<open>F + F_ins\<close> and
  \<open>F_edge + F_ins\<close>. \<open>bn_preserves\<close>: the batch normalisation of layer \<open>i\<close> answers
  a well-formed tensor of the shape of the hidden state with one of the same shape.
  \<open>valid_stack_call\<close>: an instruction tensor for every layer, a dropout probability in
  \<open>[0, 1]\<close>, and every layer and its inputs as above.

  \<open>layer_step\<close> relates the hidden state \<open>h\<close> before layer \<open>i\<close> to the hidden state
  \<open>h'\<close> after it: the operator is called on the concatenated inputs, its output is added
  to \<open>h\<close>, and the sum either goes through \<^verbatim>\<open>bns[i]\<close>, \<^verbatim>\<open>F.relu\<close> and \<^verbatim>\<open>F.dropout\<close>, in
  that order, when \<open>i\<close> is not the last layer, or is \<open>h'\<close> itself.
\<close>

definition valid_conv :: "gat \<Rightarrow> nat \<Rightarrow> nat \<Rightarrow> nat \<Rightarrow> bool" where
  "valid_conv conv F Fe Fi \<longleftrightarrow>
     wf_gat conv \<and> valid_config conv \<and> \<not> concat_heads conv \<and> out_channels conv = F
     \<and> in_features (lin_l conv) = F + Fi \<and> in_features (lin_e conv) = Fe + Fi"

definition bn_preserves :: "gat_seq \<Rightarrow> nat \<Rightarrow> nat list \<Rightarrow> bool" where
  "bn_preserves self i sh \<longleftrightarrow>
     (\<forall>t. wf_tensor t \<and> shape t = sh \<longrightarrow>
        (\<exists>t'. (bns self ! i) (seq_training self) t = Inr t' \<and> wf_tensor t' \<and> shape t' = sh))"

definition layer_step ::
  "gat_seq \<Rightarrow> int tensor \<Rightarrow> real tensor \<Rightarrow> real tensor list \<Rightarrow> int tensor
     \<Rightarrow> (nat \<Rightarrow> nat \<Rightarrow> nat \<Rightarrow> bool) \<Rightarrow> (nat \<Rightarrow> nat \<Rightarrow> nat \<Rightarrow> bool)
     \<Rightarrow> nat \<Rightarrow> real tensor \<Rightarrow> real tensor \<Rightarrow> bool"
where
  "layer_step self edge_index edge_attr instr_vectors batch keep_alpha keep_h i h h' \<longleftrightarrow>
     (\<exists>x_cat edge_cat conv_res s.
        layer_inputs h edge_index edge_attr (instr_vectors ! i) batch = Inr (x_cat, edge_cat)
        \<and> snd (forward (convs self ! i) (XTensor x_cat) edge_index edge_cat None None
                 (keep_alpha i)) = Inr (conv_res, None)
        \<and> tensor_add conv_res h = Inr s
        \<and> (if i \<noteq> length (convs self) - 1
            then \<exists>b. (bns self ! i) (seq_training self) s = Inr b
                     \<and> tensor_dropout (relu b) (seq_dropout self) (seq_training self) (keep_h i)
                         = Inr h'
            else h' = s))"

definition valid_stack_call ::
  "gat_seq \<Rightarrow> real tensor \<Rightarrow> int tensor \<Rightarrow> real tensor \<Rightarrow> real tensor list \<Rightarrow> int tensor \<Rightarrow> bool"
where
  "valid_stack_call self x edge_index edge_attr instr_vectors batch \<longleftrightarrow>
     length (convs self) \<le> length instr_vectors
     \<and> 0 \<le> seq_dropout self \<and> seq_dropout self \<le> 1
     \<and> (\<forall>i<length (convs self).
          valid_stack_input x edge_index edge_attr (instr_vectors ! i) batch
          \<and> valid_conv (convs self ! i) (shape x ! 1) (shape edge_attr ! 1)
              (shape (instr_vectors ! i) ! 1)
          \<and> (i \<noteq> length (convs self) - 1 \<longrightarrow> bn_preserves self i (shape x)))"
section \<open>A concrete call\<close>

text \<open>
  The scenario of the specification: 3 nodes with 4 features, the edges 0 \<rightarrow> 1 and
  1 \<rightarrow> 2 with 3 features each, 2 heads, 5 output channels, the heads averaged,
  \<^verbatim>\<open>add_self_loops=True\<close> and a bias.
\<close>


definition example_draw :: "string \<Rightarrow> nat \<Rightarrow> real" where
  "example_draw name i = 1 / 2"

definition example_gat :: gat where
  "example_gat = gat_init (Inl 4) 5 3 2 False (1 / 5) 0 True True example_draw"

text \<open>The same module constructed with \<^verbatim>\<open>dropout=2\<close>, which \<^verbatim>\<open>F.dropout\<close> rejects.\<close>

definition example_gat_dropout :: gat where
  "example_gat_dropout = gat_init (Inl 4) 5 3 2 False (1/5) 2 True True example_draw"

definition example_x :: node_input where
  "example_x = XTensor (Tensor [3, 4] (replicate 12 1))"

definition example_edge_index :: "int tensor" where
  "example_edge_index = Tensor [2, 2] [0, 1, 1, 2]"

definition example_edge_attr :: "real tensor" where
  "example_edge_attr = Tensor [2, 3] (replicate 6 1)"

text \<open>
  The broadcast scenario of the specification: five nodes with batch assignment
  \<open>[0, 0, 1, 1, 1]\<close>, instruction vectors \<open>[10]\<close> and \<open>[20]\<close> for the two graph
  instances, and one edge inside each graph.
\<close>

definition example_h :: "real tensor" where
  "example_h = Tensor [5, 1] [1, 2, 3, 4, 5]"

definition example_batch :: "int tensor" where
  "example_batch = Tensor [5] [0, 0, 1, 1, 1]"

definition example_instr :: "real tensor list" where
  "example_instr = [Tensor [2, 1] [10, 20]]"

definition example_graph_edges :: "int tensor" where
  "example_graph_edges = Tensor [2, 2] [0, 3, 1, 4]"

definition example_graph_attr :: "real tensor" where
  "example_graph_attr = Tensor [2, 1] [7, 8]"


text \<open>
  A stack of two layers on the same graphs, with one head, one channel, no dropout and a
  batch normalisation that changes nothing, and an instruction tensor for each layer.
\<close>

definition example_stack :: gat_seq where
  "example_stack = gat_seq_init 1 1 1 1 2 0 1 (1/5) True (\<lambda>i. example_draw) (\<lambda>n train t. Inr t)"

definition example_instrs :: "real tensor list" where
  "example_instrs = [Tensor [2, 1] [10, 20], Tensor [2, 1] [30, 40]]"

text \<open>
  A network with tied weights, as \<^verbatim>\<open>gat\<close> has them for a single input width
  (\<^verbatim>\<open>lin_l.weight\<close> and \<^verbatim>\<open>lin_r.weight\<close> are the tensor at address 0), and a checkpoint whose
  tensors are at the addresses 2, 3 and 4.
\<close>

definition example_network :: state_dict where
  "example_network = [(''lin_l.weight'', 0), (''lin_r.weight'', 0), (''bias'', 1)]"

definition example_checkpoint :: state_dict where
  "example_checkpoint = [(''lin_l.weight'', 2), (''bias'', 3), (''x'', 4)]"

definition example_memory :: "real memory" where
  "example_memory =
     memory_of [Tensor [2] [0, 0], Tensor [1] [0], Tensor [2] [1, 2], Tensor [3] [7, 8, 9],
                Tensor [1] [4]]"
section \<open>Properties of the checkpoint restore\<close>

lemma rename_None: "rename None k = k"
  by (simp add: rename_def)

lemma same_shapes_refl: "same_shapes m m" by (simp add: same_shapes_def)

lemma same_shapes_trans: "same_shapes a b \<Longrightarrow> same_shapes b c \<Longrightarrow> same_shapes a c"
  by (simp add: same_shapes_def)

lemma same_shapes_copy: "same_shapes (copy_into m dst src) m"
  by (simp add: same_shapes_def copy_into_def tensor_copy_def)

lemma copy_into_other: "a \<noteq> dst \<Longrightarrow> copy_into m dst src a = m a"
  by (simp add: copy_into_def)

lemma copy_into_dst: "copy_into m dst src dst = tensor_copy (m dst) (m src)"
  by (simp add: copy_into_def)

subsection \<open>The two halves of the loop body, field by field\<close>

lemma choose_name_fst:
  "fst (choose_name st n) = (if redirects (own_state st) n then ''detector.'' @ n else n)"
  by (simp add: choose_name_def)

lemma choose_name_own: "own_state (snd (choose_name st n)) = own_state st"
  by (simp add: choose_name_def)

lemma choose_name_memory: "memory (snd (choose_name st n)) = memory st"
  by (simp add: choose_name_def)

lemma choose_name_keys: "state_dict_keys_new (snd (choose_name st n)) = state_dict_keys_new st"
  by (simp add: choose_name_def)

lemma choose_name_only: "only_detector (snd (choose_name st n)) = redirects (own_state st) n"
  by (simp add: choose_name_def)

lemma choose_name_mismatch:
  "mismatch (snd (choose_name st n)) \<longleftrightarrow> mismatch st \<or> (only_detector st \<and> \<not> redirects (own_state st) n)"
  by (simp add: choose_name_def)

lemma choose_name_printed:
  "printed (snd (choose_name st n)) =
     printed st @ (if only_detector st \<and> \<not> redirects (own_state st) n then [CouldNotRestore] else [])"
  by (simp add: choose_name_def)

lemma restore_param_keys: "state_dict_keys_new (restore_param st n p) = state_dict_keys_new st"
  by (simp add: restore_param_def split: option.splits)

lemma restore_param_only: "only_detector (restore_param st n p) = only_detector st"
  by (simp add: restore_param_def split: option.splits)

lemma restore_param_own: "own_state (restore_param st n p) = own_state st"
  by (simp add: restore_param_def split: option.splits)

lemma restore_param_memory:
  "memory (restore_param st n p) =
     (case map_of (own_state st) n of
        None \<Rightarrow> memory st
      | Some own \<Rightarrow> if shape (memory st p) = shape (memory st own)
                    then copy_into (memory st) own p else memory st)"
  by (simp add: restore_param_def split: option.splits)

lemma restore_param_mismatch:
  "mismatch (restore_param st n p) \<longleftrightarrow>
     mismatch st \<or> (case map_of (own_state st) n of
                      None \<Rightarrow> True
                    | Some own \<Rightarrow> shape (memory st p) \<noteq> shape (memory st own))"
  by (simp add: restore_param_def split: option.splits)

lemma restore_param_printed:
  "printed (restore_param st n p) =
     printed st @ (case map_of (own_state st) n of
                     None \<Rightarrow> [UnexpectedKey n (shape (memory st p))]
                   | Some own \<Rightarrow>
                       if shape (memory st p) = shape (memory st own) then []
                       else [SizeMismatch n (shape (memory st own)) (shape (memory st p))])"
  by (simp add: restore_param_def split: option.splits)

lemma restore_param_shapes: "same_shapes (memory (restore_param st n p)) (memory st)"
  unfolding restore_param_memory
  by (auto simp: same_shapes_refl same_shapes_copy split: option.splits)

subsection \<open>One iteration\<close>

lemma step_own: "own_state (restore_step nm st item) = own_state st"
  by (simp add: restore_step_def Let_def restore_param_own choose_name_own)

lemma step_shapes: "same_shapes (memory (restore_step nm st item)) (memory st)"
proof -
  have "same_shapes (memory (restore_step nm st item))
          (memory (snd (choose_name (st\<lparr>state_dict_keys_new := insert (rename nm (fst item)) (state_dict_keys_new st)\<rparr>) (rename nm (fst item)))))"
    unfolding restore_step_def Let_def by (rule restore_param_shapes)
  then show ?thesis by (simp add: choose_name_memory)
qed

lemma step_keys:
  "state_dict_keys_new (restore_step nm st item) = insert (rename nm (fst item)) (state_dict_keys_new st)"
  by (simp add: restore_step_def Let_def restore_param_keys choose_name_keys)

lemma step_only:
  "only_detector (restore_step nm st item) = redirects (own_state st) (rename nm (fst item))"
  by (simp add: restore_step_def Let_def restore_param_only choose_name_only)

lemma step_target:
  assumes "own_state st = network"
  shows "fst (choose_name (st\<lparr>state_dict_keys_new := K\<rparr>) (rename nm key)) = target network nm key"
  using assms by (simp add: choose_name_fst target_def redirected_def)

text \<open>
  The iteration is the second half of the body on the name and the flags that the first
  half chose; the first half leaves the dictionary and the memory alone.
\<close>

lemma step_split:
  assumes o: "own_state st = network"
  shows "\<exists>c. restore_step nm st item = restore_param c (target network nm (fst item)) (snd item)
           \<and> own_state c = network \<and> memory c = memory st
           \<and> (mismatch c \<longleftrightarrow> mismatch st \<or> (only_detector st \<and> \<not> redirected network nm (fst item)))
           \<and> printed c = printed st
               @ (if only_detector st \<and> \<not> redirected network nm (fst item)
                  then [CouldNotRestore] else [])"
proof -
  let ?st1 = "st\<lparr>state_dict_keys_new := insert (rename nm (fst item)) (state_dict_keys_new st)\<rparr>"
  let ?c = "snd (choose_name ?st1 (rename nm (fst item)))"
  have "restore_step nm st item = restore_param ?c (target network nm (fst item)) (snd item)"
    by (simp add: restore_step_def Let_def step_target[OF o])
  moreover have "own_state ?c = network" using o by (simp add: choose_name_own)
  moreover have "memory ?c = memory st" by (simp add: choose_name_memory)
  moreover have "mismatch ?c \<longleftrightarrow> mismatch st \<or> (only_detector st \<and> \<not> redirected network nm (fst item))"
    using o by (simp add: choose_name_mismatch redirected_def)
  moreover have "printed ?c = printed st
               @ (if only_detector st \<and> \<not> redirected network nm (fst item)
                  then [CouldNotRestore] else [])"
    using o by (simp add: choose_name_printed redirected_def)
  ultimately show ?thesis by blast
qed

lemma step_mismatch:
  assumes o: "own_state st = network" and s: "same_shapes (memory st) m"
  shows "mismatch (restore_step nm st item) \<longleftrightarrow>
     mismatch st \<or> (only_detector st \<and> \<not> redirected network nm (fst item))
     \<or> \<not> fits m network nm item"
proof -
  obtain c where c: "restore_step nm st item = restore_param c (target network nm (fst item)) (snd item)"
    "own_state c = network" "memory c = memory st"
    "mismatch c \<longleftrightarrow> mismatch st \<or> (only_detector st \<and> \<not> redirected network nm (fst item))"
    using step_split[OF o] by blast
  have sh: "\<And>a. shape (memory st a) = shape (m a)" using s by (simp add: same_shapes_def)
  show ?thesis
    unfolding c(1) restore_param_mismatch c(2) c(3) c(4) sh
    by (simp add: fits_def split: option.splits)
qed

lemma step_memory:
  assumes o: "own_state st = network" and s: "same_shapes (memory st) m"
  shows "memory (restore_step nm st item) =
     (if fits m network nm item
      then copy_into (memory st) (the (map_of network (target network nm (fst item)))) (snd item)
      else memory st)"
proof -
  obtain c where c: "restore_step nm st item = restore_param c (target network nm (fst item)) (snd item)"
    "own_state c = network" "memory c = memory st"
    using step_split[OF o] by blast
  have sh: "\<And>a. shape (memory st a) = shape (m a)" using s by (simp add: same_shapes_def)
  show ?thesis
    unfolding c(1) restore_param_memory c(2) c(3) sh
    by (simp add: fits_def split: option.splits)
qed

lemma step_printed:
  assumes o: "own_state st = network" and s: "same_shapes (memory st) m"
  shows "printed (restore_step nm st item) =
     printed st
     @ (if only_detector st \<and> \<not> redirected network nm (fst item) then [CouldNotRestore] else [])
     @ (case map_of network (target network nm (fst item)) of
          None \<Rightarrow> [UnexpectedKey (target network nm (fst item)) (shape (m (snd item)))]
        | Some own \<Rightarrow>
            if shape (m (snd item)) = shape (m own) then []
            else [SizeMismatch (target network nm (fst item)) (shape (m own))
                    (shape (m (snd item)))])"
proof -
  obtain c where c: "restore_step nm st item = restore_param c (target network nm (fst item)) (snd item)"
    "own_state c = network" "memory c = memory st"
    "printed c = printed st
               @ (if only_detector st \<and> \<not> redirected network nm (fst item)
                  then [CouldNotRestore] else [])"
    using step_split[OF o] by blast
  have sh: "\<And>a. shape (memory st a) = shape (m a)" using s by (simp add: same_shapes_def)
  show ?thesis
    unfolding c(1) restore_param_printed c(2) c(3) c(4) sh
    by simp
qed

subsection \<open>The loop\<close>

lemma run_Nil: "restore_loop m network nm [] = restore_init m network"
  by (simp add: restore_loop_def)

lemma run_snoc:
  "restore_loop m network nm (xs @ [x]) = restore_step nm (restore_loop m network nm xs) x"
  by (simp add: restore_loop_def)

lemma run_own: "own_state (restore_loop m network nm xs) = network"
  by (induction xs rule: rev_induct) (simp_all add: run_Nil run_snoc restore_init_def step_own)

lemma run_shapes: "same_shapes (memory (restore_loop m network nm xs)) m"
proof (induction xs rule: rev_induct)
  case Nil show ?case by (simp add: run_Nil restore_init_def same_shapes_refl)
next
  case (snoc x xs)
  show ?case unfolding run_snoc
    by (rule same_shapes_trans[OF step_shapes snoc.IH])
qed

lemma run_only_detector:
  "only_detector (restore_loop m network nm xs) = ends_redirected network nm xs"
proof (cases xs rule: rev_cases)
  case Nil then show ?thesis by (simp add: run_Nil restore_init_def ends_redirected_def)
next
  case (snoc ys y)
  then show ?thesis
    by (simp add: run_snoc step_only ends_redirected_def redirected_def run_own)
qed

lemma run_keys: "state_dict_keys_new (restore_loop m network nm xs) = rename nm ` fst ` set xs"
  by (induction xs rule: rev_induct) (auto simp: run_Nil run_snoc restore_init_def step_keys)

lemma broken_run_snoc:
  "broken_run network nm (xs @ [x]) \<longleftrightarrow>
     broken_run network nm xs \<or> (ends_redirected network nm xs \<and> \<not> redirected network nm (fst x))"
proof -
  have A: "\<And>i. Suc i < length xs \<Longrightarrow> (xs @ [x]) ! i = xs ! i \<and> (xs @ [x]) ! Suc i = xs ! Suc i"
    by (simp add: nth_append)
  have B: "xs \<noteq> [] \<Longrightarrow> (xs @ [x]) ! (length xs - 1) = last xs \<and> (xs @ [x]) ! Suc (length xs - 1) = x"
    by (simp add: nth_append last_conv_nth)
  show ?thesis unfolding broken_run_def ends_redirected_def
  proof (intro iffI; elim exE disjE conjE)
    fix i assume h: "Suc i < length (xs @ [x])" "redirected network nm (fst ((xs @ [x]) ! i))"
       "\<not> redirected network nm (fst ((xs @ [x]) ! Suc i))"
    show "(\<exists>i. Suc i < length xs \<and> redirected network nm (fst (xs ! i)) \<and> \<not> redirected network nm (fst (xs ! Suc i))) \<or>
      (xs \<noteq> [] \<and> redirected network nm (fst (last xs))) \<and> \<not> redirected network nm (fst x)"
    proof (cases "Suc i < length xs")
      case True then show ?thesis using h A by auto
    next
      case False
      then have "Suc i = length xs" using h by simp
      then have "xs \<noteq> []" "i = length xs - 1" by auto
      then show ?thesis using h B by auto
    qed
  next
    fix i assume "Suc i < length xs" "redirected network nm (fst (xs ! i))" "\<not> redirected network nm (fst (xs ! Suc i))"
    then show "\<exists>i. Suc i < length (xs @ [x]) \<and> redirected network nm (fst ((xs @ [x]) ! i)) \<and> \<not> redirected network nm (fst ((xs @ [x]) ! Suc i))"
      using A by (intro exI[of _ i]) auto
  next
    assume "xs \<noteq> []" "redirected network nm (fst (last xs))" "\<not> redirected network nm (fst x)"
    then show "\<exists>i. Suc i < length (xs @ [x]) \<and> redirected network nm (fst ((xs @ [x]) ! i)) \<and> \<not> redirected network nm (fst ((xs @ [x]) ! Suc i))"
      using B by (intro exI[of _ "length xs - 1"]) auto
  qed
qed

lemma run_mismatch:
  "mismatch (restore_loop m network nm xs) \<longleftrightarrow>
     (\<exists>item\<in>set xs. \<not> fits m network nm item) \<or> broken_run network nm xs"
proof (induction xs rule: rev_induct)
  case Nil show ?case by (simp add: run_Nil restore_init_def broken_run_def)
next
  case (snoc x xs)
  show ?case
    unfolding run_snoc step_mismatch[OF run_own run_shapes] snoc.IH run_only_detector
      broken_run_snoc
    by auto
qed

lemma copies_snoc:
  "copies m network nm (xs @ [x]) a =
     (if map_of network (target network nm (fst x)) = Some a \<and> fits m network nm x
      then copies m network nm xs a @ [x]
      else copies m network nm xs a)"
  by (simp add: copies_def)

lemma fits_target: "fits m network nm x \<Longrightarrow> \<exists>a. map_of network (target network nm (fst x)) = Some a"
  by (simp add: fits_def split: option.splits)

text \<open>A tensor that no entry is copied into is never written.\<close>

lemma run_frame:
  "copies m network nm xs a = [] \<Longrightarrow> memory (restore_loop m network nm xs) a = m a"
proof (induction xs rule: rev_induct)
  case Nil show ?case by (simp add: run_Nil restore_init_def)
next
  case (snoc x xs)
  have none: "copies m network nm xs a = []"
    and nx: "\<not> (map_of network (target network nm (fst x)) = Some a \<and> fits m network nm x)"
    using snoc.prems by (auto simp: copies_snoc split: if_splits)
  have "memory (restore_loop m network nm (xs @ [x])) a = memory (restore_loop m network nm xs) a"
  proof (cases "fits m network nm x")
    case True
    then obtain b where b: "map_of network (target network nm (fst x)) = Some b"
      using fits_target by blast
    then have "a \<noteq> b" using nx True by auto
    then show ?thesis
      unfolding run_snoc step_memory[OF run_own run_shapes] using True b
      by (simp add: copy_into_other)
  next
    case False
    then show ?thesis unfolding run_snoc step_memory[OF run_own run_shapes] by simp
  qed
  then show ?case using snoc.IH[OF none] by simp
qed

text \<open>
  A tensor that entries are copied into ends with the entries of the source of the last of
  them, such as that source was at the call, when that source is not written by the call.
\<close>

lemma run_copied:
  "copies m network nm xs a \<noteq> [] \<Longrightarrow>
   copies m network nm xs (snd (last (copies m network nm xs a))) = [] \<Longrightarrow>
   memory (restore_loop m network nm xs) a
     = tensor_copy (m a) (m (snd (last (copies m network nm xs a))))"
proof (induction xs rule: rev_induct)
  case Nil then show ?case by (simp add: copies_def)
next
  case (snoc x xs)
  let ?r = "restore_loop m network nm xs"
  have sh: "shape (memory ?r a) = shape (m a)"
    using run_shapes[of m network nm xs] by (simp add: same_shapes_def)
  show ?case
  proof (cases "map_of network (target network nm (fst x)) = Some a \<and> fits m network nm x")
    case True
    then have l: "last (copies m network nm (xs @ [x]) a) = x" by (simp add: copies_snoc)
    have "copies m network nm (xs @ [x]) (snd x) = []" using snoc.prems(2) l by simp
    then have "copies m network nm xs (snd x) = []" by (simp add: copies_def)
    then have src: "memory ?r (snd x) = m (snd x)" by (rule run_frame)
    have "memory (restore_loop m network nm (xs @ [x])) a
        = tensor_copy (memory ?r a) (memory ?r (snd x))"
      unfolding run_snoc step_memory[OF run_own run_shapes] using True
      by (simp add: copy_into_dst)
    also have "\<dots> = tensor_copy (m a) (m (snd x))"
      using sh src by (simp add: tensor_copy_def)
    finally show ?thesis using l by simp
  next
    case False
    then have c: "copies m network nm (xs @ [x]) a = copies m network nm xs a"
      by (simp add: copies_snoc)
    have ne: "copies m network nm xs a \<noteq> []" using snoc.prems(1) c by simp
    have "copies m network nm (xs @ [x]) (snd (last (copies m network nm xs a))) = []"
      using snoc.prems(2) c by simp
    then have e: "copies m network nm xs (snd (last (copies m network nm xs a))) = []"
      by (simp add: copies_def)
    have same: "memory (restore_loop m network nm (xs @ [x])) a = memory ?r a"
    proof (cases "fits m network nm x")
      case True
      then obtain b where b: "map_of network (target network nm (fst x)) = Some b"
        using fits_target by blast
      then have "a \<noteq> b" using False True by auto
      then show ?thesis
        unfolding run_snoc step_memory[OF run_own run_shapes] using True b
        by (simp add: copy_into_other)
    next
      case False
      then show ?thesis unfolding run_snoc step_memory[OF run_own run_shapes] by simp
    qed
    show ?thesis using same snoc.IH[OF ne e] c by simp
  qed
qed

lemma run_printed_unexpected:
  "item \<in> set xs \<Longrightarrow> map_of network (target network nm (fst item)) = None \<Longrightarrow>
   UnexpectedKey (target network nm (fst item)) (shape (m (snd item)))
     \<in> set (printed (restore_loop m network nm xs))"
proof (induction xs rule: rev_induct)
  case Nil then show ?case by simp
next
  case (snoc x xs)
  show ?case
  proof (cases "item = x")
    case True
    then show ?thesis using snoc.prems(2)
      by (simp add: run_snoc step_printed[OF run_own run_shapes])
  next
    case False
    then have "item \<in> set xs" using snoc.prems(1) by simp
    then show ?thesis using snoc.IH snoc.prems(2)
      by (simp add: run_snoc step_printed[OF run_own run_shapes])
  qed
qed

lemma run_printed_size:
  "item \<in> set xs \<Longrightarrow> map_of network (target network nm (fst item)) = Some own \<Longrightarrow>
   shape (m (snd item)) \<noteq> shape (m own) \<Longrightarrow>
   SizeMismatch (target network nm (fst item)) (shape (m own)) (shape (m (snd item)))
     \<in> set (printed (restore_loop m network nm xs))"
proof (induction xs rule: rev_induct)
  case Nil then show ?case by simp
next
  case (snoc x xs)
  show ?case
  proof (cases "item = x")
    case True
    then show ?thesis using snoc.prems(2,3)
      by (simp add: run_snoc step_printed[OF run_own run_shapes])
  next
    case False
    then have "item \<in> set xs" using snoc.prems(1) by simp
    then show ?thesis using snoc.IH snoc.prems(2,3)
      by (simp add: run_snoc step_printed[OF run_own run_shapes])
  qed
qed

lemma run_printed_broken:
  "broken_run network nm xs \<Longrightarrow> CouldNotRestore \<in> set (printed (restore_loop m network nm xs))"
proof (induction xs rule: rev_induct)
  case Nil then show ?case by (simp add: broken_run_def)
next
  case (snoc x xs)
  then show ?case
    unfolding broken_run_snoc run_snoc step_printed[OF run_own run_shapes] run_only_detector
    by auto
qed

lemma finish_run:
  "restore_finish k (restore_loop m network nm xs) =
     (if ends_redirected network nm xs
      then (restore_loop m network nm xs)\<lparr>printed := printed (restore_loop m network nm xs) @ [DetectorRestored (mismatch (restore_loop m network nm xs)) k]\<rparr>
      else if missing_keys network nm xs \<noteq> {}
           then (restore_loop m network nm xs)\<lparr>printed := printed (restore_loop m network nm xs) @ [CouldntFind (missing_keys network nm xs)], mismatch := True\<rparr>
           else restore_loop m network nm xs)"
  by (simp add: restore_finish_def run_only_detector run_keys run_own missing_keys_def Let_def)

lemma optimistic_restore_unfold:
  "optimistic_restore m network sd nm =
     (let st = restore_finish (length sd) (restore_loop m network nm sd)
      in (\<not> mismatch st, memory st, printed st))"
  by (simp add: optimistic_restore_def)

lemma target_present:
  "has_key network (rename nm key) \<Longrightarrow> target network nm key = rename nm key"
  by (simp add: target_def redirected_def redirects_def)

subsection \<open>The result of \<^verbatim>\<open>optimistic_restore\<close>\<close>

text \<open>
  Claim C9, as the code has it. The call always returns (the model has no failing branch:
  nothing in the function raises). An entry of \<^verbatim>\<open>state_dict\<close> is aimed at its renamed key,
  or, when that key is absent from the network and \<^verbatim>\<open>'detector.'\<close> followed by it is
  present, at the prefixed key; an entry whose renamed key exists in the network is aimed
  at that key. It fits when the name it is aimed at exists with a tensor of equal size, and
  it is then copied into that tensor, in place. So the tensors keep their shapes; a tensor
  that no fitting entry is aimed at, under any of the names that hold it, is unchanged; and
  a tensor that fitting entries are aimed at ends with the entries of the last of them (of
  its tensor as it was at the call, provided the call does not write that tensor too, as
  when the checkpoint's tensors are none of the network's). A network parameter that shares
  its tensor with another one changes with it, whether the checkpoint names it or not. The
  call returns True exactly when every entry fits, no redirected entry is directly
  followed by one that is not, and either the last entry was redirected or no network key
  is missing from the renamed keys. Every unexpected key, every size mismatch, a broken
  run of redirected entries and (unless the last entry was redirected) the set of missing
  keys are printed.
\<close>

theorem optimistic_restore_amended:
  assumes "optimistic_restore m network state_dict names_map = (ok, m', out)"
  shows "same_shapes m' m
    \<and> (\<forall>a. copies m network names_map state_dict a = [] \<longrightarrow> m' a = m a)
    \<and> (\<forall>a. copies m network names_map state_dict a \<noteq> []
            \<and> copies m network names_map state_dict
                (snd (last (copies m network names_map state_dict a))) = [] \<longrightarrow>
          m' a = tensor_copy (m a) (m (snd (last (copies m network names_map state_dict a)))))
    \<and> (\<forall>item\<in>set state_dict. has_key network (rename names_map (fst item)) \<longrightarrow>
          target network names_map (fst item) = rename names_map (fst item))
    \<and> (ok \<longleftrightarrow> (\<forall>item\<in>set state_dict. fits m network names_map item)
              \<and> \<not> broken_run network names_map state_dict
              \<and> (ends_redirected network names_map state_dict
                  \<or> missing_keys network names_map state_dict = {}))
    \<and> (\<forall>item\<in>set state_dict. map_of network (target network names_map (fst item)) = None \<longrightarrow>
          UnexpectedKey (target network names_map (fst item)) (shape (m (snd item))) \<in> set out)
    \<and> (\<forall>item\<in>set state_dict. \<forall>own.
          map_of network (target network names_map (fst item)) = Some own
          \<and> shape (m (snd item)) \<noteq> shape (m own) \<longrightarrow>
          SizeMismatch (target network names_map (fst item)) (shape (m own))
            (shape (m (snd item))) \<in> set out)
    \<and> (broken_run network names_map state_dict \<longrightarrow> CouldNotRestore \<in> set out)
    \<and> (\<not> ends_redirected network names_map state_dict
        \<and> missing_keys network names_map state_dict \<noteq> {} \<longrightarrow>
          CouldntFind (missing_keys network names_map state_dict) \<in> set out)"
proof -
  let ?r = "restore_loop m network names_map state_dict"
  let ?f = "restore_finish (length state_dict) ?r"
  have ok: "ok = (\<not> mismatch ?f)" and mem: "m' = memory ?f" and out: "out = printed ?f"
    using assms by (simp_all add: optimistic_restore_unfold Let_def)
  have mem_r: "memory ?f = memory ?r" by (simp add: finish_run)
  have sub: "set (printed ?r) \<subseteq> set (printed ?f)" by (auto simp: finish_run)
  have c1: "same_shapes m' m"
    using run_shapes[of m network names_map state_dict] by (simp add: mem mem_r)
  have c2: "\<forall>a. copies m network names_map state_dict a = [] \<longrightarrow> m' a = m a"
    by (simp add: mem mem_r run_frame)
  have c2': "\<forall>a. copies m network names_map state_dict a \<noteq> []
            \<and> copies m network names_map state_dict
                (snd (last (copies m network names_map state_dict a))) = [] \<longrightarrow>
          m' a = tensor_copy (m a) (m (snd (last (copies m network names_map state_dict a))))"
    by (simp add: mem mem_r run_copied)
  have c3: "\<forall>item\<in>set state_dict. has_key network (rename names_map (fst item)) \<longrightarrow>
          target network names_map (fst item) = rename names_map (fst item)"
    by (simp add: target_present)
  have c4: "ok \<longleftrightarrow> (\<forall>item\<in>set state_dict. fits m network names_map item)
              \<and> \<not> broken_run network names_map state_dict
              \<and> (ends_redirected network names_map state_dict
                  \<or> missing_keys network names_map state_dict = {})"
    unfolding ok finish_run using run_mismatch[of m network names_map state_dict] by auto
  have c5: "\<forall>item\<in>set state_dict. map_of network (target network names_map (fst item)) = None \<longrightarrow>
          UnexpectedKey (target network names_map (fst item)) (shape (m (snd item))) \<in> set out"
    using run_printed_unexpected[of _ state_dict network names_map m] sub out by blast
  have c6: "\<forall>item\<in>set state_dict. \<forall>own.
          map_of network (target network names_map (fst item)) = Some own
          \<and> shape (m (snd item)) \<noteq> shape (m own) \<longrightarrow>
          SizeMismatch (target network names_map (fst item)) (shape (m own))
            (shape (m (snd item))) \<in> set out"
    using run_printed_size[of _ state_dict network names_map _ m] sub out by blast
  have c7: "broken_run network names_map state_dict \<longrightarrow> CouldNotRestore \<in> set out"
    using run_printed_broken[of network names_map state_dict m] sub out by blast
  have c8: "\<not> ends_redirected network names_map state_dict
        \<and> missing_keys network names_map state_dict \<noteq> {} \<longrightarrow>
          CouldntFind (missing_keys network names_map state_dict) \<in> set out"
    by (simp add: out finish_run)
  show ?thesis using c1 c2 c2' c3 c4 c5 c6 c7 c8 by blast
qed

subsection \<open>A network with tied weights\<close>

lemma example_restore_values:
  "example_memory 0 = Tensor [2] [0, 0]" "example_memory 1 = Tensor [1] [0]"
  "example_memory 2 = Tensor [2] [1, 2]" "example_memory 3 = Tensor [3] [7, 8, 9]"
  "example_memory 4 = Tensor [1] [4]" "example_memory (Suc 0) = Tensor [1] [0]"
  by (simp_all add: example_memory_def memory_of_def)

lemma example_restore_targets:
  "target example_network None ''lin_l.weight'' = ''lin_l.weight''"
  "target example_network None ''bias'' = ''bias''"
  "target example_network None ''x'' = ''x''"
  by (simp_all add: target_def redirected_def redirects_def has_key_def rename_None
      example_network_def)

lemma example_restore_fits:
  "fits example_memory example_network None (''lin_l.weight'', 2)"
  "\<not> fits example_memory example_network None (''bias'', 3)"
  "\<not> fits example_memory example_network None (''x'', 4)"
  by (simp_all add: fits_def example_restore_targets example_restore_values)
     (simp_all add: example_network_def example_restore_values)

lemma example_restore_copies:
  "copies example_memory example_network None example_checkpoint 0 = [(''lin_l.weight'', 2)]"
  "copies example_memory example_network None example_checkpoint 1 = []"
  "copies example_memory example_network None example_checkpoint 2 = []"
  "copies example_memory example_network None example_checkpoint (Suc 0) = []"
  by (simp_all add: copies_def example_checkpoint_def example_restore_fits
      example_restore_targets)
     (simp_all add: example_network_def)

lemma example_restore_run:
  "optimistic_restore example_memory example_network example_checkpoint None
   = (False, copy_into example_memory 0 2,
      [SizeMismatch ''bias'' [1] [3], UnexpectedKey ''x'' [1], CouldntFind {''lin_r.weight''}])"
proof -
  let ?st1 = "\<lparr>mismatch = False, only_detector = False, own_state = example_network,
               state_dict_keys_new = {''lin_l.weight''}, printed = [],
               memory = copy_into example_memory 0 2\<rparr>"
  let ?st2 = "\<lparr>mismatch = True, only_detector = False, own_state = example_network,
               state_dict_keys_new = {''bias'', ''lin_l.weight''},
               printed = [SizeMismatch ''bias'' [1] [3]],
               memory = copy_into example_memory 0 2\<rparr>"
  let ?st3 = "\<lparr>mismatch = True, only_detector = False, own_state = example_network,
               state_dict_keys_new = {''x'', ''bias'', ''lin_l.weight''},
               printed = [SizeMismatch ''bias'' [1] [3], UnexpectedKey ''x'' [1]],
               memory = copy_into example_memory 0 2\<rparr>"
  have v: "copy_into example_memory 0 2 (Suc 0) = Tensor [1] [0]"
      "copy_into example_memory 0 2 3 = Tensor [3] [7, 8, 9]"
      "copy_into example_memory 0 2 4 = Tensor [1] [4]"
    by (simp_all add: copy_into_def example_restore_values)
  have k: "\<not> redirects example_network ''lin_l.weight''" "\<not> redirects example_network ''bias''"
      "\<not> redirects example_network ''x''"
      "map_of example_network ''lin_l.weight'' = Some 0"
      "map_of example_network ''bias'' = Some (Suc 0)"
      "map_of example_network ''x'' = None"
    by (simp_all add: redirects_def has_key_def example_network_def)
  have s1: "restore_step None (restore_init example_memory example_network) (''lin_l.weight'', 2)
          = ?st1"
    by (simp add: restore_step_def Let_def rename_None restore_init_def choose_name_def k
        restore_param_def example_restore_values)
  have s2: "restore_step None ?st1 (''bias'', 3) = ?st2"
    by (simp add: restore_step_def Let_def rename_None choose_name_def k restore_param_def v)
  have s3: "restore_step None ?st2 (''x'', 4) = ?st3"
    by (simp add: restore_step_def Let_def rename_None choose_name_def k restore_param_def v)
  have run: "restore_loop example_memory example_network None example_checkpoint = ?st3"
    unfolding restore_loop_def example_checkpoint_def foldl.simps s1 s2 s3 by (rule refl)
  have miss: "fst ` set example_network - {''x'', ''bias'', ''lin_l.weight''} = {''lin_r.weight''}"
    by (auto simp: example_network_def)
  have fin: "restore_finish 3 ?st3
           = ?st3\<lparr>printed := [SizeMismatch ''bias'' [1] [3], UnexpectedKey ''x'' [1],
                              CouldntFind {''lin_r.weight''}], mismatch := True\<rparr>"
    unfolding restore_finish_def Let_def by (simp add: miss)
  have len: "length example_checkpoint = 3" by (simp add: example_checkpoint_def)
  show ?thesis
    unfolding optimistic_restore_def run len fin Let_def by simp
qed

text \<open>
  The result of C9 at a concrete call on the network with tied weights: the entry
  \<^verbatim>\<open>lin_l.weight\<close> is copied, and \<^verbatim>\<open>lin_r.weight\<close>, which the checkpoint does not have, holds
  the new entries too; \<^verbatim>\<open>bias\<close> has the wrong size and keeps its tensor; \<^verbatim>\<open>x\<close> is an
  unexpected key; \<^verbatim>\<open>lin_r.weight\<close> is reported missing.
\<close>

theorem optimistic_restore_amended_witness:
  "optimistic_restore example_memory example_network example_checkpoint None
   = (False, copy_into example_memory 0 2,
      [SizeMismatch ''bias'' [1] [3], UnexpectedKey ''x'' [1], CouldntFind {''lin_r.weight''}])
   \<and> stored (copy_into example_memory 0 2) example_network ''lin_l.weight''
       = Some (Tensor [2] [1, 2])
   \<and> stored (copy_into example_memory 0 2) example_network ''lin_r.weight''
       = Some (Tensor [2] [1, 2])
   \<and> stored (copy_into example_memory 0 2) example_network ''bias'' = Some (Tensor [1] [0])
   \<and> \<not> has_key example_checkpoint ''lin_r.weight''
   \<and> UnexpectedKey (target example_network None ''x'') [1]
       \<in> set [SizeMismatch ''bias'' [1] [3], UnexpectedKey ''x'' [1],
              CouldntFind {''lin_r.weight''}]"
proof -
  let ?m' = "copy_into example_memory 0 2"
  let ?out = "[SizeMismatch ''bias'' [1] [3], UnexpectedKey ''x'' [1],
               CouldntFind {''lin_r.weight''}]"
  note res = optimistic_restore_amended[OF example_restore_run]
  have frame: "\<forall>a. copies example_memory example_network None example_checkpoint a = []
                 \<longrightarrow> ?m' a = example_memory a"
    using res by blast
  have copied: "\<forall>a. copies example_memory example_network None example_checkpoint a \<noteq> []
            \<and> copies example_memory example_network None example_checkpoint
                (snd (last (copies example_memory example_network None example_checkpoint a))) = []
            \<longrightarrow> ?m' a = tensor_copy (example_memory a)
                  (example_memory (snd (last (copies example_memory example_network None
                                                 example_checkpoint a))))"
    using res by blast
  have logged: "\<forall>item\<in>set example_checkpoint.
          map_of example_network (target example_network None (fst item)) = None \<longrightarrow>
          UnexpectedKey (target example_network None (fst item)) (shape (example_memory (snd item)))
            \<in> set ?out"
    using res by blast
  have a0: "?m' 0 = Tensor [2] [1, 2]"
    using spec[OF copied, of 0]
    by (simp add: example_restore_copies example_restore_values tensor_copy_def)
  have a1: "?m' 1 = Tensor [1] [0]"
    using spec[OF frame, of 1] by (simp add: example_restore_copies example_restore_values)
  have st: "stored ?m' example_network ''lin_l.weight'' = Some (Tensor [2] [1, 2])"
    "stored ?m' example_network ''lin_r.weight'' = Some (Tensor [2] [1, 2])"
    "stored ?m' example_network ''bias'' = Some (Tensor [1] [0])"
    using a0 a1 by (simp_all add: stored_def example_network_def)
  have nk: "\<not> has_key example_checkpoint ''lin_r.weight''"
    by (simp add: has_key_def example_checkpoint_def)
  have x: "(''x'', 4) \<in> set example_checkpoint" by (simp add: example_checkpoint_def)
  have none: "map_of example_network (target example_network None (fst (''x'', 4::nat))) = None"
    by (simp add: example_restore_targets) (simp add: example_network_def)
  have "UnexpectedKey (target example_network None (fst (''x'', 4::nat)))
          (shape (example_memory (snd (''x'', 4::nat)))) \<in> set ?out"
    using bspec[OF logged x] none by (rule mp)
  then have u: "UnexpectedKey (target example_network None ''x'') [1] \<in> set ?out"
    by (simp add: example_restore_values)
  show ?thesis using example_restore_run st nk u by blast
qed

text \<open>
  Claim C9 as stated fails: the network has the parameters \<^verbatim>\<open>detector.a\<close> and \<^verbatim>\<open>b\<close>,
  the checkpoint only \<^verbatim>\<open>a\<close>. The call returns True although \<^verbatim>\<open>b\<close> is missing from the
  checkpoint, and it overwrites \<^verbatim>\<open>detector.a\<close>, a key the checkpoint does not have.
\<close>

theorem optimistic_restore_counterexample:
  "fst (optimistic_restore
          (memory_of [Tensor [1] [0::real], Tensor [1] [0], Tensor [1] [5]])
          [(''detector.a'', 0), (''b'', 1)] [(''a'', 2)] None)
   \<and> ''b'' \<in> missing_keys [(''detector.a'', 0), (''b'', 1)] None [(''a'', 2)]
   \<and> \<not> has_key [(''a'', 2)] ''detector.a''
   \<and> stored (memory_of [Tensor [1] [0::real], Tensor [1] [0], Tensor [1] [5]])
        [(''detector.a'', 0), (''b'', 1)] ''detector.a'' = Some (Tensor [1] [0])
   \<and> stored (fst (snd (optimistic_restore
          (memory_of [Tensor [1] [0::real], Tensor [1] [0], Tensor [1] [5]])
          [(''detector.a'', 0), (''b'', 1)] [(''a'', 2)] None)))
        [(''detector.a'', 0), (''b'', 1)] ''detector.a'' = Some (Tensor [1] [5])"
  by (simp add: optimistic_restore_def restore_loop_def restore_init_def restore_step_def
      choose_name_def redirects_def has_key_def restore_param_def restore_finish_def
      rename_None missing_keys_def tensor_copy_def copy_into_def memory_of_def stored_def
      Let_def)

section \<open>Properties of the attention operator\<close>

lemma length_rows_of: "length (rows_of n k xs) = n"
  by (simp add: rows_of_def)

lemma rows_of_nth: "i < n \<Longrightarrow> rows_of n k xs ! i = take k (drop (i * k) xs)"
  by (simp add: rows_of_def)

lemma rows_of_row_length:
  "length xs = n * k \<Longrightarrow> r \<in> set (rows_of n k xs) \<Longrightarrow> length r = k"
proof -
  assume len: "length xs = n * k" and r: "r \<in> set (rows_of n k xs)"
  then obtain i where i: "i < n" "r = take k (drop (i * k) xs)"
    by (auto simp: rows_of_def)
  have "i * k + k \<le> n * k"
    using i(1) by (metis Suc_leI mult_Suc mult_le_mono1 add.commute)
  then show ?thesis using i len by simp
qed

lemma rows_of_Suc: "rows_of (Suc n) k xs = take k xs # rows_of n k (drop k xs)"
proof -
  have "[0..<Suc n] = 0 # map Suc [0..<n]"
    by (simp add: upt_conv_Cons map_Suc_upt del: upt_Suc)
  then show ?thesis
    by (simp add: rows_of_def comp_def add.commute del: upt_Suc)
qed

lemma rows_of_concat:
  "length rs = n \<Longrightarrow> \<forall>r\<in>set rs. length r = k \<Longrightarrow> rows_of n k (concat rs) = rs"
proof (induction rs arbitrary: n)
  case Nil then show ?case by (simp add: rows_of_def)
next
  case (Cons r rs)
  then obtain m where n: "n = Suc m" and m: "length rs = m" by (cases n) auto
  have "rows_of m k (concat rs) = rs" using Cons m by simp
  then show ?case using Cons.prems(2) by (simp add: n rows_of_Suc)
qed

lemma concat_rows_of: "length xs = n * k \<Longrightarrow> concat (rows_of n k xs) = xs"
proof (induction n arbitrary: xs)
  case 0 then show ?case by (simp add: rows_of_def)
next
  case (Suc n)
  have "length (drop k xs) = n * k" using Suc.prems by simp
  then show ?case using Suc.IH[of "drop k xs"] by (simp add: rows_of_Suc)
qed

lemma length_concat_const:
  "\<forall>r\<in>set rs. length r = k \<Longrightarrow> length (concat rs) = length rs * k"
  by (induction rs) auto

lemma length_rows: "length (rows t) = prod_list (butlast (shape t))"
  by (simp add: rows_def length_rows_of)

lemma length_projection: "length (projection lin H C t) = prod_list (butlast (shape t))"
  by (simp add: projection_def length_rows)

lemma projection_node_length: "n < length (projection lin H C t) \<Longrightarrow> length (projection lin H C t ! n) = H"
  by (simp add: projection_def length_rows_of)

lemma project_ok:
  assumes wf: "wf_linear lin" and out: "out_features lin = H * C" and pos: "0 < H * C"
    and rank: "shape t \<noteq> []" and feat: "last (shape t) = in_features lin"
  shows "project lin att H C t
       = Inr (projection lin H C t, att_sum (projection lin H C t) att)"
proof -
  let ?Y = "map (\<lambda>row. map (\<lambda>w. dot w row) (weight lin)) (rows t)"
  let ?M = "prod_list (butlast (shape t))"
  have lin: "linear lin t = Inr (Tensor (butlast (shape t) @ [H * C]) (concat ?Y))"
    using rank feat out by (simp add: linear_def dim_def)
  have lenY: "length ?Y = ?M" by (simp add: length_rows)
  have rowY: "\<forall>r\<in>set ?Y. length r = H * C" using wf out by (auto simp: wf_linear_def)
  have total: "prod_list (butlast (shape t) @ [H * C]) = ?M * (H * C)" by simp
  have unflat: "rows_of ?M (H * C) (concat ?Y) = ?Y" by (rule rows_of_concat[OF lenY rowY])
  have "view_heads H C (Tensor (butlast (shape t) @ [H * C]) (concat ?Y))
      = Inr (map (rows_of H C) ?Y)"
    using pos unflat unfolding view_heads_def Let_def tensor.sel total by simp
  moreover have "map (rows_of H C) ?Y = projection lin H C t"
    by (simp add: projection_def comp_def)
  ultimately show ?thesis by (simp add: project_def lin)
qed

lemma shape2: "dim t = 2 \<Longrightarrow> shape t = [shape t ! 0, shape t ! 1]"
  by (cases "shape t"; simp add: dim_def; rename_tac a as; case_tac as; simp)

lemma valid_edge_index_rows:
  assumes "valid_edge_index ei n m"
  shows "length (edge_sources ei) = num_edges ei" "length (edge_targets ei) = num_edges ei"
proof -
  have sh: "shape ei = [2, num_edges ei]"
    using assms shape2[of ei] by (simp add: valid_edge_index_def num_edges_def)
  have len: "length (data ei) = 2 * num_edges ei"
    using assms sh by (simp add: valid_edge_index_def wf_tensor_def)
  have r: "rows ei = rows_of 2 (num_edges ei) (data ei)" by (simp add: rows_def sh)
  have "\<forall>r\<in>set (rows ei). length r = num_edges ei"
    using rows_of_row_length[OF len] r by simp
  moreover have "length (rows ei) = 2" by (simp add: r length_rows_of)
  ultimately show "length (edge_sources ei) = num_edges ei" "length (edge_targets ei) = num_edges ei"
    by (simp_all add: edge_sources_def edge_targets_def)
qed

lemma set_size_0: "fst sz = None \<or> fst sz = Some n \<Longrightarrow> set_size sz 0 n = Inr (Some n, snd sz)"
  by (cases sz) (auto simp: set_size_def)

lemma set_size_1: "snd sz = None \<or> snd sz = Some n \<Longrightarrow> set_size sz (Suc 0) n = Inr (fst sz, Some n)"
  by (cases sz) (auto simp: set_size_def)

lemma index_select_ok:
  "\<forall>i\<in>set idx. 0 \<le> i \<and> i < int (length xs) \<Longrightarrow> index_select xs idx = Inr (map (\<lambda>i. xs ! nat i) idx)"
  by (simp add: index_select_def)

lemma collect_j_ok:
  assumes "fst sz = None \<or> fst sz = Some (length d0)" "snd sz = None \<or> snd sz = Some (length d1)"
    and "\<forall>i\<in>set idx. 0 \<le> i \<and> i < int (length d0)"
  shows "collect_j (d0, Some d1) sz idx = Inr ((Some (length d0), Some (length d1)), map (\<lambda>i. d0 ! nat i) idx)"
  using assms by (simp add: collect_j_def set_size_1 set_size_0 index_select_ok)

lemma collect_i_ok:
  assumes "fst sz = None \<or> fst sz = Some (length d0)" "snd sz = None \<or> snd sz = Some (length d1)"
    and "\<forall>i\<in>set idx. 0 \<le> i \<and> i < int (length d1)"
  shows "collect_i (d0, Some d1) sz idx = Inr ((Some (length d0), Some (length d1)), Some (map (\<lambda>i. d1 ! nat i) idx))"
  using assms by (simp add: collect_i_def set_size_1 set_size_0 index_select_ok)

lemma add_edge_scores_ok:
  "length alpha_e = length alpha \<Longrightarrow> add_edge_scores alpha alpha_e = Inr (map2 (map2 (+)) alpha alpha_e)"
  by (simp add: add_edge_scores_def)

lemma softmax_ok:
  "\<forall>i\<in>set index. 0 \<le> i \<and> i < int n \<Longrightarrow> softmax src index (Some n) = Inr (softmax_rows src index)"
  by (auto simp: softmax_def maybe_num_nodes_def)

lemma scatter_add_ok:
  "\<forall>i\<in>set index. 0 \<le> i \<and> i < int n \<Longrightarrow>
   scatter_add (Some n) H C index inputs = Inr (scatter_sum n H C index inputs)"
  by (auto simp: scatter_add_def maybe_num_nodes_def)

lemma F_dropout_ok:
  "0 \<le> p \<Longrightarrow> p \<le> 1 \<Longrightarrow> F_dropout a p t keep = Inr (dropout_rows a p t keep)"
  by (simp add: F_dropout_def)

lemma length_softmax_rows: "length (softmax_rows src index) = length src"
  by (simp add: softmax_rows_def)

lemma length_edge_scores:
  "length alpha_j = E \<Longrightarrow> length alpha_i = E \<Longrightarrow> length alpha_e = E \<Longrightarrow>
   length (edge_scores slope alpha_j alpha_i alpha_e) = E"
  by (simp add: edge_scores_def)

lemma message_ok:
  assumes "length alpha_j = E" "length a_i = E" "length alpha_e = E"
    and "\<forall>i\<in>set index. 0 \<le> i \<and> i < int n"
    and "0 \<le> dropout self" "dropout self \<le> 1"
  shows "message self x_j alpha_j (Some a_i) alpha_e index (Some n) keep =
     (self\<lparr>alpha_cache := Some (Tensor [E, heads self]
               (concat (softmax_rows (edge_scores (negative_slope self) alpha_j a_i alpha_e) index)))\<rparr>,
      Inr (weigh x_j (dropout_rows (softmax_rows (edge_scores (negative_slope self) alpha_j a_i alpha_e) index)
                        (dropout self) (training self) keep)))"
proof -
  have a: "add_edge_scores (map2 (map2 (+)) alpha_j a_i) alpha_e
         = Inr (map2 (map2 (+)) (map2 (map2 (+)) alpha_j a_i) alpha_e)"
    using assms(1-3) by (simp add: add_edge_scores_ok)
  have l: "length (softmax_rows (edge_scores (negative_slope self) alpha_j a_i alpha_e) index) = E"
    using assms(1-3) by (simp add: length_softmax_rows length_edge_scores)
  show ?thesis
    unfolding message_def Let_def using l
    by (simp add: a softmax_ok[OF assms(4)] F_dropout_ok[OF assms(5,6)] edge_scores_def)
qed

lemma py_or_sizes: "py_or (Some m) (Some n) = Some (out_size n m)"
  by (simp add: py_or_def out_size_def)

lemma propagate_ok:
  assumes ei: "valid_edge_index ei (length X_l) (length X_r)"
    and sz: "size' = None \<or> size' = Some (length X_l, length X_r)"
    and la: "length A_l = length X_l" "length A_r = length X_r"
    and le: "length alpha_e = num_edges ei"
    and p: "0 \<le> dropout self" "dropout self \<le> 1"
  shows "propagate self ei (X_l, Some X_r) (A_l, Some A_r) alpha_e size' keep =
     (self\<lparr>alpha_cache := Some (Tensor [num_edges ei, heads self]
               (concat (softmax_rows
                   (edge_scores (negative_slope self)
                      (map (\<lambda>i. A_l ! nat i) (edge_sources ei))
                      (map (\<lambda>i. A_r ! nat i) (edge_targets ei)) alpha_e)
                   (edge_targets ei))))\<rparr>,
      Inr (scatter_sum (out_size (length X_l) (length X_r)) (heads self) (out_channels self)
             (edge_targets ei)
             (weigh (map (\<lambda>i. X_l ! nat i) (edge_sources ei))
                (dropout_rows
                   (softmax_rows
                      (edge_scores (negative_slope self)
                         (map (\<lambda>i. A_l ! nat i) (edge_sources ei))
                         (map (\<lambda>i. A_r ! nat i) (edge_targets ei)) alpha_e)
                      (edge_targets ei))
                   (dropout self) (training self) keep))))"
proof -
  let ?src = "edge_sources ei" and ?tgt = "edge_targets ei"
  let ?N = "out_size (length X_l) (length X_r)"
  have chk: "\<not> (dim ei \<noteq> 2 \<or> shape ei ! 0 \<noteq> 2)" using ei by (simp add: valid_edge_index_def)
  have src: "\<forall>i\<in>set ?src. 0 \<le> i \<and> i < int (length X_l)"
    and tgt: "\<forall>i\<in>set ?tgt. 0 \<le> i \<and> i < int (length X_r)"
    using ei by (simp_all add: valid_edge_index_def)
  have lens: "length ?src = num_edges ei" "length ?tgt = num_edges ei"
    using valid_edge_index_rows[OF ei] by simp_all
  have s0: "fst (map_option fst size', map_option snd size') = None
        \<or> fst (map_option fst size', map_option snd size') = Some (length X_l)"
    and s1: "snd (map_option fst size', map_option snd size') = None
        \<or> snd (map_option fst size', map_option snd size') = Some (length X_r)"
    using sz by auto
  have c1: "collect_j (X_l, Some X_r) (map_option fst size', map_option snd size') ?src
          = Inr ((Some (length X_l), Some (length X_r)), map (\<lambda>i. X_l ! nat i) ?src)"
    by (rule collect_j_ok[OF s0 s1 src])
  have c2: "collect_j (A_l, Some A_r) (Some (length X_l), Some (length X_r)) ?src
          = Inr ((Some (length X_l), Some (length X_r)), map (\<lambda>i. A_l ! nat i) ?src)"
    using collect_j_ok[of "(Some (length X_l), Some (length X_r))" A_l A_r ?src] src la by simp
  have c3: "collect_i (A_l, Some A_r) (Some (length X_l), Some (length X_r)) ?tgt
          = Inr ((Some (length X_l), Some (length X_r)), Some (map (\<lambda>i. A_r ! nat i) ?tgt))"
    using collect_i_ok[of "(Some (length X_l), Some (length X_r))" A_l A_r ?tgt] tgt la by simp
  have tgtN: "\<forall>i\<in>set ?tgt. 0 \<le> i \<and> i < int ?N"
  proof (cases "length X_r = 0")
    case True
    then have "set ?tgt = {}" using tgt by (cases ?tgt) auto
    then show ?thesis by simp
  next
    case False then show ?thesis using tgt by (simp add: out_size_def)
  qed
  have msg: "message self (map (\<lambda>i. X_l ! nat i) ?src) (map (\<lambda>i. A_l ! nat i) ?src)
               (Some (map (\<lambda>i. A_r ! nat i) ?tgt)) alpha_e ?tgt (Some ?N) keep =
     (self\<lparr>alpha_cache := Some (Tensor [num_edges ei, heads self]
               (concat (softmax_rows (edge_scores (negative_slope self) (map (\<lambda>i. A_l ! nat i) ?src)
                   (map (\<lambda>i. A_r ! nat i) ?tgt) alpha_e) ?tgt)))\<rparr>,
      Inr (weigh (map (\<lambda>i. X_l ! nat i) ?src)
            (dropout_rows (softmax_rows (edge_scores (negative_slope self) (map (\<lambda>i. A_l ! nat i) ?src)
                   (map (\<lambda>i. A_r ! nat i) ?tgt) alpha_e) ?tgt)
                        (dropout self) (training self) keep)))"
    by (rule message_ok[OF _ _ le tgtN p]) (simp_all add: lens)
  show ?thesis
    unfolding propagate_def Let_def edge_sources_def[symmetric] edge_targets_def[symmetric]
    using chk
    by (simp add: c1 c2 c3 py_or_sizes msg scatter_add_ok[OF tgtN])
qed

lemma valid_features_project:
  assumes "valid_features lin t" "wf_linear lin" "out_features lin = H * C" "0 < H" "0 < C"
  shows "project lin att H C t = Inr (projection lin H C t, att_sum (projection lin H C t) att)"
    and "length (projection lin H C t) = shape t ! 0"
proof -
  have d2: "dim t = 2" and f: "shape t ! 1 = in_features lin"
    using assms(1) by (simp_all add: valid_features_def)
  have sh: "shape t = [shape t ! 0, shape t ! 1]" by (rule shape2[OF d2])
  have ne: "shape t \<noteq> []" using sh by auto
  have "last (shape t) = shape t ! 1" by (subst sh) simp
  then have la: "last (shape t) = in_features lin" using f by simp
  show "project lin att H C t = Inr (projection lin H C t, att_sum (projection lin H C t) att)"
    using project_ok[OF assms(2,3) _ ne la] assms(4,5) by simp
  have "butlast (shape t) = [shape t ! 0]" by (subst sh) simp
  then show "length (projection lin H C t) = shape t ! 0" by (simp add: length_projection)
qed

lemma length_att_sum: "length (att_sum X att) = length X"
  by (simp add: att_sum_def)

lemma dot_commute: "dot a b = dot b a"
proof (induction a arbitrary: b)
  case Nil show ?case by (simp add: dot_def)
next
  case (Cons x xs)
  show ?case
  proof (cases b)
    case Nil then show ?thesis by (simp add: dot_def)
  next
    case (Cons y ys)
    then show ?thesis using Cons.IH[of ys] by (simp add: dot_def mult.commute)
  qed
qed

lemma att_sum_row:
  assumes "n < length X" "length (X ! n) = H" "length att = H"
  shows "att_sum X att ! n = map (\<lambda>h. dot (att ! h) (X ! n ! h)) [0..<H]"
proof (rule nth_equalityI)
  show "length (att_sum X att ! n) = length (map (\<lambda>h. dot (att ! h) (X ! n ! h)) [0..<H])"
    using assms by (simp add: att_sum_def)
next
  fix h assume "h < length (att_sum X att ! n)"
  then have h: "h < H" using assms by (simp add: att_sum_def)
  then show "att_sum X att ! n ! h = map (\<lambda>h. dot (att ! h) (X ! n ! h)) [0..<H] ! h"
    using assms by (simp add: att_sum_def dot_commute)
qed

lemma edge_scores_closed:
  assumes E: "length src = E" "length tgt = E" "length Ep = E"
    and src: "\<forall>i\<in>set src. 0 \<le> i \<and> i < int (length X_l)"
    and tgt: "\<forall>i\<in>set tgt. 0 \<le> i \<and> i < int (length X_r)"
    and rows: "\<forall>r\<in>set X_l. length r = H" "\<forall>r\<in>set X_r. length r = H" "\<forall>r\<in>set Ep. length r = H"
    and att: "length al = H" "length ar = H" "length ae = H"
  shows "edge_scores slope (map (\<lambda>i. att_sum X_l al ! nat i) src)
           (map (\<lambda>i. att_sum X_r ar ! nat i) tgt) (att_sum Ep ae)
       = map (\<lambda>e. map (\<lambda>h. leaky_relu slope
                       (dot (al ! h) (X_l ! nat (src ! e) ! h)
                        + dot (ar ! h) (X_r ! nat (tgt ! e) ! h)
                        + dot (ae ! h) (Ep ! e ! h)))
                    [0..<H])
           [0..<E]"
proof (rule nth_equalityI)
  show "length (edge_scores slope (map (\<lambda>i. att_sum X_l al ! nat i) src)
           (map (\<lambda>i. att_sum X_r ar ! nat i) tgt) (att_sum Ep ae)) = length (map (\<lambda>e. map (\<lambda>h. leaky_relu slope
                       (dot (al ! h) (X_l ! nat (src ! e) ! h)
                        + dot (ar ! h) (X_r ! nat (tgt ! e) ! h)
                        + dot (ae ! h) (Ep ! e ! h)))
                    [0..<H])
           [0..<E])"
    using E by (simp add: edge_scores_def length_att_sum)
next
  fix e
  assume "e < length (edge_scores slope (map (\<lambda>i. att_sum X_l al ! nat i) src)
           (map (\<lambda>i. att_sum X_r ar ! nat i) tgt) (att_sum Ep ae))"
  then have e: "e < E" using E by (simp add: edge_scores_def length_att_sum)
  have s: "nat (src ! e) < length X_l" using src e E by (metis nat_less_iff nth_mem of_nat_0_le_iff nat_int zless_nat_conj)
  have t: "nat (tgt ! e) < length X_r" using tgt e E by (metis nat_less_iff nth_mem of_nat_0_le_iff nat_int zless_nat_conj)
  have r1: "att_sum X_l al ! nat (src ! e) = map (\<lambda>h. dot (al ! h) (X_l ! nat (src ! e) ! h)) [0..<H]"
    using att_sum_row[OF s _ att(1)] rows(1) s by simp
  have r2: "att_sum X_r ar ! nat (tgt ! e) = map (\<lambda>h. dot (ar ! h) (X_r ! nat (tgt ! e) ! h)) [0..<H]"
    using att_sum_row[OF t _ att(2)] rows(2) t by simp
  have r3: "att_sum Ep ae ! e = map (\<lambda>h. dot (ae ! h) (Ep ! e ! h)) [0..<H]"
    using att_sum_row[of e Ep H ae] rows(3) e E att(3) by simp
  have "edge_scores slope (map (\<lambda>i. att_sum X_l al ! nat i) src)
           (map (\<lambda>i. att_sum X_r ar ! nat i) tgt) (att_sum Ep ae) ! e
      = map (leaky_relu slope) (map2 (+) (map2 (+) (att_sum X_l al ! nat (src ! e)) (att_sum X_r ar ! nat (tgt ! e))) (att_sum Ep ae ! e))"
    using e E by (simp add: edge_scores_def length_att_sum)
  also have "\<dots> = map (\<lambda>h. leaky_relu slope
                       (dot (al ! h) (X_l ! nat (src ! e) ! h)
                        + dot (ar ! h) (X_r ! nat (tgt ! e) ! h)
                        + dot (ae ! h) (Ep ! e ! h))) [0..<H]"
    unfolding r1 r2 r3 by (rule nth_equalityI) simp_all
  finally show "edge_scores slope (map (\<lambda>i. att_sum X_l al ! nat i) src)
           (map (\<lambda>i. att_sum X_r ar ! nat i) tgt) (att_sum Ep ae) ! e
      = map (\<lambda>e. map (\<lambda>h. leaky_relu slope
                       (dot (al ! h) (X_l ! nat (src ! e) ! h)
                        + dot (ar ! h) (X_r ! nat (tgt ! e) ! h)
                        + dot (ae ! h) (Ep ! e ! h)))
                    [0..<H])
           [0..<E] ! e"
    using e by simp
qed

lemma projection_rows: "\<forall>r\<in>set (projection lin H C t). length r = H"
  by (auto simp: projection_def length_rows_of)

lemma out_size_same: "out_size n n = n"
  by (simp add: out_size_def)

lemma project_nodes_ok:
  assumes wf: "wf_gat self" and cfg: "valid_config self"
    and v: "valid_input self x ei ea size'"
  shows "project_nodes self x
       = Inr ((source_features self x, Some (target_features self x)),
              (att_sum (source_features self x) (att_l self),
               Some (att_sum (target_features self x) (att_r self))))"
proof -
  let ?H = "heads self" and ?C = "out_channels self"
  have pos: "0 < ?H" "0 < ?C" using cfg by (simp_all add: valid_config_def)
  have l: "wf_linear (lin_l self)" "out_features (lin_l self) = ?H * ?C"
    and r: "wf_linear (lin_r self)" "out_features (lin_r self) = ?H * ?C"
    using wf by (simp_all add: wf_gat_def)
  show ?thesis
  proof (cases x)
    case (XTensor t)
    then have vt: "valid_features (lin_l self) t" using v by (simp add: valid_input_def)
    have d: "dim t = 2" using vt by (simp add: valid_features_def)
    show ?thesis
      using valid_features_project(1)[OF vt l pos, of "att_l self"] d
      by (simp add: XTensor project_nodes_def source_features_def target_features_def Let_def)
  next
    case (XPair t0 t1)
    then obtain t where t1: "t1 = Some t" using v by (cases t1) (simp_all add: valid_input_def)
    have v0: "valid_features (lin_l self) t0" and vt: "valid_features (lin_r self) t"
      using v XPair t1 by (simp_all add: valid_input_def)
    have d: "dim t0 = 2" using v0 by (simp add: valid_features_def)
    show ?thesis
      using valid_features_project(1)[OF v0 l pos, of "att_l self"]
        valid_features_project(1)[OF vt r pos, of "att_r self"] d
      by (simp add: XPair t1 project_nodes_def source_features_def target_features_def Let_def)
  qed
qed

lemma feature_lengths:
  assumes wf: "wf_gat self" and cfg: "valid_config self"
    and v: "valid_input self x ei ea size'"
  shows "valid_edge_index ei (length (source_features self x)) (length (target_features self x))"
    and "size' = None \<or> size' = Some (length (source_features self x), length (target_features self x))"
    and "out_size (length (source_features self x)) (length (target_features self x)) = num_out x"
proof -
  let ?H = "heads self" and ?C = "out_channels self"
  have pos: "0 < ?H" "0 < ?C" using cfg by (simp_all add: valid_config_def)
  have l: "wf_linear (lin_l self)" "out_features (lin_l self) = ?H * ?C"
    and r: "wf_linear (lin_r self)" "out_features (lin_r self) = ?H * ?C"
    using wf by (simp_all add: wf_gat_def)
  have "valid_edge_index ei (length (source_features self x)) (length (target_features self x))
      \<and> (size' = None \<or> size' = Some (length (source_features self x), length (target_features self x)))
      \<and> out_size (length (source_features self x)) (length (target_features self x)) = num_out x"
  proof (cases x)
    case (XTensor t)
    then have vt: "valid_features (lin_l self) t" using v by (simp add: valid_input_def)
    show ?thesis
      using v valid_features_project(2)[OF vt l pos]
      by (simp add: XTensor valid_input_def source_features_def target_features_def num_out_def out_size_same)
  next
    case (XPair t0 t1)
    then obtain t where t1: "t1 = Some t" using v by (cases t1) (simp_all add: valid_input_def)
    have v0: "valid_features (lin_l self) t0" and vt: "valid_features (lin_r self) t"
      using v XPair t1 by (simp_all add: valid_input_def)
    show ?thesis
      using v valid_features_project(2)[OF v0 l pos] valid_features_project(2)[OF vt r pos]
      by (simp add: XPair t1 valid_input_def source_features_def target_features_def num_out_def)
  qed
  then show "valid_edge_index ei (length (source_features self x)) (length (target_features self x))"
    and "size' = None \<or> size' = Some (length (source_features self x), length (target_features self x))"
    and "out_size (length (source_features self x)) (length (target_features self x)) = num_out x"
    by simp_all
qed

lemma source_features_rows: "\<forall>r\<in>set (source_features self x). length r = heads self"
  by (cases x) (simp_all add: source_features_def projection_rows)

lemma target_features_rows: "\<forall>r\<in>set (target_features self x). length r = heads self"
  using projection_rows by (cases x) (auto simp: target_features_def split: option.splits)

lemma scores_closed:
  assumes wf: "wf_gat self" and cfg: "valid_config self"
    and v: "valid_input self x ei ea size'"
  shows "edge_scores (negative_slope self)
           (map (\<lambda>i. att_sum (source_features self x) (att_l self) ! nat i) (edge_sources ei))
           (map (\<lambda>i. att_sum (target_features self x) (att_r self) ! nat i) (edge_targets ei))
           (att_sum (edge_features self ea) (att_e self))
       = scores self x ei ea"
proof -
  let ?H = "heads self" and ?C = "out_channels self"
  have pos: "0 < ?H" "0 < ?C" using cfg by (simp_all add: valid_config_def)
  have e: "wf_linear (lin_e self)" "out_features (lin_e self) = ?H * ?C"
    using wf by (simp_all add: wf_gat_def)
  have ve: "valid_features (lin_e self) ea" and ne: "shape ea ! 0 = num_edges ei"
    using v by (simp_all add: valid_input_def)
  have lenE: "length (edge_features self ea) = num_edges ei"
    using valid_features_project(2)[OF ve e pos] ne by (simp add: edge_features_def)
  note vei = feature_lengths(1)[OF wf cfg v]
  have att: "length (att_l self) = ?H" "length (att_r self) = ?H" "length (att_e self) = ?H"
    using wf by (simp_all add: wf_gat_def)
  show ?thesis
    unfolding scores_def logit_def
    by (rule edge_scores_closed[OF valid_edge_index_rows[OF vei] lenE _ _
          source_features_rows target_features_rows _ att])
       (use vei in \<open>simp_all add: valid_edge_index_def edge_features_def projection_rows\<close>)
qed

lemma shape_view_concat: "shape (view_concat H C out) = [length out, H * C]"
  by (simp add: view_concat_def)

lemma shape_mean_heads: "shape (mean_heads H C out) = [length out, C]"
  by (simp add: mean_heads_def)

lemma length_scatter_sum: "length (scatter_sum n H C index inputs) = n"
  by (simp add: scatter_sum_def)

lemma length_aggregated: "length (aggregated self x ei ea keep) = num_out x"
  by (simp add: aggregated_def length_scatter_sum)

lemma add_bias_ok:
  "length b = last (shape out) \<Longrightarrow>
   add_bias out b = Inr (Tensor (shape out) (concat (map (\<lambda>row. map2 (+) row b) (rows out))))"
  by (simp add: add_bias_def)

lemma edge_project_ok:
  assumes wf: "wf_gat self" and cfg: "valid_config self"
    and v: "valid_input self x ei ea size'"
  shows "project (lin_e self) (att_e self) (heads self) (out_channels self) ea
       = Inr (edge_features self ea, att_sum (edge_features self ea) (att_e self))"
    and "length (att_sum (edge_features self ea) (att_e self)) = num_edges ei"
proof -
  let ?H = "heads self" and ?C = "out_channels self"
  have pos: "0 < ?H" "0 < ?C" using cfg by (simp_all add: valid_config_def)
  have e: "wf_linear (lin_e self)" "out_features (lin_e self) = ?H * ?C"
    using wf by (simp_all add: wf_gat_def)
  have ve: "valid_features (lin_e self) ea" and ne: "shape ea ! 0 = num_edges ei"
    using v by (simp_all add: valid_input_def)
  show "project (lin_e self) (att_e self) ?H ?C ea
       = Inr (edge_features self ea, att_sum (edge_features self ea) (att_e self))"
    using valid_features_project(1)[OF ve e pos] by (simp add: edge_features_def)
  show "length (att_sum (edge_features self ea) (att_e self)) = num_edges ei"
    using valid_features_project(2)[OF ve e pos] ne by (simp add: edge_features_def length_att_sum)
qed

lemma propagate_valid:
  assumes wf: "wf_gat self" and cfg: "valid_config self"
    and v: "valid_input self x ei ea size'"
  shows "propagate self ei (source_features self x, Some (target_features self x))
           (att_sum (source_features self x) (att_l self),
            Some (att_sum (target_features self x) (att_r self)))
           (att_sum (edge_features self ea) (att_e self)) size' keep
       = (self\<lparr>alpha_cache := Some (Tensor [num_edges ei, heads self]
                                        (concat (attention self x ei ea)))\<rparr>,
          Inr (aggregated self x ei ea keep))"
proof -
  have p: "0 \<le> dropout self" "dropout self \<le> 1" using cfg by (simp_all add: valid_config_def)
  note fl = feature_lengths[OF wf cfg v]
  show ?thesis
    unfolding propagate_ok[OF fl(1) fl(2) length_att_sum length_att_sum
        edge_project_ok(2)[OF wf cfg v] p]
      scores_closed[OF wf cfg v] fl(3)
    by (simp add: aggregated_def messages_def attention_def)
qed

lemma shape_combine_heads:
  "shape (combine_heads self out)
     = [length out, if concat_heads self then heads self * out_channels self else out_channels self]"
  by (simp add: combine_heads_def shape_view_concat shape_mean_heads)

lemma with_bias_ok:
  assumes wf: "wf_gat self"
  shows "with_bias (self\<lparr>alpha_cache := c\<rparr>)
           (combine_heads (self\<lparr>alpha_cache := c\<rparr>) (aggregated self x ei ea keep))
       = Inr (forward_output self x ei ea keep)"
proof -
  have same: "combine_heads (self\<lparr>alpha_cache := c\<rparr>) (aggregated self x ei ea keep)
            = combine_heads self (aggregated self x ei ea keep)"
    by (simp add: combine_heads_def)
  show ?thesis
  proof (cases "bias self")
    case None then show ?thesis by (simp add: with_bias_def same forward_output_def Let_def)
  next
    case (Some b)
    then have "length b = last (shape (combine_heads self (aggregated self x ei ea keep)))"
      using wf by (simp add: wf_gat_def shape_combine_heads)
    then show ?thesis using Some
      by (simp add: with_bias_def same add_bias_ok forward_output_def Let_def)
  qed
qed

lemma forward_valid:
  assumes wf: "wf_gat self" and cfg: "valid_config self"
    and v: "valid_input self x ei ea size'"
  shows "forward self x ei ea size' return_attention_weights keep
       = (self\<lparr>alpha_cache := None\<rparr>,
          Inr (forward_output self x ei ea keep,
               map_option (\<lambda>b. (ei, Tensor [num_edges ei, heads self]
                                      (concat (attention self x ei ea))))
                 return_attention_weights))"
  unfolding forward_def Let_def project_nodes_ok[OF wf cfg v] edge_project_ok(1)[OF wf cfg v]
  by (cases return_attention_weights)
     (simp_all add: propagate_valid[OF wf cfg v] with_bias_ok[OF wf])

subsection \<open>A pass that fails in \<^verbatim>\<open>F.dropout\<close>, and what a pass can change\<close>

lemma message_dropout_fails:
  assumes "length alpha_j = E" "length a_i = E" "length alpha_e = E"
    and "\<forall>i\<in>set index. 0 \<le> i \<and> i < int n"
    and "dropout self < 0 \<or> 1 < dropout self"
  shows "message self x_j alpha_j (Some a_i) alpha_e index (Some n) keep =
     (self\<lparr>alpha_cache := Some (Tensor [E, heads self]
               (concat (softmax_rows (edge_scores (negative_slope self) alpha_j a_i alpha_e) index)))\<rparr>,
      Inl ValueError)"
proof -
  have a: "add_edge_scores (map2 (map2 (+)) alpha_j a_i) alpha_e
         = Inr (map2 (map2 (+)) (map2 (map2 (+)) alpha_j a_i) alpha_e)"
    using assms(1-3) by (simp add: add_edge_scores_ok)
  have l: "length (softmax_rows (edge_scores (negative_slope self) alpha_j a_i alpha_e) index) = E"
    using assms(1-3) by (simp add: length_softmax_rows length_edge_scores)
  have d: "\<And>al. F_dropout al (dropout self) (training self) keep = Inl ValueError"
    using assms(5) by (auto simp: F_dropout_def)
  show ?thesis
    unfolding message_def Let_def using l
    by (simp add: a softmax_ok[OF assms(4)] d edge_scores_def)
qed

lemma propagate_dropout_fails:
  assumes ei: "valid_edge_index ei (length X_l) (length X_r)"
    and sz: "size' = None \<or> size' = Some (length X_l, length X_r)"
    and la: "length A_l = length X_l" "length A_r = length X_r"
    and le: "length alpha_e = num_edges ei"
    and p: "dropout self < 0 \<or> 1 < dropout self"
  shows "propagate self ei (X_l, Some X_r) (A_l, Some A_r) alpha_e size' keep =
     (self\<lparr>alpha_cache := Some (Tensor [num_edges ei, heads self]
               (concat (softmax_rows
                   (edge_scores (negative_slope self)
                      (map (\<lambda>i. A_l ! nat i) (edge_sources ei))
                      (map (\<lambda>i. A_r ! nat i) (edge_targets ei)) alpha_e)
                   (edge_targets ei))))\<rparr>,
      Inl ValueError)"
proof -
  let ?src = "edge_sources ei" and ?tgt = "edge_targets ei"
  let ?N = "out_size (length X_l) (length X_r)"
  have chk: "\<not> (dim ei \<noteq> 2 \<or> shape ei ! 0 \<noteq> 2)" using ei by (simp add: valid_edge_index_def)
  have src: "\<forall>i\<in>set ?src. 0 \<le> i \<and> i < int (length X_l)"
    and tgt: "\<forall>i\<in>set ?tgt. 0 \<le> i \<and> i < int (length X_r)"
    using ei by (simp_all add: valid_edge_index_def)
  have lens: "length ?src = num_edges ei" "length ?tgt = num_edges ei"
    using valid_edge_index_rows[OF ei] by simp_all
  have s0: "fst (map_option fst size', map_option snd size') = None
        \<or> fst (map_option fst size', map_option snd size') = Some (length X_l)"
    and s1: "snd (map_option fst size', map_option snd size') = None
        \<or> snd (map_option fst size', map_option snd size') = Some (length X_r)"
    using sz by auto
  have c1: "collect_j (X_l, Some X_r) (map_option fst size', map_option snd size') ?src
          = Inr ((Some (length X_l), Some (length X_r)), map (\<lambda>i. X_l ! nat i) ?src)"
    by (rule collect_j_ok[OF s0 s1 src])
  have c2: "collect_j (A_l, Some A_r) (Some (length X_l), Some (length X_r)) ?src
          = Inr ((Some (length X_l), Some (length X_r)), map (\<lambda>i. A_l ! nat i) ?src)"
    using collect_j_ok[of "(Some (length X_l), Some (length X_r))" A_l A_r ?src] src la by simp
  have c3: "collect_i (A_l, Some A_r) (Some (length X_l), Some (length X_r)) ?tgt
          = Inr ((Some (length X_l), Some (length X_r)), Some (map (\<lambda>i. A_r ! nat i) ?tgt))"
    using collect_i_ok[of "(Some (length X_l), Some (length X_r))" A_l A_r ?tgt] tgt la by simp
  have tgtN: "\<forall>i\<in>set ?tgt. 0 \<le> i \<and> i < int ?N"
  proof (cases "length X_r = 0")
    case True
    then have "set ?tgt = {}" using tgt by (cases ?tgt) auto
    then show ?thesis by simp
  next
    case False then show ?thesis using tgt by (simp add: out_size_def)
  qed
  have msg: "message self (map (\<lambda>i. X_l ! nat i) ?src) (map (\<lambda>i. A_l ! nat i) ?src)
               (Some (map (\<lambda>i. A_r ! nat i) ?tgt)) alpha_e ?tgt (Some ?N) keep =
     (self\<lparr>alpha_cache := Some (Tensor [num_edges ei, heads self]
               (concat (softmax_rows (edge_scores (negative_slope self) (map (\<lambda>i. A_l ! nat i) ?src)
                   (map (\<lambda>i. A_r ! nat i) ?tgt) alpha_e) ?tgt)))\<rparr>,
      Inl ValueError)"
    by (rule message_dropout_fails[OF _ _ le tgtN p]) (simp_all add: lens)
  show ?thesis
    unfolding propagate_def Let_def edge_sources_def[symmetric] edge_targets_def[symmetric]
    using chk
    by (simp add: c1 c2 c3 py_or_sizes msg)
qed


text \<open>
  The projections, the logits and the attention weights do not depend on the dropout
  probability.
\<close>

lemma dropout_irrelevant:
  "wf_gat (self\<lparr>dropout := p\<rparr>) = wf_gat self"
  "valid_input (self\<lparr>dropout := p\<rparr>) x ei ea size' = valid_input self x ei ea size'"
  "project_nodes (self\<lparr>dropout := p\<rparr>) x = project_nodes self x"
  "source_features (self\<lparr>dropout := p\<rparr>) x = source_features self x"
  "target_features (self\<lparr>dropout := p\<rparr>) x = target_features self x"
  "edge_features (self\<lparr>dropout := p\<rparr>) ea = edge_features self ea"
  "scores (self\<lparr>dropout := p\<rparr>) x ei ea = scores self x ei ea"
  "attention (self\<lparr>dropout := p\<rparr>) x ei ea = attention self x ei ea"
  by (simp_all add: wf_gat_def valid_input_def project_nodes_def source_features_def
      target_features_def edge_features_def scores_def logit_def attention_def
      cong: option.case_cong node_input.case_cong sum.case_cong prod.case_cong if_cong)

lemma forward_dropout_fails:
  assumes wf: "wf_gat self" and pos: "0 < heads self" "0 < out_channels self"
    and v: "valid_input self x ei ea size'"
    and bad: "dropout self < 0 \<or> 1 < dropout self"
  shows "forward self x ei ea size' return_attention_weights keep
       = (self\<lparr>alpha_cache := Some (Tensor [num_edges ei, heads self]
                                        (concat (attention self x ei ea)))\<rparr>,
          Inl ValueError)"
proof -
  let ?s = "self\<lparr>dropout := 0\<rparr>"
  have wf0: "wf_gat ?s" using wf by (simp add: dropout_irrelevant)
  have cfg0: "valid_config ?s" using pos by (simp add: valid_config_def)
  have v0: "valid_input ?s x ei ea size'" using v by (simp add: dropout_irrelevant)
  have pn: "project_nodes self x
       = Inr ((source_features self x, Some (target_features self x)),
              (att_sum (source_features self x) (att_l self),
               Some (att_sum (target_features self x) (att_r self))))"
    using project_nodes_ok[OF wf0 cfg0 v0] by (simp add: dropout_irrelevant)
  have pe: "project (lin_e self) (att_e self) (heads self) (out_channels self) ea
       = Inr (edge_features self ea, att_sum (edge_features self ea) (att_e self))"
    and le: "length (att_sum (edge_features self ea) (att_e self)) = num_edges ei"
    using edge_project_ok[OF wf0 cfg0 v0] by (simp_all add: dropout_irrelevant)
  have fl: "valid_edge_index ei (length (source_features self x)) (length (target_features self x))"
    "size' = None \<or> size' = Some (length (source_features self x), length (target_features self x))"
    using feature_lengths(1,2)[OF wf0 cfg0 v0] by (simp_all add: dropout_irrelevant)
  have sc: "edge_scores (negative_slope self)
           (map (\<lambda>i. att_sum (source_features self x) (att_l self) ! nat i) (edge_sources ei))
           (map (\<lambda>i. att_sum (target_features self x) (att_r self) ! nat i) (edge_targets ei))
           (att_sum (edge_features self ea) (att_e self))
       = scores self x ei ea"
    using scores_closed[OF wf0 cfg0 v0] by (simp add: dropout_irrelevant)
  have pr: "propagate self ei (source_features self x, Some (target_features self x))
           (att_sum (source_features self x) (att_l self),
            Some (att_sum (target_features self x) (att_r self)))
           (att_sum (edge_features self ea) (att_e self)) size' keep
       = (self\<lparr>alpha_cache := Some (Tensor [num_edges ei, heads self]
                                        (concat (attention self x ei ea)))\<rparr>,
          Inl ValueError)"
    unfolding propagate_dropout_fails[OF fl(1) fl(2) length_att_sum length_att_sum le bad] sc
    by (simp add: attention_def)
  show ?thesis
    unfolding forward_def Let_def pn pe by (simp add: pr)
qed

text \<open>Whatever its outcome, a pass changes no field of the module but \<^verbatim>\<open>_alpha\<close>.\<close>

lemma message_frame:
  "\<exists>c. fst (message self x_j alpha_j alpha_i alpha_e index size_i keep) = self\<lparr>alpha_cache := c\<rparr>"
proof -
  have same: "self = self\<lparr>alpha_cache := alpha_cache self\<rparr>" by simp
  show ?thesis
    unfolding message_def Let_def
    by (auto split: sum.splits intro: exI[of _ "alpha_cache self"])
qed

lemma propagate_frame:
  "\<exists>c. fst (propagate self ei xs alphas alpha_e size' keep) = self\<lparr>alpha_cache := c\<rparr>"
proof -
  have same: "\<exists>c. self = self\<lparr>alpha_cache := c\<rparr>" by (rule exI[of _ "alpha_cache self"]) simp
  have m: "\<And>x_j alpha_j alpha_i index size_i s r.
     message self x_j alpha_j alpha_i alpha_e index size_i keep = (s, r)
       \<Longrightarrow> \<exists>c. s = self\<lparr>alpha_cache := c\<rparr>"
    using message_frame by (metis fst_conv)
  show ?thesis
    unfolding propagate_def Let_def
    using same by (auto split: sum.splits prod.splits dest: m)
qed

lemma forward_frame:
  "\<exists>c. fst (forward self x ei ea size' raw keep) = self\<lparr>alpha_cache := c\<rparr>"
proof -
  have same: "\<exists>c. self = self\<lparr>alpha_cache := c\<rparr>" by (rule exI[of _ "alpha_cache self"]) simp
  have p: "\<And>xs alphas alpha_e s r.
     propagate self ei xs alphas alpha_e size' keep = (s, r)
       \<Longrightarrow> \<exists>c. s = self\<lparr>alpha_cache := c\<rparr>"
    using propagate_frame by (metis fst_conv)
  show ?thesis
    unfolding forward_def Let_def
    using same by (auto split: sum.splits prod.splits option.splits dest!: p)
qed

lemma forward_returns_cleared:
  assumes "forward self x ei ea size' raw keep = (self', Inr res)"
  shows "self' = self\<lparr>alpha_cache := None\<rparr>"
proof -
  have a: "alpha_cache self' = None"
    using assms by (auto simp: forward_def Let_def split: sum.splits prod.splits option.splits)
  obtain c where "self' = self\<lparr>alpha_cache := c\<rparr>"
    using forward_frame[of self x ei ea size' raw keep] assms by auto
  then show ?thesis using a by simp
qed

section \<open>The claims about the attention operator\<close>

subsection \<open>The concrete call is a valid one\<close>

lemma gat_init_wf: "wf_gat (gat_init ic oc ec H cc ns d asl b draw)"
  by (auto simp: gat_init_def wf_gat_def Linear_def Parameter_def wf_linear_def Let_def
      split: sum.splits prod.splits)

lemma example_wf: "wf_gat example_gat"
  unfolding example_gat_def by (rule gat_init_wf)

lemma example_config: "valid_config example_gat"
  by (simp add: valid_config_def example_gat_def gat_init_def Let_def)

lemma example_edges:
  "edge_sources example_edge_index = [0, 1]" "edge_targets example_edge_index = [1, 2]"
  "num_edges example_edge_index = 2"
  by (simp_all add: edge_sources_def edge_targets_def num_edges_def example_edge_index_def
      rows_def rows_of_def upt_conv_Cons)

lemma example_valid: "valid_input example_gat example_x example_edge_index example_edge_attr None"
  unfolding valid_input_def example_x_def
  by (simp add: valid_features_def valid_edge_index_def example_edges wf_tensor_def dim_def
      example_edge_attr_def example_gat_def gat_init_def Linear_def Let_def)
     (simp add: example_edge_index_def)

lemma length_attention:
  "length (attention self x ei ea) = num_edges ei"
  by (simp add: attention_def softmax_rows_def scores_def)

lemma attention_row_length:
  "e < num_edges ei \<Longrightarrow> length (attention self x ei ea ! e) = heads self"
  by (simp add: attention_def softmax_rows_def scores_def)

lemma attention_tensor_wf:
  "wf_tensor (Tensor [num_edges ei, heads self] (concat (attention self x ei ea)))"
proof -
  have "\<forall>r\<in>set (attention self x ei ea). length r = heads self"
    using attention_row_length[of _ ei self x ea] length_attention[of self x ei ea]
    by (metis in_set_conv_nth)
  from length_concat_const[OF this] show ?thesis
    by (simp add: wf_tensor_def length_attention)
qed

subsection \<open>What \<^verbatim>\<open>forward\<close> returns\<close>

text \<open>
  Claim C10. Whether \<^verbatim>\<open>forward\<close> returns the pair of the output and
  \<^verbatim>\<open>(edge_index, attention_weights)\<close> depends on the type of
  \<^verbatim>\<open>return_attention_weights\<close>, not on its truth value: a call that returns does so
  with the bare output exactly when the argument is \<^verbatim>\<open>None\<close>; with a bool, \<^verbatim>\<open>False\<close>
  as well as \<^verbatim>\<open>True\<close>, it returns the pair, and the same one for both.
\<close>

theorem forward_return_by_type:
  assumes "forward self x ei ea size' raw keep = (self', Inr (out, att))"
  shows "(att = None \<longleftrightarrow> raw = None)
       \<and> (raw \<noteq> None \<longrightarrow>
             (\<exists>alpha. att = Some (ei, alpha))
             \<and> forward self x ei ea size' (Some True) keep = (self', Inr (out, att))
             \<and> forward self x ei ea size' (Some False) keep = (self', Inr (out, att)))"
  using assms
  by (auto simp: forward_def Let_def split: sum.splits prod.splits option.splits)

text \<open>Claim C10 at the concrete call, with \<^verbatim>\<open>return_attention_weights=False\<close>.\<close>

theorem forward_return_by_type_witness:
  "forward example_gat example_x example_edge_index example_edge_attr None (Some False) (\<lambda>e h. True)
     = (example_gat\<lparr>alpha_cache := None\<rparr>,
        Inr (forward_output example_gat example_x example_edge_index example_edge_attr (\<lambda>e h. True),
             Some (example_edge_index,
                   Tensor [2, 2] (concat (attention example_gat example_x example_edge_index
                                            example_edge_attr)))))
   \<and> forward example_gat example_x example_edge_index example_edge_attr None (Some True) (\<lambda>e h. True)
     = forward example_gat example_x example_edge_index example_edge_attr None (Some False) (\<lambda>e h. True)"
proof -
  have h: "heads example_gat = 2" by (simp add: example_gat_def gat_init_def Let_def)
  have run: "forward example_gat example_x example_edge_index example_edge_attr None (Some False) (\<lambda>e h. True)
     = (example_gat\<lparr>alpha_cache := None\<rparr>,
        Inr (forward_output example_gat example_x example_edge_index example_edge_attr (\<lambda>e h. True),
             Some (example_edge_index,
                   Tensor [2, 2] (concat (attention example_gat example_x example_edge_index
                                            example_edge_attr)))))"
    using forward_valid[OF example_wf example_config example_valid, of "Some False" "\<lambda>e h. True"]
    by (simp add: example_edges h)
  have "Some False \<noteq> (None :: bool option)" by simp
  with forward_return_by_type[OF run]
  have "forward example_gat example_x example_edge_index example_edge_attr None (Some True) (\<lambda>e h. True)
     = forward example_gat example_x example_edge_index example_edge_attr None (Some False) (\<lambda>e h. True)"
    using run by presburger
  then show ?thesis using run by blast
qed

subsection \<open>Failures on the ranks\<close>

text \<open>
  Claim C7. The forward pass fails with the module unchanged, and returns nothing, when
  the node feature tensor (for a pair of tensors: its source part, the one that the code
  asserts on) is not of rank 2; and it fails, whatever the node input is, when the edge
  list is not of shape \<open>[2, E]\<close>. An error is the result of the call: nothing catches it.
\<close>

theorem forward_rank_failures:
  "(dim t \<noteq> 2 \<longrightarrow>
      forward self (XTensor t) ei ea size' raw keep = (self, Inl AssertionError))
   \<and> (dim t0 \<noteq> 2 \<longrightarrow>
      forward self (XPair t0 t1) ei ea size' raw keep = (self, Inl AssertionError))
   \<and> (dim ei \<noteq> 2 \<or> shape ei ! 0 \<noteq> 2 \<longrightarrow>
      fst (forward self x ei ea size' raw keep) = self
      \<and> (\<exists>err. snd (forward self x ei ea size' raw keep) = Inl err))"
proof (intro conjI impI)
  assume "dim t \<noteq> 2"
  then show "forward self (XTensor t) ei ea size' raw keep = (self, Inl AssertionError)"
    by (simp add: forward_def project_nodes_def Let_def)
next
  assume "dim t0 \<noteq> 2"
  then show "forward self (XPair t0 t1) ei ea size' raw keep = (self, Inl AssertionError)"
    by (simp add: forward_def project_nodes_def Let_def)
next
  assume e: "dim ei \<noteq> 2 \<or> shape ei ! 0 \<noteq> 2"
  then have p: "\<And>xs al ae. propagate self ei xs al ae size' keep = (self, Inl AssertionError)"
    by (simp add: propagate_def)
  show "fst (forward self x ei ea size' raw keep) = self"
    by (simp add: forward_def Let_def p split: sum.splits prod.splits)
next
  assume e: "dim ei \<noteq> 2 \<or> shape ei ! 0 \<noteq> 2"
  then have p: "\<And>xs al ae. propagate self ei xs al ae size' keep = (self, Inl AssertionError)"
    by (simp add: propagate_def)
  show "\<exists>err. snd (forward self x ei ea size' raw keep) = Inl err"
    by (simp add: forward_def Let_def p split: sum.splits prod.splits)
qed

text \<open>Claim C7 at a node tensor of rank 1 and at an edge list of shape \<open>[3, 1]\<close>.\<close>

theorem forward_rank_failures_witness:
  "dim (Tensor [3] [1, 2, 3 :: real]) \<noteq> 2
   \<and> forward example_gat (XTensor (Tensor [3] [1, 2, 3])) example_edge_index example_edge_attr
        None None (\<lambda>e h. True) = (example_gat, Inl AssertionError)
   \<and> shape (Tensor [3, 1] [0, 1, 2 :: int]) ! 0 \<noteq> 2
   \<and> fst (forward example_gat example_x (Tensor [3, 1] [0, 1, 2]) example_edge_attr
        None None (\<lambda>e h. True)) = example_gat
   \<and> (\<exists>err. snd (forward example_gat example_x (Tensor [3, 1] [0, 1, 2]) example_edge_attr
        None None (\<lambda>e h. True)) = Inl err)"
proof -
  have d: "dim (Tensor [3] [1, 2, 3 :: real]) \<noteq> 2" by (simp add: dim_def)
  have s: "dim (Tensor [3, 1] [0, 1, 2 :: int]) \<noteq> 2 \<or> shape (Tensor [3, 1] [0, 1, 2 :: int]) ! 0 \<noteq> 2"
    by simp
  note r1 = forward_rank_failures[of "Tensor [3] [1, 2, 3]" example_gat example_edge_index
      example_edge_attr None None "\<lambda>e h. True"]
  note r2 = forward_rank_failures[of _ example_gat "Tensor [3, 1] [0, 1, 2]"
      example_edge_attr None None "\<lambda>e h. True" _ _ example_x]
  show ?thesis using r1 r2 d s by simp
qed

subsection \<open>Self-loops\<close>

lemma shape_forward_output:
  "shape (forward_output self x ei ea keep)
     = [num_out x, if concat_heads self then heads self * out_channels self else out_channels self]"
  by (cases "bias self")
     (simp_all add: forward_output_def Let_def shape_combine_heads length_aggregated)

lemma example_fields:
  "heads example_gat = 2" "out_channels example_gat = 5" "\<not> concat_heads example_gat"
  "add_self_loops example_gat"
  by (simp_all add: example_gat_def gat_init_def Let_def)

text \<open>
  Claim C1 at the concrete call of the specification, with \<^verbatim>\<open>add_self_loops=True\<close>: the
  code stores the flag and never reads it, so the edge list that is returned is the one
  that was passed, with its 2 edges and without a self-loop; the attention weights have
  shape \<open>[2, 2]\<close> where the claim expects \<open>[5, 2]\<close>; no edge enters node 0. The output
  has the shape \<open>[3, 5]\<close> that the claim gives.
\<close>

theorem self_loops_not_added:
  "add_self_loops example_gat
   \<and> snd (forward example_gat example_x example_edge_index example_edge_attr None (Some True)
            (\<lambda>e h. True))
     = Inr (forward_output example_gat example_x example_edge_index example_edge_attr (\<lambda>e h. True),
            Some (example_edge_index,
                  Tensor [2, 2] (concat (attention example_gat example_x example_edge_index
                                           example_edge_attr))))
   \<and> shape (forward_output example_gat example_x example_edge_index example_edge_attr
               (\<lambda>e h. True)) = [3, 5]
   \<and> edge_sources example_edge_index = [0, 1] \<and> edge_targets example_edge_index = [1, 2]"
  using forward_valid[OF example_wf example_config example_valid, of "Some True" "\<lambda>e h. True"]
  by (simp add: example_edges example_fields shape_forward_output)
     (simp add: num_out_def example_x_def)

subsection \<open>The cache \<^verbatim>\<open>_alpha\<close>\<close>

text \<open>
  Claim C8, as the code has it. A forward pass that returns, whatever
  \<^verbatim>\<open>return_attention_weights\<close> was, leaves the module as it was but for \<^verbatim>\<open>_alpha\<close>, which
  is \<^verbatim>\<open>None\<close>; and no pass, whatever its outcome, changes another field. On a valid input
  the pass returns, and when the attention weights are requested the result carries the
  edge list together with the tensor of shape \<open>[E, heads]\<close> of the attention weights (the
  softmax of the logits per target node, before dropout), \<open>E\<close> being the number of edges
  of the edge list that was passed. A pass that fails after \<^verbatim>\<open>message\<close> has cached the
  attention weights does not clear them: with a dropout probability outside \<open>[0, 1]\<close>
  every pass on a valid input fails in \<^verbatim>\<open>F.dropout\<close> with the weights left in \<^verbatim>\<open>_alpha\<close>.
\<close>

theorem alpha_cleared_and_returned:
  "(forward self x ei ea size' raw keep = (self', Inr res) \<longrightarrow> self' = self\<lparr>alpha_cache := None\<rparr>)
   \<and> (\<exists>c. fst (forward self x ei ea size' raw keep) = self\<lparr>alpha_cache := c\<rparr>)
   \<and> (wf_gat self \<and> valid_config self \<and> valid_input self x ei ea size' \<longrightarrow>
        fst (forward self x ei ea size' raw keep) = self\<lparr>alpha_cache := None\<rparr>
        \<and> snd (forward self x ei ea size' None keep) = Inr (forward_output self x ei ea keep, None)
        \<and> snd (forward self x ei ea size' (Some b) keep)
            = Inr (forward_output self x ei ea keep,
                   Some (ei, Tensor [num_edges ei, heads self] (concat (attention self x ei ea))))
        \<and> wf_tensor (Tensor [num_edges ei, heads self] (concat (attention self x ei ea)))
        \<and> length (attention self x ei ea) = num_edges ei)
   \<and> (wf_gat self \<and> 0 < heads self \<and> 0 < out_channels self \<and> valid_input self x ei ea size'
        \<and> (dropout self < 0 \<or> 1 < dropout self) \<longrightarrow>
        forward self x ei ea size' raw keep
          = (self\<lparr>alpha_cache := Some (Tensor [num_edges ei, heads self]
                                           (concat (attention self x ei ea)))\<rparr>,
             Inl ValueError))"
proof (intro conjI impI)
  assume "forward self x ei ea size' raw keep = (self', Inr res)"
  then show "self' = self\<lparr>alpha_cache := None\<rparr>" by (rule forward_returns_cleared)
next
  show "\<exists>c. fst (forward self x ei ea size' raw keep) = self\<lparr>alpha_cache := c\<rparr>"
    by (rule forward_frame)
next
  assume v: "wf_gat self \<and> valid_config self \<and> valid_input self x ei ea size'"
  then show "fst (forward self x ei ea size' raw keep) = self\<lparr>alpha_cache := None\<rparr>"
    by (simp add: forward_valid)
next
  assume v: "wf_gat self \<and> valid_config self \<and> valid_input self x ei ea size'"
  then show "snd (forward self x ei ea size' None keep) = Inr (forward_output self x ei ea keep, None)"
    by (simp add: forward_valid)
next
  assume v: "wf_gat self \<and> valid_config self \<and> valid_input self x ei ea size'"
  then show "snd (forward self x ei ea size' (Some b) keep)
            = Inr (forward_output self x ei ea keep,
                   Some (ei, Tensor [num_edges ei, heads self] (concat (attention self x ei ea))))"
    by (simp add: forward_valid)
next
  show "wf_tensor (Tensor [num_edges ei, heads self] (concat (attention self x ei ea)))"
    by (rule attention_tensor_wf)
next
  show "length (attention self x ei ea) = num_edges ei" by (rule length_attention)
next
  assume "wf_gat self \<and> 0 < heads self \<and> 0 < out_channels self \<and> valid_input self x ei ea size'
        \<and> (dropout self < 0 \<or> 1 < dropout self)"
  then show "forward self x ei ea size' raw keep
          = (self\<lparr>alpha_cache := Some (Tensor [num_edges ei, heads self]
                                           (concat (attention self x ei ea)))\<rparr>,
             Inl ValueError)"
    by (simp add: forward_dropout_fails)
qed

text \<open>
  Claim C8 at the concrete call, and at the same call on the module with \<^verbatim>\<open>dropout=2\<close>.
\<close>

lemma example_dropout_fields:
  "wf_gat example_gat_dropout" "heads example_gat_dropout = 2"
  "out_channels example_gat_dropout = 5" "dropout example_gat_dropout = 2"
  "alpha_cache example_gat_dropout = None"
  "example_gat_dropout = example_gat\<lparr>dropout := 2\<rparr>"
  unfolding example_gat_dropout_def
  by (simp_all add: gat_init_wf example_gat_def) (simp_all add: gat_init_def Let_def)

lemma example_dropout_valid:
  "valid_input example_gat_dropout example_x example_edge_index example_edge_attr None"
  using example_valid by (simp add: example_dropout_fields(6) dropout_irrelevant)

theorem alpha_cleared_and_returned_witness:
  "wf_gat example_gat \<and> valid_config example_gat
   \<and> valid_input example_gat example_x example_edge_index example_edge_attr None
   \<and> forward example_gat example_x example_edge_index example_edge_attr None None (\<lambda>e h. True)
       = (example_gat\<lparr>alpha_cache := None\<rparr>,
          Inr (forward_output example_gat example_x example_edge_index example_edge_attr
                 (\<lambda>e h. True), None))
   \<and> snd (forward example_gat example_x example_edge_index example_edge_attr None (Some True)
             (\<lambda>e h. True))
       = Inr (forward_output example_gat example_x example_edge_index example_edge_attr
                (\<lambda>e h. True),
              Some (example_edge_index,
                    Tensor [2, 2] (concat (attention example_gat example_x example_edge_index
                                             example_edge_attr))))
   \<and> dropout example_gat_dropout = 2
   \<and> valid_input example_gat_dropout example_x example_edge_index example_edge_attr None
   \<and> forward example_gat_dropout example_x example_edge_index example_edge_attr None None
        (\<lambda>e h. True)
       = (example_gat_dropout
            \<lparr>alpha_cache := Some (Tensor [2, 2]
               (concat (attention example_gat_dropout example_x example_edge_index
                          example_edge_attr)))\<rparr>,
          Inl ValueError)"
proof -
  have v: "wf_gat example_gat \<and> valid_config example_gat
     \<and> valid_input example_gat example_x example_edge_index example_edge_attr None"
    using example_wf example_config example_valid by simp
  note r = alpha_cleared_and_returned[of example_gat example_x example_edge_index
      example_edge_attr None None "\<lambda>e h. True" "example_gat\<lparr>alpha_cache := None\<rparr>"
      "(forward_output example_gat example_x example_edge_index example_edge_attr
          (\<lambda>e h. True), None)" True]
  have a1: "fst (forward example_gat example_x example_edge_index example_edge_attr None None
             (\<lambda>e h. True)) = example_gat\<lparr>alpha_cache := None\<rparr>"
    using r v by blast
  have a2: "snd (forward example_gat example_x example_edge_index example_edge_attr None None
             (\<lambda>e h. True))
          = Inr (forward_output example_gat example_x example_edge_index example_edge_attr
                   (\<lambda>e h. True), None)"
    using r v by blast
  have a: "forward example_gat example_x example_edge_index example_edge_attr None None
             (\<lambda>e h. True)
       = (example_gat\<lparr>alpha_cache := None\<rparr>,
          Inr (forward_output example_gat example_x example_edge_index example_edge_attr
                 (\<lambda>e h. True), None))"
    using a1 a2 by (simp add: prod_eq_iff)
  have b: "snd (forward example_gat example_x example_edge_index example_edge_attr None (Some True)
             (\<lambda>e h. True))
       = Inr (forward_output example_gat example_x example_edge_index example_edge_attr
                (\<lambda>e h. True),
              Some (example_edge_index,
                    Tensor [num_edges example_edge_index, heads example_gat]
                      (concat (attention example_gat example_x example_edge_index
                                             example_edge_attr))))"
    using r v by blast
  have w: "wf_gat example_gat_dropout \<and> 0 < heads example_gat_dropout
        \<and> 0 < out_channels example_gat_dropout
        \<and> valid_input example_gat_dropout example_x example_edge_index example_edge_attr None
        \<and> (dropout example_gat_dropout < 0 \<or> 1 < dropout example_gat_dropout)"
    using example_dropout_valid by (simp add: example_dropout_fields(1-4))
  note r2 = alpha_cleared_and_returned[of example_gat_dropout example_x example_edge_index
      example_edge_attr None None "\<lambda>e h. True" example_gat "(Tensor [] [], None)" True]
  have c: "forward example_gat_dropout example_x example_edge_index example_edge_attr None None
        (\<lambda>e h. True)
       = (example_gat_dropout
            \<lparr>alpha_cache := Some (Tensor [num_edges example_edge_index, heads example_gat_dropout]
               (concat (attention example_gat_dropout example_x example_edge_index
                          example_edge_attr)))\<rparr>,
          Inl ValueError)"
    using r2 w by blast
  show ?thesis
    using v a b c example_dropout_valid
    by (simp add: example_edges example_fields example_dropout_fields(2-4))
qed

text \<open>
  Claim C8 as stated fails on a pass that does not return: the module constructed with
  \<^verbatim>\<open>dropout=2\<close> has \<^verbatim>\<open>_alpha = None\<close> before the call; the call raises \<^verbatim>\<open>ValueError\<close> in
  \<^verbatim>\<open>F.dropout\<close>, after \<^verbatim>\<open>self._alpha = alpha\<close>, and \<^verbatim>\<open>_alpha\<close> holds the attention
  weights after it.
\<close>

theorem alpha_left_by_failed_dropout:
  "alpha_cache example_gat_dropout = None
   \<and> snd (forward example_gat_dropout example_x example_edge_index example_edge_attr None None
            (\<lambda>e h. True)) = Inl ValueError
   \<and> alpha_cache (fst (forward example_gat_dropout example_x example_edge_index
                          example_edge_attr None None (\<lambda>e h. True)))
       = Some (Tensor [2, 2] (concat (attention example_gat_dropout example_x example_edge_index
                                        example_edge_attr)))
   \<and> alpha_cache (fst (forward example_gat_dropout example_x example_edge_index
                          example_edge_attr None None (\<lambda>e h. True))) \<noteq> None"
proof -
  have "forward example_gat_dropout example_x example_edge_index example_edge_attr None None
        (\<lambda>e h. True)
       = (example_gat_dropout
            \<lparr>alpha_cache := Some (Tensor [num_edges example_edge_index, heads example_gat_dropout]
               (concat (attention example_gat_dropout example_x example_edge_index
                          example_edge_attr)))\<rparr>,
          Inl ValueError)"
    by (rule forward_dropout_fails)
       (simp_all add: example_dropout_fields(1-4) example_dropout_valid)
  then show ?thesis
    by (simp add: example_edges example_dropout_fields(2,5))
qed

subsection \<open>The attention weights are a softmax per target node and head\<close>

lemma sum_list_exp_pos:
  "g \<noteq> [] \<Longrightarrow> 0 < (\<Sum>e\<leftarrow>g. exp (f e :: real))"
proof (induction g)
  case Nil then show ?case by simp
next
  case (Cons a g)
  have "0 \<le> (\<Sum>e\<leftarrow>g. exp (f e))" by (rule sum_list_nonneg) auto
  then show ?case by (simp add: add_pos_nonneg)
qed

lemma sum_list_divide: "(\<Sum>e\<leftarrow>g. f e / (d :: real)) = (\<Sum>e\<leftarrow>g. f e) / d"
  by (induction g) (simp_all add: add_divide_distrib)

lemma group_member: "e \<in> set (group index j) \<longleftrightarrow> e < length index \<and> index ! e = j"
  by (auto simp: group_def)

lemma softmax_rows_nth:
  "e < length src \<Longrightarrow> h < length (src ! e) \<Longrightarrow>
   softmax_rows src index ! e ! h
     = exp (src ! e ! h) / (\<Sum>e'\<leftarrow>group index (index ! e). exp (src ! e' ! h))"
  by (simp add: softmax_rows_def)

lemma softmax_rows_nonneg:
  "e < length src \<Longrightarrow> h < length (src ! e) \<Longrightarrow> 0 \<le> softmax_rows src index ! e ! h"
proof -
  assume a: "e < length src" "h < length (src ! e)"
  have "0 \<le> (\<Sum>e'\<leftarrow>group index (index ! e). exp (src ! e' ! h))"
    by (rule sum_list_nonneg) auto
  then show ?thesis using a by (simp add: softmax_rows_nth)
qed

lemma softmax_rows_group_sum:
  assumes len: "length src = length index" and rows: "\<forall>r\<in>set src. length r = H"
    and h: "h < H" and ne: "group index j \<noteq> []"
  shows "(\<Sum>e\<leftarrow>group index j. softmax_rows src index ! e ! h) = 1"
proof -
  let ?g = "group index j"
  let ?D = "\<Sum>e'\<leftarrow>?g. exp (src ! e' ! h)"
  have each: "\<And>e. e \<in> set ?g \<Longrightarrow> softmax_rows src index ! e ! h = exp (src ! e ! h) / ?D"
  proof -
    fix e assume "e \<in> set ?g"
    then have e: "e < length index" "index ! e = j" by (simp_all add: group_member)
    then have "h < length (src ! e)" using rows len h by simp
    then show "softmax_rows src index ! e ! h = exp (src ! e ! h) / ?D"
      using e len by (simp add: softmax_rows_nth)
  qed
  have "(\<Sum>e\<leftarrow>?g. softmax_rows src index ! e ! h) = (\<Sum>e\<leftarrow>?g. exp (src ! e ! h) / ?D)"
    by (rule arg_cong[where f = sum_list]) (simp add: each cong: map_cong)
  also have "\<dots> = ?D / ?D" by (rule sum_list_divide)
  also have "\<dots> = 1" using sum_list_exp_pos[OF ne, of "\<lambda>e. src ! e ! h"] by simp
  finally show ?thesis .
qed

lemma length_scores: "length (scores self x ei ea) = num_edges ei"
  by (simp add: scores_def)

lemma scores_rows: "\<forall>r\<in>set (scores self x ei ea). length r = heads self"
  by (auto simp: scores_def)

text \<open>
  Claim C2. On a valid input the attention weights that \<^verbatim>\<open>forward\<close> returns are the
  softmax of the scores grouped by the target node of the edge, separately for every
  head: every weight is non-negative, and for every node that has an incoming edge in the
  edge list, and every head, the weights of its incoming edges sum to 1.
\<close>

theorem attention_row_stochastic:
  assumes "wf_gat self" "valid_config self" "valid_input self x ei ea size'"
  shows "snd (forward self x ei ea size' (Some b) keep)
       = Inr (forward_output self x ei ea keep,
              Some (ei, Tensor [num_edges ei, heads self] (concat (attention self x ei ea))))
    \<and> rows (Tensor [num_edges ei, heads self] (concat (attention self x ei ea)))
       = attention self x ei ea
    \<and> attention self x ei ea = softmax_rows (scores self x ei ea) (edge_targets ei)
    \<and> (\<forall>e<num_edges ei. \<forall>h<heads self. 0 \<le> attention self x ei ea ! e ! h)
    \<and> (\<forall>j. \<forall>h<heads self. group (edge_targets ei) j \<noteq> [] \<longrightarrow>
          (\<Sum>e\<leftarrow>group (edge_targets ei) j. attention self x ei ea ! e ! h) = 1)"
proof -
  note fl = feature_lengths(1)[OF assms]
  have lt: "length (edge_targets ei) = num_edges ei" by (rule valid_edge_index_rows(2)[OF fl])
  have c1: "snd (forward self x ei ea size' (Some b) keep)
       = Inr (forward_output self x ei ea keep,
              Some (ei, Tensor [num_edges ei, heads self] (concat (attention self x ei ea))))"
    by (simp add: forward_valid[OF assms])
  have arows: "\<forall>r\<in>set (attention self x ei ea). length r = heads self"
    using attention_row_length[of _ ei self x ea] length_attention[of self x ei ea]
    by (metis in_set_conv_nth)
  have c2: "rows (Tensor [num_edges ei, heads self] (concat (attention self x ei ea)))
       = attention self x ei ea"
    using rows_of_concat[OF length_attention arows] by (simp add: rows_def)
  have c3: "attention self x ei ea = softmax_rows (scores self x ei ea) (edge_targets ei)"
    by (simp add: attention_def)
  have c4: "\<forall>e<num_edges ei. \<forall>h<heads self. 0 \<le> attention self x ei ea ! e ! h"
    unfolding c3 using scores_rows[of self x ei ea]
    by (auto intro!: softmax_rows_nonneg simp: length_scores)
  have c5: "\<forall>j. \<forall>h<heads self. group (edge_targets ei) j \<noteq> [] \<longrightarrow>
          (\<Sum>e\<leftarrow>group (edge_targets ei) j. attention self x ei ea ! e ! h) = 1"
    unfolding c3 using softmax_rows_group_sum[OF _ scores_rows] lt
    by (simp add: length_scores)
  show ?thesis using c1 c2 c3 c4 c5 by blast
qed

text \<open>Claim C2 at the concrete call: node 2 has the one incoming edge 1.\<close>

theorem attention_row_stochastic_witness:
  "wf_gat example_gat \<and> valid_config example_gat
   \<and> valid_input example_gat example_x example_edge_index example_edge_attr None
   \<and> group (edge_targets example_edge_index) 2 = [1]
   \<and> (\<Sum>e\<leftarrow>[1]. attention example_gat example_x example_edge_index example_edge_attr ! e ! 0) = 1
   \<and> 0 \<le> attention example_gat example_x example_edge_index example_edge_attr ! 1 ! 0"
proof -
  have g: "group (edge_targets example_edge_index) 2 = [1]"
    by (simp add: example_edges group_def upt_conv_Cons)
  note r = attention_row_stochastic[OF example_wf example_config example_valid, of True "\<lambda>e h. True"]
  have c4: "\<forall>e<num_edges example_edge_index. \<forall>h<heads example_gat.
              0 \<le> attention example_gat example_x example_edge_index example_edge_attr ! e ! h"
    using r by blast
  have c5: "\<forall>j. \<forall>h<heads example_gat. group (edge_targets example_edge_index) j \<noteq> [] \<longrightarrow>
          (\<Sum>e\<leftarrow>group (edge_targets example_edge_index) j.
             attention example_gat example_x example_edge_index example_edge_attr ! e ! h) = 1"
    using r by blast
  have h0: "0 < heads example_gat" and e1: "1 < num_edges example_edge_index"
    by (simp_all add: example_fields example_edges)
  have "group (edge_targets example_edge_index) 2 \<noteq> []" using g by simp
  with c5 h0 have "(\<Sum>e\<leftarrow>group (edge_targets example_edge_index) 2.
             attention example_gat example_x example_edge_index example_edge_attr ! e ! 0) = 1"
    by blast
  then have s: "(\<Sum>e\<leftarrow>[1]. attention example_gat example_x example_edge_index example_edge_attr ! e ! 0) = 1"
    unfolding g .
  have n: "0 \<le> attention example_gat example_x example_edge_index example_edge_attr ! 1 ! 0"
    using c4 h0 e1 by blast
  show ?thesis using example_wf example_config example_valid g s n by blast
qed

subsection \<open>The logits\<close>

lemma scores_nth:
  "e < num_edges ei \<Longrightarrow> h < heads self \<Longrightarrow>
   scores self x ei ea ! e ! h = leaky_relu (negative_slope self) (logit self x ei ea e h)"
  by (simp add: scores_def)

lemma rows_of_entry:
  assumes "h < H" "c < C" "length ys = H * C"
  shows "rows_of H C ys ! h ! c = ys ! (h * C + c)" "length (rows_of H C ys ! h) = C"
proof -
  have "h * C + C \<le> H * C"
    using assms(1) by (metis Suc_leI mult_Suc mult_le_mono1 add.commute)
  then have le: "h * C + C \<le> length ys" using assms(3) by simp
  show "rows_of H C ys ! h ! c = ys ! (h * C + c)"
    using assms(1,2) le by (simp add: rows_of_nth)
  show "length (rows_of H C ys ! h) = C"
    using assms(1) le by (simp add: rows_of_nth)
qed

lemma projection_entry:
  assumes "n < length (rows t)" "h < H" "c < C" "length (weight lin) = H * C"
  shows "projection lin H C t ! n ! h ! c = dot (weight lin ! (h * C + c)) (rows t ! n)"
    and "length (projection lin H C t ! n ! h) = C"
proof -
  let ?ys = "map (\<lambda>w. dot w (rows t ! n)) (weight lin)"
  have p: "projection lin H C t ! n = rows_of H C ?ys" using assms(1) by (simp add: projection_def)
  have l: "length ?ys = H * C" using assms(4) by simp
  have "h * C + c < H * C"
  proof -
    have "h * C + C \<le> H * C"
      using assms(2) by (metis Suc_leI mult_Suc mult_le_mono1 add.commute)
    then show ?thesis using assms(3) by simp
  qed
  then show "projection lin H C t ! n ! h ! c = dot (weight lin ! (h * C + c)) (rows t ! n)"
    unfolding p rows_of_entry(1)[OF assms(2,3) l] using assms(4) by simp
  show "length (projection lin H C t ! n ! h) = C"
    unfolding p by (rule rows_of_entry(2)[OF assms(2,3) l])
qed

lemma gat_init_shared:
  "lin_r (gat_init (Inl n) oc ec H cc ns d asl b draw) = lin_l (gat_init (Inl n) oc ec H cc ns d asl b draw)"
  by (simp add: gat_init_def Let_def)

lemma gat_init_independent:
  "lin_l (gat_init (Inr (n0, n1)) oc ec H cc ns d asl b draw) = Linear n0 (H * oc) (draw ''lin_l'')"
  "lin_r (gat_init (Inr (n0, n1)) oc ec H cc ns d asl b draw) = Linear n1 (H * oc) (draw ''lin_r'')"
  "lin_e (gat_init ic oc ec H cc ns d asl b draw) = Linear ec (H * oc) (draw ''lin_e'')"
  by (simp_all add: gat_init_def Let_def)

text \<open>
  Claim C3. On a valid input the attention weights that \<^verbatim>\<open>forward\<close> returns are the
  softmax of the scores, and the score of edge \<open>e\<close> from \<open>i\<close> to \<open>j\<close> for head \<open>h\<close> is the
  LeakyReLU, with the configured negative slope, of
  \<open>dot(att_l[h], projected source i) + dot(att_r[h], projected target j) + dot(att_e[h], projected edge e)\<close>.
  A projection is the linear layer applied to the row and cut into heads. For a single
  node tensor both node projections use \<^verbatim>\<open>lin_l\<close>; for a pair the targets use \<^verbatim>\<open>lin_r\<close>,
  which \<^verbatim>\<open>__init__\<close> makes the same layer as \<^verbatim>\<open>lin_l\<close> when \<^verbatim>\<open>in_channels\<close> is an int and
  a layer of its own otherwise; the edges use \<^verbatim>\<open>lin_e\<close>.
\<close>

theorem attention_logit_formula:
  assumes "wf_gat self" "valid_config self" "valid_input self x ei ea size'"
  shows "snd (forward self x ei ea size' (Some b) keep)
       = Inr (forward_output self x ei ea keep,
              Some (ei, Tensor [num_edges ei, heads self]
                          (concat (softmax_rows (scores self x ei ea) (edge_targets ei)))))
    \<and> (\<forall>e<num_edges ei. \<forall>h<heads self.
          scores self x ei ea ! e ! h
            = leaky_relu (negative_slope self)
                (dot (att_l self ! h) (source_features self x ! nat (edge_sources ei ! e) ! h)
                 + dot (att_r self ! h) (target_features self x ! nat (edge_targets ei ! e) ! h)
                 + dot (att_e self ! h) (edge_features self ea ! e ! h)))
    \<and> (\<forall>t. x = XTensor t \<longrightarrow>
          source_features self x = projection (lin_l self) (heads self) (out_channels self) t
          \<and> target_features self x = projection (lin_l self) (heads self) (out_channels self) t)
    \<and> (\<forall>t0 t1. x = XPair t0 (Some t1) \<longrightarrow>
          source_features self x = projection (lin_l self) (heads self) (out_channels self) t0
          \<and> target_features self x = projection (lin_r self) (heads self) (out_channels self) t1)
    \<and> edge_features self ea = projection (lin_e self) (heads self) (out_channels self) ea
    \<and> (\<forall>lin t n h c. n < length (rows t) \<and> h < heads self \<and> c < out_channels self
            \<and> length (weight lin) = heads self * out_channels self \<longrightarrow>
          projection lin (heads self) (out_channels self) t ! n ! h ! c
            = dot (weight lin ! (h * out_channels self + c)) (rows t ! n))
    \<and> (\<forall>n oc ec H cc ns d asl bs draw.
          lin_r (gat_init (Inl n) oc ec H cc ns d asl bs draw)
            = lin_l (gat_init (Inl n) oc ec H cc ns d asl bs draw))
    \<and> (\<forall>n0 n1 oc ec H cc ns d asl bs draw.
          lin_l (gat_init (Inr (n0, n1)) oc ec H cc ns d asl bs draw)
            = Linear n0 (H * oc) (draw ''lin_l'')
          \<and> lin_r (gat_init (Inr (n0, n1)) oc ec H cc ns d asl bs draw)
            = Linear n1 (H * oc) (draw ''lin_r'')
          \<and> lin_e (gat_init (Inr (n0, n1)) oc ec H cc ns d asl bs draw)
            = Linear ec (H * oc) (draw ''lin_e''))"
proof -
  have c1: "snd (forward self x ei ea size' (Some b) keep)
       = Inr (forward_output self x ei ea keep,
              Some (ei, Tensor [num_edges ei, heads self]
                          (concat (softmax_rows (scores self x ei ea) (edge_targets ei)))))"
    by (simp add: forward_valid[OF assms] attention_def)
  have c2: "\<forall>e<num_edges ei. \<forall>h<heads self.
          scores self x ei ea ! e ! h
            = leaky_relu (negative_slope self)
                (dot (att_l self ! h) (source_features self x ! nat (edge_sources ei ! e) ! h)
                 + dot (att_r self ! h) (target_features self x ! nat (edge_targets ei ! e) ! h)
                 + dot (att_e self ! h) (edge_features self ea ! e ! h))"
    by (simp add: scores_nth logit_def)
  have c3: "\<forall>t. x = XTensor t \<longrightarrow>
          source_features self x = projection (lin_l self) (heads self) (out_channels self) t
          \<and> target_features self x = projection (lin_l self) (heads self) (out_channels self) t"
    by (simp add: source_features_def target_features_def)
  have c4: "\<forall>t0 t1. x = XPair t0 (Some t1) \<longrightarrow>
          source_features self x = projection (lin_l self) (heads self) (out_channels self) t0
          \<and> target_features self x = projection (lin_r self) (heads self) (out_channels self) t1"
    by (simp add: source_features_def target_features_def)
  have c5: "edge_features self ea = projection (lin_e self) (heads self) (out_channels self) ea"
    by (simp add: edge_features_def)
  have c6: "\<forall>lin t n h c. n < length (rows t) \<and> h < heads self \<and> c < out_channels self
            \<and> length (weight lin) = heads self * out_channels self \<longrightarrow>
          projection lin (heads self) (out_channels self) t ! n ! h ! c
            = dot (weight lin ! (h * out_channels self + c)) (rows t ! n)"
    by (simp add: projection_entry(1))
  have c7: "\<forall>n oc ec H cc ns d asl bs draw.
          lin_r (gat_init (Inl n) oc ec H cc ns d asl bs draw)
            = lin_l (gat_init (Inl n) oc ec H cc ns d asl bs draw)"
    by (simp add: gat_init_shared)
  have c8: "\<forall>n0 n1 oc ec H cc ns d asl bs draw.
          lin_l (gat_init (Inr (n0, n1)) oc ec H cc ns d asl bs draw)
            = Linear n0 (H * oc) (draw ''lin_l'')
          \<and> lin_r (gat_init (Inr (n0, n1)) oc ec H cc ns d asl bs draw)
            = Linear n1 (H * oc) (draw ''lin_r'')
          \<and> lin_e (gat_init (Inr (n0, n1)) oc ec H cc ns d asl bs draw)
            = Linear ec (H * oc) (draw ''lin_e'')"
    by (simp add: gat_init_independent)
  show ?thesis using c1 c2 c3 c4 c5 c6 c7 c8 by blast
qed

text \<open>Claim C3 at the concrete call, for edge 1 and head 0.\<close>

theorem attention_logit_formula_witness:
  "wf_gat example_gat \<and> valid_config example_gat
   \<and> valid_input example_gat example_x example_edge_index example_edge_attr None
   \<and> scores example_gat example_x example_edge_index example_edge_attr ! 1 ! 0
       = leaky_relu (negative_slope example_gat)
           (dot (att_l example_gat ! 0)
                (source_features example_gat example_x ! nat (edge_sources example_edge_index ! 1) ! 0)
            + dot (att_r example_gat ! 0)
                (target_features example_gat example_x ! nat (edge_targets example_edge_index ! 1) ! 0)
            + dot (att_e example_gat ! 0)
                (edge_features example_gat example_edge_attr ! 1 ! 0))"
proof -
  note r = attention_logit_formula[OF example_wf example_config example_valid, of True "\<lambda>e h. True"]
  have c2: "\<forall>e<num_edges example_edge_index. \<forall>h<heads example_gat.
          scores example_gat example_x example_edge_index example_edge_attr ! e ! h
            = leaky_relu (negative_slope example_gat)
                (dot (att_l example_gat ! h)
                   (source_features example_gat example_x ! nat (edge_sources example_edge_index ! e) ! h)
                 + dot (att_r example_gat ! h)
                   (target_features example_gat example_x ! nat (edge_targets example_edge_index ! e) ! h)
                 + dot (att_e example_gat ! h) (edge_features example_gat example_edge_attr ! e ! h))"
    by (rule conjunct1[OF conjunct2[OF r]])
  have h0: "0 < heads example_gat" and e1: "1 < num_edges example_edge_index"
    by (simp_all add: example_fields example_edges)
  from c2 h0 e1 show ?thesis using example_wf example_config example_valid by blast
qed

subsection \<open>Messages, aggregation and the output\<close>

lemma weigh_nth:
  assumes "e < length x_j" "e < length alpha" "h < length (x_j ! e)" "h < length (alpha ! e)"
    "c < length (x_j ! e ! h)"
  shows "weigh x_j alpha ! e ! h ! c = x_j ! e ! h ! c * alpha ! e ! h"
  using assms by (simp add: weigh_def)

lemma dropout_rows_nth:
  "e < length a \<Longrightarrow> h < length (a ! e) \<Longrightarrow>
   dropout_rows a p tr keep ! e ! h = dropout_entry p tr (keep e h) (a ! e ! h)"
  by (simp add: dropout_rows_def)

lemma length_dropout_rows: "length (dropout_rows a p tr keep) = length a"
  by (simp add: dropout_rows_def)

lemma length_dropout_row: "e < length a \<Longrightarrow> length (dropout_rows a p tr keep ! e) = length (a ! e)"
  by (simp add: dropout_rows_def)

lemma source_features_entry_length:
  assumes wf: "wf_gat self"
    and n: "n < length (source_features self x)" and h: "h < heads self"
  shows "length (source_features self x ! n ! h) = out_channels self"
proof -
  have w: "length (weight (lin_l self)) = heads self * out_channels self"
    using wf by (simp add: wf_gat_def wf_linear_def)
  obtain t where sf: "source_features self x = projection (lin_l self) (heads self) (out_channels self) t"
    by (cases x) (simp_all add: source_features_def)
  have n': "n < length (rows t)" using n sf by (simp add: projection_def)
  have "0 < out_channels self \<or> out_channels self = 0" by auto
  then show ?thesis
  proof
    assume "0 < out_channels self"
    then show ?thesis unfolding sf using projection_entry(2)[OF n' h _ w] by simp
  next
    assume z: "out_channels self = 0"
    have "projection (lin_l self) (heads self) 0 t ! n ! h = []"
      using n' h by (simp add: projection_def rows_of_nth)
    then show ?thesis unfolding sf z by simp
  qed
qed

lemma messages_nth:
  assumes wf: "wf_gat self" and cfg: "valid_config self" and v: "valid_input self x ei ea size'"
    and e: "e < num_edges ei" and h: "h < heads self" and c: "c < out_channels self"
  shows "messages self x ei ea keep ! e ! h ! c
       = source_features self x ! nat (edge_sources ei ! e) ! h ! c
         * dropout_entry (dropout self) (training self) (keep e h) (attention self x ei ea ! e ! h)"
proof -
  note vei = feature_lengths(1)[OF wf cfg v]
  have ls: "length (edge_sources ei) = num_edges ei" by (rule valid_edge_index_rows(1)[OF vei])
  have "edge_sources ei ! e \<in> set (edge_sources ei)" using e ls by simp
  then have "0 \<le> edge_sources ei ! e \<and> edge_sources ei ! e < int (length (source_features self x))"
    using vei by (simp add: valid_edge_index_def)
  then have s: "nat (edge_sources ei ! e) < length (source_features self x)" by linarith
  have sr: "length (source_features self x ! nat (edge_sources ei ! e)) = heads self"
    using source_features_rows[of self x] s by simp
  show ?thesis
    unfolding messages_def
    using e h c ls s sr source_features_entry_length[OF wf s h]
    by (simp add: weigh_nth dropout_rows_nth length_dropout_rows length_dropout_row
        length_attention attention_row_length)
qed

lemma aggregated_nth:
  "n < num_out x \<Longrightarrow> h < heads self \<Longrightarrow> c < out_channels self \<Longrightarrow>
   aggregated self x ei ea keep ! n ! h ! c
     = (\<Sum>e\<leftarrow>group (edge_targets ei) (int n). messages self x ei ea keep ! e ! h ! c)"
  by (simp add: aggregated_def scatter_sum_def)

lemma aggregated_shape:
  "node \<in> set (aggregated self x ei ea keep) \<Longrightarrow>
   length node = heads self \<and> (\<forall>r\<in>set node. length r = out_channels self)"
  by (auto simp: aggregated_def scatter_sum_def)

lemma combine_heads_rows:
  assumes "\<forall>node\<in>set agg. length node = heads self \<and> (\<forall>r\<in>set node. length r = out_channels self)"
  shows "rows (combine_heads self agg) = head_rows self agg"
    and "\<forall>r\<in>set (head_rows self agg).
           length r = (if concat_heads self then heads self * out_channels self else out_channels self)"
proof -
  show w: "\<forall>r\<in>set (head_rows self agg).
           length r = (if concat_heads self then heads self * out_channels self else out_channels self)"
  proof (cases "concat_heads self")
    case True
    have "\<And>node. node \<in> set agg \<Longrightarrow> length (concat node) = heads self * out_channels self"
    proof -
      fix node assume n: "node \<in> set agg"
      then have "\<forall>r\<in>set node. length r = out_channels self" and "length node = heads self"
        using assms by auto
      then show "length (concat node) = heads self * out_channels self"
        using length_concat_const[of node "out_channels self"] by simp
    qed
    then show ?thesis using True by (auto simp: head_rows_def)
  next
    case False then show ?thesis by (auto simp: head_rows_def)
  qed
  have l: "length (head_rows self agg) = length agg" by (simp add: head_rows_def)
  show "rows (combine_heads self agg) = head_rows self agg"
  proof (cases "concat_heads self")
    case True
    have "combine_heads self agg = Tensor [length agg, heads self * out_channels self] (concat (head_rows self agg))"
      using True by (simp add: combine_heads_def view_concat_def head_rows_def)
    then show ?thesis using rows_of_concat[OF l, of "heads self * out_channels self"] w True
      by (simp add: rows_def)
  next
    case False
    have "combine_heads self agg = Tensor [length agg, out_channels self] (concat (head_rows self agg))"
      using False by (simp add: combine_heads_def mean_heads_def head_rows_def)
    then show ?thesis using rows_of_concat[OF l, of "out_channels self"] w False
      by (simp add: rows_def)
  qed
qed

lemma forward_output_rows:
  assumes wf: "wf_gat self"
  shows "rows (forward_output self x ei ea keep)
       = map (\<lambda>row. case bias self of None \<Rightarrow> row | Some b \<Rightarrow> map2 (+) row b)
           (head_rows self (aggregated self x ei ea keep))"
proof -
  let ?agg = "aggregated self x ei ea keep"
  let ?W = "if concat_heads self then heads self * out_channels self else out_channels self"
  have sh: "\<forall>node\<in>set ?agg. length node = heads self \<and> (\<forall>r\<in>set node. length r = out_channels self)"
    using aggregated_shape by blast
  note cr = combine_heads_rows[OF sh]
  show ?thesis
  proof (cases "bias self")
    case None
    then show ?thesis by (simp add: forward_output_def Let_def cr(1))
  next
    case (Some b)
    then have lb: "length b = ?W" using wf by (simp add: wf_gat_def)
    let ?rs = "map (\<lambda>row. map2 (+) row b) (head_rows self ?agg)"
    have l: "length ?rs = length ?agg" by (simp add: head_rows_def)
    have w: "\<forall>r\<in>set ?rs. length r = ?W" using cr(2) lb by auto
    have "forward_output self x ei ea keep = Tensor [length ?agg, ?W] (concat ?rs)"
      using Some by (simp add: forward_output_def Let_def cr(1) shape_combine_heads)
    then show ?thesis using rows_of_concat[OF l w] Some by (simp add: rows_def)
  qed
qed

text \<open>
  Claim C4. On a valid input \<^verbatim>\<open>forward\<close> returns the output below. The message of an
  edge is the projected feature of its source times the attention weight of the edge
  after dropout, for every head and channel; the messages are summed per target node and
  head; the output has shape \<open>[N, heads * out_channels]\<close> with the heads side by side when
  \<^verbatim>\<open>concat\<close> is set and shape \<open>[N, out_channels]\<close> with the mean over the heads otherwise;
  the bias is added to every row when there is one.
\<close>

theorem messages_and_output:
  assumes "wf_gat self" "valid_config self" "valid_input self x ei ea size'"
  shows "snd (forward self x ei ea size' raw keep)
       = Inr (forward_output self x ei ea keep,
              map_option (\<lambda>b. (ei, Tensor [num_edges ei, heads self]
                                     (concat (attention self x ei ea)))) raw)
    \<and> (\<forall>e<num_edges ei. \<forall>h<heads self. \<forall>c<out_channels self.
          messages self x ei ea keep ! e ! h ! c
            = source_features self x ! nat (edge_sources ei ! e) ! h ! c
              * dropout_entry (dropout self) (training self) (keep e h)
                  (attention self x ei ea ! e ! h))
    \<and> (\<forall>n<num_out x. \<forall>h<heads self. \<forall>c<out_channels self.
          aggregated self x ei ea keep ! n ! h ! c
            = (\<Sum>e\<leftarrow>group (edge_targets ei) (int n). messages self x ei ea keep ! e ! h ! c))
    \<and> shape (forward_output self x ei ea keep)
        = [num_out x, if concat_heads self then heads self * out_channels self
                      else out_channels self]
    \<and> (\<forall>t. x = XTensor t \<longrightarrow> num_out x = shape t ! 0)
    \<and> rows (forward_output self x ei ea keep)
        = map (\<lambda>row. case bias self of None \<Rightarrow> row | Some b \<Rightarrow> map2 (+) row b)
            (if concat_heads self then map concat (aggregated self x ei ea keep)
             else map (\<lambda>node. map (\<lambda>c. (\<Sum>h\<leftarrow>[0..<heads self]. node ! h ! c) / real (heads self))
                                 [0..<out_channels self])
                    (aggregated self x ei ea keep))"
proof -
  have c1: "snd (forward self x ei ea size' raw keep)
       = Inr (forward_output self x ei ea keep,
              map_option (\<lambda>b. (ei, Tensor [num_edges ei, heads self]
                                     (concat (attention self x ei ea)))) raw)"
    by (simp add: forward_valid[OF assms])
  have c2: "\<forall>e<num_edges ei. \<forall>h<heads self. \<forall>c<out_channels self.
          messages self x ei ea keep ! e ! h ! c
            = source_features self x ! nat (edge_sources ei ! e) ! h ! c
              * dropout_entry (dropout self) (training self) (keep e h)
                  (attention self x ei ea ! e ! h)"
    using messages_nth[OF assms] by blast
  have c3: "\<forall>n<num_out x. \<forall>h<heads self. \<forall>c<out_channels self.
          aggregated self x ei ea keep ! n ! h ! c
            = (\<Sum>e\<leftarrow>group (edge_targets ei) (int n). messages self x ei ea keep ! e ! h ! c)"
    by (simp add: aggregated_nth)
  have c4: "shape (forward_output self x ei ea keep)
        = [num_out x, if concat_heads self then heads self * out_channels self
                      else out_channels self]"
    by (rule shape_forward_output)
  have c5: "\<forall>t. x = XTensor t \<longrightarrow> num_out x = shape t ! 0"
    by (simp add: num_out_def)
  have c6: "rows (forward_output self x ei ea keep)
        = map (\<lambda>row. case bias self of None \<Rightarrow> row | Some b \<Rightarrow> map2 (+) row b)
            (if concat_heads self then map concat (aggregated self x ei ea keep)
             else map (\<lambda>node. map (\<lambda>c. (\<Sum>h\<leftarrow>[0..<heads self]. node ! h ! c) / real (heads self))
                                 [0..<out_channels self])
                    (aggregated self x ei ea keep))"
    using forward_output_rows[OF assms(1)] by (simp add: head_rows_def)
  show ?thesis
    by (intro conjI) (rule c1, rule c2, rule c3, rule c4, rule c5, rule c6)
qed

text \<open>Claim C4 at the concrete call: the heads are averaged and the output is \<open>[3, 5]\<close>.\<close>

theorem messages_and_output_witness:
  "wf_gat example_gat \<and> valid_config example_gat
   \<and> valid_input example_gat example_x example_edge_index example_edge_attr None
   \<and> snd (forward example_gat example_x example_edge_index example_edge_attr None None
            (\<lambda>e h. True))
       = Inr (forward_output example_gat example_x example_edge_index example_edge_attr
                (\<lambda>e h. True), None)
   \<and> shape (forward_output example_gat example_x example_edge_index example_edge_attr
               (\<lambda>e h. True)) = [3, 5]"
proof -
  note r = messages_and_output[OF example_wf example_config example_valid, of None "\<lambda>e h. True"]
  have c1: "snd (forward example_gat example_x example_edge_index example_edge_attr None None
            (\<lambda>e h. True))
       = Inr (forward_output example_gat example_x example_edge_index example_edge_attr
                (\<lambda>e h. True), None)"
    using conjunct1[OF r] by simp
  have c4: "shape (forward_output example_gat example_x example_edge_index example_edge_attr
               (\<lambda>e h. True))
          = [num_out example_x, if concat_heads example_gat
                                then heads example_gat * out_channels example_gat
                                else out_channels example_gat]"
    by (rule conjunct1[OF conjunct2[OF conjunct2[OF conjunct2[OF r]]]])
  have n: "num_out example_x = 3" by (simp add: num_out_def example_x_def)
  show ?thesis
    using example_wf example_config example_valid c1 c4 by (simp add: n example_fields)
qed

section \<open>Properties of the layer stack\<close>

subsection \<open>The inputs of a layer\<close>

lemma rows_rank2:
  assumes "wf_tensor t" "dim t = 2"
  shows "rows t = rows_of (shape t ! 0) (shape t ! 1) (data t)"
    and "length (rows t) = shape t ! 0"
    and "\<forall>r\<in>set (rows t). length r = shape t ! 1"
    and "length (data t) = shape t ! 0 * shape t ! 1"
proof -
  have sh: "shape t = [shape t ! 0, shape t ! 1]" by (rule shape2[OF assms(2)])
  have b: "butlast (shape t) = [shape t ! 0]" by (subst sh) simp
  have l: "last (shape t) = shape t ! 1" by (subst sh) simp
  show r: "rows t = rows_of (shape t ! 0) (shape t ! 1) (data t)" by (simp add: rows_def b l)
  show "length (rows t) = shape t ! 0" by (simp add: r length_rows_of)
  have "prod_list (shape t) = shape t ! 0 * shape t ! 1" by (subst sh) simp
  then show len: "length (data t) = shape t ! 0 * shape t ! 1"
    using assms(1) by (simp add: wf_tensor_def)
  show "\<forall>r\<in>set (rows t). length r = shape t ! 1"
    unfolding r using rows_of_row_length[OF len] by blast
qed

lemma rows_Tensor2:
  assumes "length rs = n" "\<forall>r\<in>set rs. length r = k"
  shows "rows (Tensor [n, k] (concat rs)) = rs"
  using rows_of_concat[OF assms] by (simp add: rows_def)

lemma index_rows_ok:
  assumes wf: "wf_tensor t" and d: "dim t = 2"
    and idx: "\<forall>i\<in>set (data index). 0 \<le> i \<and> i < int (shape t ! 0)"
  shows "index_tensor t index
       = Inr (Tensor (shape index @ [shape t ! 1]) (concat (map (\<lambda>i. rows t ! nat i) (data index))))"
proof -
  have sh: "shape t = [shape t ! 0, shape t ! 1]" by (rule shape2[OF d])
  have hd: "hd (shape t) = shape t ! 0" by (subst sh) simp
  have tl: "tl (shape t) = [shape t ! 1]" by (subst sh) simp
  have d0: "dim t \<noteq> 0" using d by simp
  have rng: "\<forall>i\<in>set (data index). - int (shape t ! 0) \<le> i \<and> i < int (shape t ! 0)"
    using idx by auto
  have m: "map (\<lambda>i. rows_of (shape t ! 0) (prod_list [shape t ! 1]) (data t) ! nat (i mod int (shape t ! 0))) (data index)
         = map (\<lambda>i. rows t ! nat i) (data index)"
  proof (rule map_cong[OF refl])
    fix i assume "i \<in> set (data index)"
    then have "0 \<le> i" "i < int (shape t ! 0)" using idx by auto
    then show "rows_of (shape t ! 0) (prod_list [shape t ! 1]) (data t) ! nat (i mod int (shape t ! 0)) = rows t ! nat i"
      by (simp add: rows_rank2(1)[OF wf d])
  qed
  have c: "(\<forall>i\<in>set (data index). - int (shape t ! 0) \<le> i \<and> i < int (shape t ! 0)) = True"
    using rng by simp
  show ?thesis
    unfolding index_tensor_def Let_def hd tl m c using d0 by simp
qed

lemma index_vector_ok:
  assumes wf: "wf_tensor t" and sh: "shape t = [n]"
    and idx: "\<forall>i\<in>set (data index). 0 \<le> i \<and> i < int n"
  shows "index_tensor t index = Inr (Tensor (shape index) (map (\<lambda>i. data t ! nat i) (data index)))"
proof -
  have len: "length (data t) = n" using wf sh by (simp add: wf_tensor_def)
  have d0: "dim t \<noteq> 0" using sh by (simp add: dim_def)
  have rng: "\<forall>i\<in>set (data index). - int n \<le> i \<and> i < int n" using idx by auto
  have each: "\<And>i. i \<in> set (data index) \<Longrightarrow> rows_of n 1 (data t) ! nat (i mod int n) = [data t ! nat i]"
  proof -
    fix i assume "i \<in> set (data index)"
    then have i: "0 \<le> i" "i < int n" using idx by auto
    then have j: "nat i < n" by linarith
    have "rows_of n 1 (data t) ! nat i = take 1 (drop (nat i) (data t))"
      using j by (simp add: rows_of_nth)
    also have "\<dots> = [data t ! nat i]"
      using j len by (simp add: take_Suc_conv_app_nth Cons_nth_drop_Suc[symmetric])
    finally show "rows_of n 1 (data t) ! nat (i mod int n) = [data t ! nat i]" using i by simp
  qed
  have m: "map (\<lambda>i. rows_of n (prod_list []) (data t) ! nat (i mod int n)) (data index)
         = map (\<lambda>i. [data t ! nat i]) (data index)"
    by (rule map_cong[OF refl]) (use each in \<open>simp del: One_nat_def\<close>)
  have cc: "concat (map (\<lambda>i. [data t ! nat i]) (data index)) = map (\<lambda>i. data t ! nat i) (data index)"
    by (induction "data index") auto
  have c: "(\<forall>i\<in>set (data index). - int n \<le> i \<and> i < int n) = True"
    using rng by simp
  have hd: "hd (shape t) = n" and tl: "tl (shape t) = []" by (simp_all add: sh)
  show ?thesis
    unfolding index_tensor_def Let_def hd tl m c cc using d0 by simp
qed

lemma cat_rank2:
  assumes "dim a = 2" "dim b = 2" "shape a ! 0 = shape b ! 0"
  shows "cat_last a b
       = Inr (Tensor [shape a ! 0, shape a ! 1 + shape b ! 1] (concat (map2 (@) (rows a) (rows b))))"
proof -
  have sa: "shape a = [shape a ! 0, shape a ! 1]" by (rule shape2[OF assms(1)])
  have sb: "shape b = [shape b ! 0, shape b ! 1]" by (rule shape2[OF assms(2)])
  have na: "shape a \<noteq> [0]" by (subst sa) simp
  have nb: "shape b \<noteq> [0]" by (subst sb) simp
  have ba: "butlast (shape a) = [shape a ! 0]" by (subst sa) simp
  have bb: "butlast (shape b) = [shape a ! 0]" by (subst sb) (simp add: assms(3))
  have la: "last (shape a) = shape a ! 1" by (subst sa) simp
  have lb: "last (shape b) = shape b ! 1" by (subst sb) simp
  show ?thesis
    unfolding cat_last_def using assms(1,2) na nb by (simp add: ba bb la lb)
qed

lemma select_first_edges:
  assumes "valid_edge_index ei n m"
  shows "select_first ei = Inr (Tensor [num_edges ei] (edge_sources ei))"
proof -
  have d: "dim ei = 2" and s0: "shape ei ! 0 = 2"
    using assms by (simp_all add: valid_edge_index_def)
  have sh: "shape ei = [2, num_edges ei]" using shape2[OF d] s0 by (simp add: num_edges_def)
  have "rows ei ! 0 = take (num_edges ei) (data ei)"
    by (simp add: rows_def sh rows_of_def)
  then show ?thesis
    unfolding select_first_def using d by (simp add: sh edge_sources_def)
qed

lemma layer_inputs_ok:
  assumes v: "valid_stack_input h ei ea ins batch"
  shows "layer_inputs h ei ea ins batch
       = Inr (Tensor [shape h ! 0, shape h ! 1 + shape ins ! 1] (concat (node_rows h ins batch)),
              Tensor [num_edges ei, shape ea ! 1 + shape ins ! 1] (concat (edge_rows ei ea ins batch)))"
proof -
  let ?N = "shape h ! 0" and ?E = "num_edges ei" and ?B = "shape ins ! 0" and ?Fi = "shape ins ! 1"
  let ?src = "edge_sources ei"
  have wh: "wf_tensor h" and dh: "dim h = 2" and vei: "valid_edge_index ei ?N ?N"
    and wa: "wf_tensor ea" and da: "dim ea = 2" and ea0: "shape ea ! 0 = ?E"
    and wi: "wf_tensor ins" and di: "dim ins = 2"
    and wb: "wf_tensor batch" and sb: "shape batch = [?N]"
    and bg: "\<forall>g\<in>set (data batch). 0 \<le> g \<and> g < int ?B"
    using v by (simp_all add: valid_stack_input_def)
  have src: "\<forall>i\<in>set ?src. 0 \<le> i \<and> i < int ?N" using vei by (simp add: valid_edge_index_def)
  have lsrc: "length ?src = ?E" by (rule valid_edge_index_rows(1)[OF vei])
  have lb: "length (data batch) = ?N" using wb sb by (simp add: wf_tensor_def)
  have s1: "select_first ei = Inr (Tensor [?E] ?src)" by (rule select_first_edges[OF vei])
  have s2: "index_tensor batch (Tensor [?E] ?src)
          = Inr (Tensor [?E] (map (\<lambda>i. data batch ! nat i) ?src))"
    using index_vector_ok[OF wb sb, of "Tensor [?E] ?src"] src by simp
  have chk: "\<not> (dim ei < 2 \<or> dim ins = 0)"
    using vei di by (simp add: valid_edge_index_def)
  have eb: "\<forall>g\<in>set (map (\<lambda>i. data batch ! nat i) ?src). 0 \<le> g \<and> g < int ?B"
  proof
    fix g assume "g \<in> set (map (\<lambda>i. data batch ! nat i) ?src)"
    then obtain i where i: "i \<in> set ?src" "g = data batch ! nat i" by auto
    then have "nat i < ?N" using src by (metis nat_less_iff)
    then have "g \<in> set (data batch)" using i lb by simp
    then show "0 \<le> g \<and> g < int ?B" using bg by blast
  qed
  have s3: "index_tensor ins (Tensor [?E] (map (\<lambda>i. data batch ! nat i) ?src))
          = Inr (Tensor [?E, ?Fi] (concat (map (\<lambda>i. rows ins ! nat (data batch ! nat i)) ?src)))"
    using index_rows_ok[OF wi di, of "Tensor [?E] (map (\<lambda>i. data batch ! nat i) ?src)"] eb
    by (simp add: comp_def)
  have s5: "index_tensor ins batch
          = Inr (Tensor [?N, ?Fi] (concat (map (\<lambda>g. rows ins ! nat g) (data batch))))"
    using index_rows_ok[OF wi di, of batch] bg by (simp add: sb)
  have insrow: "\<And>g. 0 \<le> g \<Longrightarrow> g < int ?B \<Longrightarrow> length (rows ins ! nat g) = ?Fi"
  proof -
    fix g :: int assume "0 \<le> g" "g < int ?B"
    then have "nat g < length (rows ins)" using rows_rank2(2)[OF wi di] by linarith
    then show "length (rows ins ! nat g) = ?Fi" using rows_rank2(3)[OF wi di] by simp
  qed
  have r3: "rows (Tensor [?E, ?Fi] (concat (map (\<lambda>i. rows ins ! nat (data batch ! nat i)) ?src)))
          = map (\<lambda>i. rows ins ! nat (data batch ! nat i)) ?src"
  proof (rule rows_Tensor2)
    show "length (map (\<lambda>i. rows ins ! nat (data batch ! nat i)) ?src) = ?E" using lsrc by simp
    show "\<forall>r\<in>set (map (\<lambda>i. rows ins ! nat (data batch ! nat i)) ?src). length r = ?Fi"
      using eb insrow by auto
  qed
  have r5: "rows (Tensor [?N, ?Fi] (concat (map (\<lambda>g. rows ins ! nat g) (data batch))))
          = map (\<lambda>g. rows ins ! nat g) (data batch)"
  proof (rule rows_Tensor2)
    show "length (map (\<lambda>g. rows ins ! nat g) (data batch)) = ?N" using lb by simp
    show "\<forall>r\<in>set (map (\<lambda>g. rows ins ! nat g) (data batch)). length r = ?Fi"
      using bg insrow by auto
  qed
  let ?Te = "Tensor [?E, ?Fi] (concat (map (\<lambda>i. rows ins ! nat (data batch ! nat i)) ?src))"
  let ?Tn = "Tensor [?N, ?Fi] (concat (map (\<lambda>g. rows ins ! nat g) (data batch)))"
  have "cat_last ea ?Te
      = Inr (Tensor [shape ea ! 0, shape ea ! 1 + shape ?Te ! 1] (concat (map2 (@) (rows ea) (rows ?Te))))"
    by (rule cat_rank2) (use da in \<open>simp_all add: dim_def ea0\<close>)
  then have s4: "cat_last ea ?Te
          = Inr (Tensor [?E, shape ea ! 1 + ?Fi] (concat (edge_rows ei ea ins batch)))"
    unfolding r3 edge_rows_def by (simp add: ea0)
  have "cat_last h ?Tn
      = Inr (Tensor [shape h ! 0, shape h ! 1 + shape ?Tn ! 1] (concat (map2 (@) (rows h) (rows ?Tn))))"
    by (rule cat_rank2) (use dh in \<open>simp_all add: dim_def\<close>)
  then have s6: "cat_last h ?Tn
          = Inr (Tensor [?N, shape h ! 1 + ?Fi] (concat (node_rows h ins batch)))"
    unfolding r5 node_rows_def by simp
  show ?thesis
    unfolding layer_inputs_def s1 sum.case s2 s3 s4 s5 s6 using chk by simp
qed

lemma node_rows_props:
  assumes v: "valid_stack_input h ei ea ins batch"
  shows "rows (Tensor [shape h ! 0, shape h ! 1 + shape ins ! 1] (concat (node_rows h ins batch)))
           = node_rows h ins batch"
    and "length (node_rows h ins batch) = shape h ! 0"
    and "\<forall>r\<in>set (node_rows h ins batch). length r = shape h ! 1 + shape ins ! 1"
    and "\<forall>n<shape h ! 0. node_rows h ins batch ! n = rows h ! n @ rows ins ! nat (data batch ! n)"
proof -
  let ?N = "shape h ! 0" and ?Fi = "shape ins ! 1" and ?B = "shape ins ! 0"
  have wh: "wf_tensor h" and dh: "dim h = 2"
    and wi: "wf_tensor ins" and di: "dim ins = 2"
    and wb: "wf_tensor batch" and sb: "shape batch = [?N]"
    and bg: "\<forall>g\<in>set (data batch). 0 \<le> g \<and> g < int ?B"
    using v by (simp_all add: valid_stack_input_def)
  have lb: "length (data batch) = ?N" using wb sb by (simp add: wf_tensor_def)
  have lh: "length (rows h) = ?N" by (rule rows_rank2(2)[OF wh dh])
  show l: "length (node_rows h ins batch) = ?N" by (simp add: node_rows_def lb lh)
  show nth: "\<forall>n<?N. node_rows h ins batch ! n = rows h ! n @ rows ins ! nat (data batch ! n)"
    by (simp add: node_rows_def lb lh)
  show w: "\<forall>r\<in>set (node_rows h ins batch). length r = shape h ! 1 + ?Fi"
  proof
    fix r assume "r \<in> set (node_rows h ins batch)"
    then obtain n where n: "n < ?N" "r = node_rows h ins batch ! n"
      using l by (metis in_set_conv_nth)
    have g: "0 \<le> data batch ! n" "data batch ! n < int ?B" using bg n(1) lb by auto
    then have "nat (data batch ! n) < length (rows ins)" using rows_rank2(2)[OF wi di] by linarith
    then have "length (rows ins ! nat (data batch ! n)) = ?Fi" using rows_rank2(3)[OF wi di] by simp
    moreover have "length (rows h ! n) = shape h ! 1" using rows_rank2(3)[OF wh dh] n(1) lh by simp
    ultimately show "length r = shape h ! 1 + ?Fi" using n nth by simp
  qed
  show "rows (Tensor [?N, shape h ! 1 + ?Fi] (concat (node_rows h ins batch))) = node_rows h ins batch"
    by (rule rows_Tensor2[OF l w])
qed

lemma edge_rows_props:
  assumes v: "valid_stack_input h ei ea ins batch"
  shows "rows (Tensor [num_edges ei, shape ea ! 1 + shape ins ! 1] (concat (edge_rows ei ea ins batch)))
           = edge_rows ei ea ins batch"
    and "length (edge_rows ei ea ins batch) = num_edges ei"
    and "\<forall>r\<in>set (edge_rows ei ea ins batch). length r = shape ea ! 1 + shape ins ! 1"
    and "\<forall>e<num_edges ei. edge_rows ei ea ins batch ! e
           = rows ea ! e @ rows ins ! nat (data batch ! nat (edge_sources ei ! e))"
proof -
  let ?N = "shape h ! 0" and ?E = "num_edges ei" and ?Fi = "shape ins ! 1" and ?B = "shape ins ! 0"
  have vei: "valid_edge_index ei ?N ?N"
    and wa: "wf_tensor ea" and da: "dim ea = 2" and ea0: "shape ea ! 0 = ?E"
    and wi: "wf_tensor ins" and di: "dim ins = 2"
    and wb: "wf_tensor batch" and sb: "shape batch = [?N]"
    and bg: "\<forall>g\<in>set (data batch). 0 \<le> g \<and> g < int ?B"
    using v by (simp_all add: valid_stack_input_def)
  have lb: "length (data batch) = ?N" using wb sb by (simp add: wf_tensor_def)
  have la: "length (rows ea) = ?E" using rows_rank2(2)[OF wa da] ea0 by simp
  have ls: "length (edge_sources ei) = ?E" by (rule valid_edge_index_rows(1)[OF vei])
  have src: "\<forall>i\<in>set (edge_sources ei). 0 \<le> i \<and> i < int ?N" using vei by (simp add: valid_edge_index_def)
  show l: "length (edge_rows ei ea ins batch) = ?E" by (simp add: edge_rows_def la ls)
  show nth: "\<forall>e<?E. edge_rows ei ea ins batch ! e
           = rows ea ! e @ rows ins ! nat (data batch ! nat (edge_sources ei ! e))"
    by (simp add: edge_rows_def la ls)
  show w: "\<forall>r\<in>set (edge_rows ei ea ins batch). length r = shape ea ! 1 + ?Fi"
  proof
    fix r assume "r \<in> set (edge_rows ei ea ins batch)"
    then obtain e where e: "e < ?E" "r = edge_rows ei ea ins batch ! e"
      using l by (metis in_set_conv_nth)
    have "edge_sources ei ! e \<in> set (edge_sources ei)" using e(1) ls by simp
    then have "0 \<le> edge_sources ei ! e" "edge_sources ei ! e < int ?N" using src by auto
    then have "nat (edge_sources ei ! e) < ?N" by linarith
    then have "data batch ! nat (edge_sources ei ! e) \<in> set (data batch)" using lb by simp
    then have g: "0 \<le> data batch ! nat (edge_sources ei ! e)"
        "data batch ! nat (edge_sources ei ! e) < int ?B" using bg by auto
    then have "nat (data batch ! nat (edge_sources ei ! e)) < length (rows ins)"
      using rows_rank2(2)[OF wi di] by linarith
    then have "length (rows ins ! nat (data batch ! nat (edge_sources ei ! e))) = ?Fi"
      using rows_rank2(3)[OF wi di] by simp
    moreover have "length (rows ea ! e) = shape ea ! 1" using rows_rank2(3)[OF wa da] e(1) la by simp
    ultimately show "length r = shape ea ! 1 + ?Fi" using e nth by simp
  qed
  show "rows (Tensor [?E, shape ea ! 1 + ?Fi] (concat (edge_rows ei ea ins batch))) = edge_rows ei ea ins batch"
    by (rule rows_Tensor2[OF l w])
qed

text \<open>
  Claim C6. For a layer \<open>i\<close> that has instruction vectors, and valid inputs, the loop body
  calls the operator on \<open>x_cat\<close> and \<open>edge_cat\<close>, where row \<open>n\<close> of \<open>x_cat\<close> is the hidden
  state of node \<open>n\<close> followed by the instruction vector of layer \<open>i\<close> for the graph instance
  \<open>batch[n]\<close>, and row \<open>e\<close> of \<open>edge_cat\<close> is the feature vector of edge \<open>e\<close> followed by the
  instruction vector for the graph instance of the source of \<open>e\<close>.
\<close>

theorem instruction_broadcast:
  assumes "i < length instr_vectors"
    and "valid_stack_input h ei ea (instr_vectors ! i) batch"
  shows "\<exists>x_cat edge_cat.
      layer_inputs h ei ea (instr_vectors ! i) batch = Inr (x_cat, edge_cat)
    \<and> layer self ei ea instr_vectors batch keep_alpha keep_h i h
        = skip_connection self i (keep_h i) h
            (forward (convs self ! i) (XTensor x_cat) ei edge_cat None None (keep_alpha i))
    \<and> shape x_cat = [shape h ! 0, shape h ! 1 + shape (instr_vectors ! i) ! 1]
    \<and> shape edge_cat = [num_edges ei, shape ea ! 1 + shape (instr_vectors ! i) ! 1]
    \<and> (\<forall>n<shape h ! 0.
          rows x_cat ! n = rows h ! n @ rows (instr_vectors ! i) ! nat (data batch ! n))
    \<and> (\<forall>e<num_edges ei.
          rows edge_cat ! e
            = rows ea ! e
              @ rows (instr_vectors ! i) ! nat (data batch ! nat (edge_sources ei ! e)))"
proof -
  let ?ins = "instr_vectors ! i"
  let ?x = "Tensor [shape h ! 0, shape h ! 1 + shape ?ins ! 1] (concat (node_rows h ?ins batch))"
  let ?e = "Tensor [num_edges ei, shape ea ! 1 + shape ?ins ! 1] (concat (edge_rows ei ea ?ins batch))"
  note li = layer_inputs_ok[OF assms(2)]
  have l: "layer self ei ea instr_vectors batch keep_alpha keep_h i h
        = skip_connection self i (keep_h i) h
            (forward (convs self ! i) (XTensor ?x) ei ?e None None (keep_alpha i))"
    using assms(1) by (simp add: layer_def li)
  have n: "\<forall>n<shape h ! 0. rows ?x ! n = rows h ! n @ rows ?ins ! nat (data batch ! n)"
    unfolding node_rows_props(1)[OF assms(2)] by (rule node_rows_props(4)[OF assms(2)])
  have e: "\<forall>e<num_edges ei. rows ?e ! e
            = rows ea ! e @ rows ?ins ! nat (data batch ! nat (edge_sources ei ! e))"
    unfolding edge_rows_props(1)[OF assms(2)] by (rule edge_rows_props(4)[OF assms(2)])
  show ?thesis
    by (rule exI[of _ ?x], rule exI[of _ ?e]) (use li l n e in simp)
qed

text \<open>
  Claim C6 with the batch assignment \<open>[0, 0, 1, 1, 1]\<close>: the nodes 0 and 1 receive the
  instruction \<open>[10]\<close> of graph 0 and the nodes 2, 3, 4 the instruction \<open>[20]\<close> of graph 1;
  the edge from node 0 receives \<open>[10]\<close> and the edge from node 3 receives \<open>[20]\<close>.
\<close>

lemma example_graph_sources:
  "edge_sources example_graph_edges = [0, 3]" "edge_targets example_graph_edges = [1, 4]"
  "num_edges example_graph_edges = 2"
  by (simp_all add: edge_sources_def edge_targets_def num_edges_def example_graph_edges_def
      rows_def rows_of_def upt_conv_Cons)

lemma example_stack_valid:
  "valid_stack_input example_h example_graph_edges example_graph_attr (example_instr ! 0) example_batch"
  unfolding valid_stack_input_def valid_edge_index_def example_graph_sources
  by (simp add: example_h_def example_graph_attr_def example_instr_def example_batch_def
      wf_tensor_def dim_def)
     (simp add: example_graph_edges_def)

lemma example_rows:
  "rows example_h = [[1], [2], [3], [4], [5]]"
  "rows (example_instr ! 0) = [[10], [20]]"
  "rows example_graph_attr = [[7], [8]]"
  by (simp_all add: rows_def rows_of_def upt_conv_Cons example_h_def example_instr_def
      example_graph_attr_def)

theorem instruction_broadcast_witness:
  "0 < length example_instr
   \<and> valid_stack_input example_h example_graph_edges example_graph_attr (example_instr ! 0)
        example_batch
   \<and> data example_batch = [0, 0, 1, 1, 1]
   \<and> (\<exists>x_cat edge_cat.
        layer_inputs example_h example_graph_edges example_graph_attr (example_instr ! 0)
          example_batch = Inr (x_cat, edge_cat)
        \<and> shape x_cat = [5, 2] \<and> shape edge_cat = [2, 2]
        \<and> rows x_cat ! 0 = [1, 10] \<and> rows x_cat ! 1 = [2, 10] \<and> rows x_cat ! 2 = [3, 20]
        \<and> rows x_cat ! 3 = [4, 20] \<and> rows x_cat ! 4 = [5, 20]
        \<and> rows edge_cat ! 0 = [7, 10] \<and> rows edge_cat ! 1 = [8, 20])"
proof -
  have i: "0 < length example_instr" by (simp add: example_instr_def)
  obtain x_cat edge_cat where
    li: "layer_inputs example_h example_graph_edges example_graph_attr (example_instr ! 0)
          example_batch = Inr (x_cat, edge_cat)"
    and sx: "shape x_cat = [shape example_h ! 0, shape example_h ! 1 + shape (example_instr ! 0) ! 1]"
    and se: "shape edge_cat = [num_edges example_graph_edges,
                               shape example_graph_attr ! 1 + shape (example_instr ! 0) ! 1]"
    and rx: "\<forall>n<shape example_h ! 0.
          rows x_cat ! n = rows example_h ! n @ rows (example_instr ! 0) ! nat (data example_batch ! n)"
    and re: "\<forall>e<num_edges example_graph_edges.
          rows edge_cat ! e
            = rows example_graph_attr ! e
              @ rows (example_instr ! 0) ! nat (data example_batch ! nat (edge_sources example_graph_edges ! e))"
    using instruction_broadcast[OF i example_stack_valid] by blast
  have b: "data example_batch = [0, 0, 1, 1, 1]" by (simp add: example_batch_def)
  have n5: "shape example_h ! 0 = 5" by (simp add: example_h_def)
  have x: "rows x_cat ! 0 = [1, 10]" "rows x_cat ! 1 = [2, 10]" "rows x_cat ! 2 = [3, 20]"
      "rows x_cat ! 3 = [4, 20]" "rows x_cat ! 4 = [5, 20]"
    using rx by (simp_all add: n5 example_rows b)
  have e: "rows edge_cat ! 0 = [7, 10]" "rows edge_cat ! 1 = [8, 20]"
    using re by (simp_all add: example_graph_sources example_rows b)
  have s: "shape x_cat = [5, 2]" "shape edge_cat = [2, 2]"
    using sx se by (simp_all add: example_h_def example_instr_def example_graph_attr_def
        example_graph_sources)
  show ?thesis using i example_stack_valid b li s x e by blast
qed


section \<open>The stack of layers: skip connection and what follows it\<close>

subsection \<open>Adding two tensors of one shape, ReLU and dropout\<close>

lemma expand_same: "length xs = prod_list sh \<Longrightarrow> expand sh sh xs = xs"
proof (induction sh arbitrary: xs)
  case Nil then show ?case by simp
next
  case (Cons d ds)
  have len: "length xs = d * prod_list ds" using Cons.prems by simp
  have "map (expand ds ds) (rows_of d (prod_list ds) xs) = rows_of d (prod_list ds) xs"
  proof (rule map_idI)
    fix r assume "r \<in> set (rows_of d (prod_list ds) xs)"
    then have "length r = prod_list ds" using rows_of_row_length[OF len] by blast
    then show "expand ds ds r = r" by (rule Cons.IH)
  qed
  then show ?case using concat_rows_of[OF len] by simp
qed

lemma broadcast_shapes_same: "broadcast_shapes sh sh = Some sh"
  by (induction sh) auto

lemma tensor_add_same:
  assumes "wf_tensor a" "wf_tensor b" "shape a = shape b"
  shows "tensor_add a b = Inr (Tensor (shape a) (map2 (+) (data a) (data b)))"
    and "wf_tensor (Tensor (shape a) (map2 (+) (data a) (data b)))"
proof -
  have la: "length (data a) = prod_list (shape a)" and lb: "length (data b) = prod_list (shape a)"
    using assms by (simp_all add: wf_tensor_def)
  have d: "dim a = dim b" using assms(3) by (simp add: dim_def)
  show "tensor_add a b = Inr (Tensor (shape a) (map2 (+) (data a) (data b)))"
    unfolding tensor_add_def Let_def
    by (simp add: d assms(3)[symmetric] broadcast_shapes_same expand_same[OF la] expand_same[OF lb])
  show "wf_tensor (Tensor (shape a) (map2 (+) (data a) (data b)))"
    using la lb by (simp add: wf_tensor_def)
qed

lemma forward_output_wf:
  assumes wf: "wf_gat self"
  shows "wf_tensor (forward_output self x ei ea keep)"
proof -
  let ?agg = "aggregated self x ei ea keep"
  let ?W = "if concat_heads self then heads self * out_channels self else out_channels self"
  have sh: "\<forall>node\<in>set ?agg. length node = heads self \<and> (\<forall>r\<in>set node. length r = out_channels self)"
    using aggregated_shape by blast
  note cr = combine_heads_rows[OF sh]
  have l: "length (head_rows self ?agg) = length ?agg" by (simp add: head_rows_def)
  have base: "combine_heads self ?agg = Tensor [length ?agg, ?W] (concat (head_rows self ?agg))"
    by (simp add: combine_heads_def view_concat_def mean_heads_def head_rows_def)
  show ?thesis
  proof (cases "bias self")
    case None
    then show ?thesis
      using length_concat_const[OF cr(2)] l
      by (simp add: forward_output_def Let_def base wf_tensor_def)
  next
    case (Some b)
    then have lb: "length b = ?W" using wf by (simp add: wf_gat_def)
    let ?rs = "map (\<lambda>row. map2 (+) row b) (head_rows self ?agg)"
    have w: "\<forall>r\<in>set ?rs. length r = ?W" using cr(2) lb by auto
    have "forward_output self x ei ea keep = Tensor [length ?agg, ?W] (concat ?rs)"
      using Some by (simp add: forward_output_def Let_def cr(1) shape_combine_heads)
    then show ?thesis using length_concat_const[OF w] l by (simp add: wf_tensor_def)
  qed
qed

lemma relu_props: "shape (relu t) = shape t" "wf_tensor t \<Longrightarrow> wf_tensor (relu t)"
  by (simp_all add: relu_def wf_tensor_def)

lemma tensor_dropout_ok:
  assumes "wf_tensor t" "dim t = 2" "0 \<le> p" "p \<le> 1"
  shows "tensor_dropout t p tr keep = Inr (Tensor (shape t) (concat (dropout_rows (rows t) p tr keep)))"
    and "wf_tensor (Tensor (shape t) (concat (dropout_rows (rows t) p tr keep)))"
proof -
  show "tensor_dropout t p tr keep = Inr (Tensor (shape t) (concat (dropout_rows (rows t) p tr keep)))"
    using assms(3,4) by (simp add: tensor_dropout_def F_dropout_ok)
  have w: "\<forall>r\<in>set (dropout_rows (rows t) p tr keep). length r = shape t ! 1"
  proof
    fix r assume "r \<in> set (dropout_rows (rows t) p tr keep)"
    then obtain e where e: "e < length (rows t)" "r = dropout_rows (rows t) p tr keep ! e"
      by (metis in_set_conv_nth length_dropout_rows)
    then show "length r = shape t ! 1"
      using rows_rank2(3)[OF assms(1,2)] by (simp add: length_dropout_row)
  qed
  have sh: "shape t = [shape t ! 0, shape t ! 1]" by (rule shape2[OF assms(2)])
  have "prod_list (shape t) = shape t ! 0 * shape t ! 1" by (subst sh) simp
  then show "wf_tensor (Tensor (shape t) (concat (dropout_rows (rows t) p tr keep)))"
    using length_concat_const[OF w] rows_rank2(2)[OF assms(1,2)]
    by (simp add: wf_tensor_def length_dropout_rows)
qed

subsection \<open>One layer\<close>

lemma conv_input_valid:
  assumes v: "valid_stack_input h ei ea ins batch"
    and c: "valid_conv conv (shape h ! 1) (shape ea ! 1) (shape ins ! 1)"
  shows "valid_input conv
           (XTensor (Tensor [shape h ! 0, shape h ! 1 + shape ins ! 1] (concat (node_rows h ins batch))))
           ei
           (Tensor [num_edges ei, shape ea ! 1 + shape ins ! 1] (concat (edge_rows ei ea ins batch)))
           None"
proof -
  have vei: "valid_edge_index ei (shape h ! 0) (shape h ! 0)"
    using v by (simp add: valid_stack_input_def)
  have wx: "wf_tensor (Tensor [shape h ! 0, shape h ! 1 + shape ins ! 1] (concat (node_rows h ins batch)))"
    using length_concat_const[OF node_rows_props(3)[OF v]] node_rows_props(2)[OF v]
    by (simp add: wf_tensor_def)
  have we: "wf_tensor (Tensor [num_edges ei, shape ea ! 1 + shape ins ! 1] (concat (edge_rows ei ea ins batch)))"
    using length_concat_const[OF edge_rows_props(3)[OF v]] edge_rows_props(2)[OF v]
    by (simp add: wf_tensor_def)
  show ?thesis
    using c vei wx we
    by (simp add: valid_input_def valid_features_def valid_conv_def dim_def)
qed

lemma layer_ok:
  assumes i: "i < length (convs self)" "i < length instr"
    and v: "valid_stack_input h ei ea (instr ! i) batch"
    and c: "valid_conv (convs self ! i) (shape h ! 1) (shape ea ! 1) (shape (instr ! i) ! 1)"
    and p: "0 \<le> seq_dropout self" "seq_dropout self \<le> 1"
    and bn: "i \<noteq> length (convs self) - 1 \<longrightarrow> bn_preserves self i (shape h)"
  shows "\<exists>h'. layer self ei ea instr batch ka kh i h
             = (self\<lparr>convs := (convs self)[i := (convs self ! i)\<lparr>alpha_cache := None\<rparr>]\<rparr>, Inr h')
           \<and> wf_tensor h' \<and> shape h' = shape h
           \<and> layer_step self ei ea instr batch ka kh i h h'"
proof -
  let ?ins = "instr ! i" and ?conv = "convs self ! i"
  let ?x = "Tensor [shape h ! 0, shape h ! 1 + shape ?ins ! 1] (concat (node_rows h ?ins batch))"
  let ?e = "Tensor [num_edges ei, shape ea ! 1 + shape ?ins ! 1] (concat (edge_rows ei ea ?ins batch))"
  let ?res = "forward_output ?conv (XTensor ?x) ei ?e (ka i)"
  let ?s = "Tensor (shape ?res) (map2 (+) (data ?res) (data h))"
  let ?self = "self\<lparr>convs := (convs self)[i := ?conv\<lparr>alpha_cache := None\<rparr>]\<rparr>"
  have wfc: "wf_gat ?conv" and cfg: "valid_config ?conv" and nc: "\<not> concat_heads ?conv"
    and oc: "out_channels ?conv = shape h ! 1"
    using c by (simp_all add: valid_conv_def)
  have wh: "wf_tensor h" and dh: "dim h = 2" using v by (simp_all add: valid_stack_input_def)
  have shh: "shape h = [shape h ! 0, shape h ! 1]" by (rule shape2[OF dh])
  note li = layer_inputs_ok[OF v]
  note vin = conv_input_valid[OF v c]
  have fw: "forward ?conv (XTensor ?x) ei ?e None None (ka i)
          = (?conv\<lparr>alpha_cache := None\<rparr>, Inr (?res, None))"
    using forward_valid[OF wfc cfg vin, of None "ka i"] by simp
  have sres: "shape ?res = shape h"
    using shh by (simp add: shape_forward_output nc oc num_out_def)
  have wres: "wf_tensor ?res" by (rule forward_output_wf[OF wfc])
  have add: "tensor_add ?res h = Inr ?s" and ws: "wf_tensor ?s"
    using tensor_add_same[OF wres wh sres] by simp_all
  have ss: "shape ?s = shape h" using sres by simp
  have lay: "layer self ei ea instr batch ka kh i h
           = (if i \<noteq> length (convs self) - 1
              then (?self, between_layers ?self i (kh i) ?s)
              else (?self, Inr ?s))"
  proof -
    have "layer self ei ea instr batch ka kh i h
        = skip_connection self i (kh i) h (forward ?conv (XTensor ?x) ei ?e None None (ka i))"
      using i(2) li by (simp add: layer_def del: One_nat_def)
    also have "\<dots> = skip_connection self i (kh i) h (?conv\<lparr>alpha_cache := None\<rparr>, Inr (?res, None))"
      by (simp only: fw)
    also have "\<dots> = (if i \<noteq> length (convs self) - 1
              then (?self, between_layers ?self i (kh i) ?s)
              else (?self, Inr ?s))"
      using add by (simp add: skip_connection_def Let_def del: One_nat_def)
    finally show ?thesis .
  qed
  show ?thesis
  proof (cases "i \<noteq> length (convs self) - 1")
    case False
    have "layer_step self ei ea instr batch ka kh i h ?s"
      unfolding layer_step_def using False li fw add by auto
    then show ?thesis using False lay ws ss by auto
  next
    case True
    then have "bn_preserves self i (shape h)" using bn by simp
    then obtain b where b: "(bns self ! i) (seq_training self) ?s = Inr b" "wf_tensor b" "shape b = shape h"
      using ws ss unfolding bn_preserves_def by blast
    have db: "dim (relu b) = 2" using b(3) dh by (simp add: dim_def relu_props)
    let ?h' = "Tensor (shape (relu b)) (concat (dropout_rows (rows (relu b)) (seq_dropout self) (seq_training self) (kh i)))"
    note td = tensor_dropout_ok[OF relu_props(2)[OF b(2)] db p, of "seq_training self" "kh i"]
    have bl: "between_layers ?self i (kh i) ?s = Inr ?h'"
      using b(1) td(1) by (simp add: between_layers_def)
    have "layer_step self ei ea instr batch ka kh i h ?h'"
      unfolding layer_step_def using True li fw add b(1) td(1) by auto
    moreover have "shape ?h' = shape h" using b(3) by (simp add: relu_props)
    ultimately show ?thesis using True lay bl td(2) by auto
  qed
qed

subsection \<open>The whole pass\<close>

lemma valid_stack_input_state:
  assumes "valid_stack_input x ei ea ins batch" "wf_tensor h" "shape h = shape x"
  shows "valid_stack_input h ei ea ins batch"
  using assms by (simp add: valid_stack_input_def dim_def)

lemma layer_step_agree:
  assumes "convs self ! i = convs self0 ! i" "length (convs self) = length (convs self0)"
    "bns self = bns self0" "seq_dropout self = seq_dropout self0"
    "seq_training self = seq_training self0"
  shows "layer_step self ei ea instr batch ka kh i h h'
       = layer_step self0 ei ea instr batch ka kh i h h'"
  unfolding layer_step_def using assms by simp

lemma bn_preserves_agree:
  assumes "bns self = bns self0" "seq_training self = seq_training self0"
  shows "bn_preserves self i sh = bn_preserves self0 i sh"
  unfolding bn_preserves_def using assms by simp

lemma layers_ok:
  assumes v: "valid_stack_call self0 x ei ea instr batch"
    and L: "L = length (convs self0)"
  shows "n = L - k \<Longrightarrow> k \<le> L \<Longrightarrow> length (convs self) = L
     \<Longrightarrow> (\<forall>j. k \<le> j \<and> j < L \<longrightarrow> convs self ! j = convs self0 ! j)
     \<Longrightarrow> bns self = bns self0 \<Longrightarrow> seq_dropout self = seq_dropout self0
     \<Longrightarrow> seq_training self = seq_training self0
     \<Longrightarrow> wf_tensor h \<Longrightarrow> shape h = shape x
     \<Longrightarrow> \<exists>hs. length hs = Suc (L - k) \<and> hs ! 0 = h
            \<and> snd (layers self ei ea instr batch ka kh [k..<L] h) = Inr (hs ! (L - k))
            \<and> (\<forall>i<L - k. layer_step self0 ei ea instr batch ka kh (k + i) (hs ! i) (hs ! Suc i))"
proof (induction n arbitrary: k self h)
  case 0
  then have "[k..<L] = []" by simp
  then show ?case using 0 by (intro exI[of _ "[h]"]) simp
next
  case (Suc n)
  have kL: "k < L" using Suc.prems(1) by simp
  have ki: "k < length instr" using kL v L by (simp add: valid_stack_call_def)
  have ck: "convs self ! k = convs self0 ! k" using Suc.prems(4) kL by simp
  have vk: "valid_stack_input x ei ea (instr ! k) batch"
    and vc0: "valid_conv (convs self0 ! k) (shape x ! 1) (shape ea ! 1) (shape (instr ! k) ! 1)"
    and bn0: "k \<noteq> L - 1 \<longrightarrow> bn_preserves self0 k (shape x)"
    and p: "0 \<le> seq_dropout self0" "seq_dropout self0 \<le> 1"
    using v kL L unfolding valid_stack_call_def by blast+
  have vh: "valid_stack_input h ei ea (instr ! k) batch"
    by (rule valid_stack_input_state[OF vk Suc.prems(8) Suc.prems(9)])
  have vc: "valid_conv (convs self ! k) (shape h ! 1) (shape ea ! 1) (shape (instr ! k) ! 1)"
    using vc0 ck Suc.prems(9) by simp
  have bn: "k \<noteq> length (convs self) - 1 \<longrightarrow> bn_preserves self k (shape h)"
    using bn0 Suc.prems(3,9) bn_preserves_agree[OF Suc.prems(5) Suc.prems(7)] by simp
  have kc: "k < length (convs self)" using kL Suc.prems(3) by simp
  have ps: "0 \<le> seq_dropout self" "seq_dropout self \<le> 1" using p Suc.prems(6) by simp_all
  let ?self = "self\<lparr>convs := (convs self)[k := (convs self ! k)\<lparr>alpha_cache := None\<rparr>]\<rparr>"
  obtain h' where lay: "layer self ei ea instr batch ka kh k h = (?self, Inr h')"
    and wh': "wf_tensor h'" and sh': "shape h' = shape h"
    and st: "layer_step self ei ea instr batch ka kh k h h'"
    using layer_ok[OF kc ki vh vc ps bn, of ka kh] by blast
  have st0: "layer_step self0 ei ea instr batch ka kh k h h'"
    using st layer_step_agree[OF ck _ Suc.prems(5) Suc.prems(6) Suc.prems(7)] Suc.prems(3) L
    by simp
  have "\<exists>hs. length hs = Suc (L - Suc k) \<and> hs ! 0 = h'
            \<and> snd (layers ?self ei ea instr batch ka kh [Suc k..<L] h') = Inr (hs ! (L - Suc k))
            \<and> (\<forall>i<L - Suc k. layer_step self0 ei ea instr batch ka kh (Suc k + i) (hs ! i) (hs ! Suc i))"
  proof (rule Suc.IH)
    show "n = L - Suc k" using Suc.prems(1) by simp
    show "Suc k \<le> L" using kL by simp
    show "length (convs ?self) = L" using Suc.prems(3) by simp
    show "\<forall>j. Suc k \<le> j \<and> j < L \<longrightarrow> convs ?self ! j = convs self0 ! j"
      using Suc.prems(4) by simp
    show "bns ?self = bns self0" using Suc.prems(5) by simp
    show "seq_dropout ?self = seq_dropout self0" using Suc.prems(6) by simp
    show "seq_training ?self = seq_training self0" using Suc.prems(7) by simp
    show "wf_tensor h'" by (rule wh')
    show "shape h' = shape x" using sh' Suc.prems(9) by simp
  qed
  then obtain hs where hs: "length hs = Suc (L - Suc k)" "hs ! 0 = h'"
    "snd (layers ?self ei ea instr batch ka kh [Suc k..<L] h') = Inr (hs ! (L - Suc k))"
    "\<forall>i<L - Suc k. layer_step self0 ei ea instr batch ka kh (Suc k + i) (hs ! i) (hs ! Suc i)"
    by blast
  have up: "[k..<L] = k # [Suc k..<L]" using kL by (rule upt_conv_Cons)
  have run: "layers self ei ea instr batch ka kh [k..<L] h
           = layers ?self ei ea instr batch ka kh [Suc k..<L] h'"
    unfolding up by (simp add: lay)
  have Lk: "L - k = Suc (L - Suc k)" using kL by simp
  have steps: "\<forall>i<L - k. layer_step self0 ei ea instr batch ka kh (k + i) ((h # hs) ! i) ((h # hs) ! Suc i)"
  proof (intro allI impI)
    fix i assume i: "i < L - k"
    show "layer_step self0 ei ea instr batch ka kh (k + i) ((h # hs) ! i) ((h # hs) ! Suc i)"
    proof (cases i)
      case 0
      then show ?thesis using st0 hs(2) by simp
    next
      case (Suc j)
      then have "j < L - Suc k" using i by simp
      then have "layer_step self0 ei ea instr batch ka kh (Suc k + j) (hs ! j) (hs ! Suc j)"
        using hs(4) by blast
      then show ?thesis using Suc by simp
    qed
  qed
  show ?case
    by (rule exI[of _ "h # hs"]) (use hs(1,3) run Lk steps in simp)
qed

text \<open>
  Claim C5. A valid pass over the stack returns, and its hidden states \<open>hs ! 0 = x\<close>,
  \<open>hs ! 1\<close>, ..., \<open>hs ! L\<close> are such that at every layer \<open>i\<close> the output of the attention
  operator is added to the hidden state \<open>hs ! i\<close> before the layer; when \<open>i\<close> is not the
  last layer the sum goes through batch normalisation, then ReLU, then dropout, and the
  result is \<open>hs ! Suc i\<close>; at the last layer \<open>hs ! Suc i\<close> is the sum itself, and it is
  what the pass returns.
\<close>

theorem residual_then_norm_relu_dropout:
  assumes "valid_stack_call self x edge_index edge_attr instr_vectors batch"
  shows "\<exists>hs. length hs = Suc (length (convs self)) \<and> hs ! 0 = x
           \<and> snd (seq_forward self x edge_index edge_attr instr_vectors batch keep_alpha keep_h)
               = Inr (hs ! length (convs self))
           \<and> (\<forall>i<length (convs self).
                layer_step self edge_index edge_attr instr_vectors batch keep_alpha keep_h i
                  (hs ! i) (hs ! Suc i))"
proof (cases "length (convs self) = 0")
  case True
  show ?thesis
    by (rule exI[of _ "[x]"]) (simp add: True seq_forward_def)
next
  case False
  then have "valid_stack_input x edge_index edge_attr (instr_vectors ! 0) batch"
    using assms unfolding valid_stack_call_def by blast
  then have wx: "wf_tensor x" by (simp add: valid_stack_input_def)
  show ?thesis
    using layers_ok[OF assms refl, of "length (convs self)" 0 self x keep_alpha keep_h] wx
    by (simp add: seq_forward_def)
qed

lemma example_stack_fields:
  "length (convs example_stack) = 2" "seq_dropout example_stack = 0"
  "bns example_stack ! 0 = (\<lambda>train t. Inr t)"
  by (simp_all add: example_stack_def gat_seq_init_def)

lemma example_stack_conv:
  assumes "i < 2"
  shows "valid_conv (convs example_stack ! i) 1 1 1"
  using assms
  by (simp add: valid_conv_def gat_init_wf example_stack_def gat_seq_init_def)
     (simp add: valid_config_def gat_init_def Linear_def Let_def)

lemma example_instrs_valid:
  assumes "i < 2"
  shows "valid_stack_input example_h example_graph_edges example_graph_attr (example_instrs ! i)
           example_batch"
proof -
  have "i = 0 \<or> i = 1" using assms by auto
  then show ?thesis
    unfolding valid_stack_input_def valid_edge_index_def example_graph_sources
    by (auto simp: example_h_def example_graph_attr_def example_instrs_def example_batch_def
        wf_tensor_def dim_def example_graph_edges_def)
qed

lemma example_stack_call:
  "valid_stack_call example_stack example_h example_graph_edges example_graph_attr
     example_instrs example_batch"
proof -
  have s: "shape example_h ! 1 = 1" "shape example_graph_attr ! 1 = 1"
    "\<And>i. i < 2 \<Longrightarrow> shape (example_instrs ! i) ! 1 = 1"
    by (auto simp: example_h_def example_graph_attr_def example_instrs_def less_Suc_eq numeral_2_eq_2)
  have bn: "bn_preserves example_stack 0 (shape example_h)"
    by (simp add: bn_preserves_def example_stack_fields)
  show ?thesis
    unfolding valid_stack_call_def example_stack_fields
    using s example_stack_conv example_instrs_valid bn
    by (auto simp: example_instrs_def less_Suc_eq numeral_2_eq_2)
qed

text \<open>
  Claim C5 on the stack of two layers: the pass returns \<open>hs ! 2\<close>, the first layer is
  followed by batch normalisation, ReLU and dropout, the second by nothing.
\<close>

theorem residual_then_norm_relu_dropout_witness:
  "valid_stack_call example_stack example_h example_graph_edges example_graph_attr
     example_instrs example_batch
   \<and> (\<exists>hs. length hs = 3 \<and> hs ! 0 = example_h
        \<and> snd (seq_forward example_stack example_h example_graph_edges example_graph_attr
                 example_instrs example_batch (\<lambda>i e k. True) (\<lambda>i n c. True))
            = Inr (hs ! 2)
        \<and> layer_step example_stack example_graph_edges example_graph_attr example_instrs
            example_batch (\<lambda>i e k. True) (\<lambda>i n c. True) 0 (hs ! 0) (hs ! 1)
        \<and> layer_step example_stack example_graph_edges example_graph_attr example_instrs
            example_batch (\<lambda>i e k. True) (\<lambda>i n c. True) 1 (hs ! 1) (hs ! 2))"
proof -
  obtain hs where hs: "length hs = Suc (length (convs example_stack))" "hs ! 0 = example_h"
    "snd (seq_forward example_stack example_h example_graph_edges example_graph_attr
            example_instrs example_batch (\<lambda>i e k. True) (\<lambda>i n c. True))
       = Inr (hs ! length (convs example_stack))"
    "\<forall>i<length (convs example_stack).
        layer_step example_stack example_graph_edges example_graph_attr example_instrs
          example_batch (\<lambda>i e k. True) (\<lambda>i n c. True) i (hs ! i) (hs ! Suc i)"
    using residual_then_norm_relu_dropout[OF example_stack_call,
        of "\<lambda>i e k. True" "\<lambda>i n c. True"]
    by blast
  have s0: "layer_step example_stack example_graph_edges example_graph_attr example_instrs
          example_batch (\<lambda>i e k. True) (\<lambda>i n c. True) 0 (hs ! 0) (hs ! 1)"
    using hs(4) by (simp add: example_stack_fields)
  have s1: "layer_step example_stack example_graph_edges example_graph_attr example_instrs
          example_batch (\<lambda>i e k. True) (\<lambda>i n c. True) 1 (hs ! 1) (hs ! 2)"
    using spec[OF hs(4), of 1] by (simp add: example_stack_fields numeral_2_eq_2)
  have l3: "length hs = 3" using hs(1) by (simp add: example_stack_fields)
  have r: "snd (seq_forward example_stack example_h example_graph_edges example_graph_attr
                  example_instrs example_batch (\<lambda>i e k. True) (\<lambda>i n c. True))
             = Inr (hs ! 2)"
    using hs(3) by (simp add: example_stack_fields)
  show ?thesis
    using example_stack_call l3 hs(2) r s0 s1 by blast
qed

end
